theory Spec2Isabelle
  imports Complex_Main "HOL-Library.Word"
begin

section \<open>Errors and sequencing\<close>

text \<open>
  The exceptions the modelled code can raise. A computation that may raise returns
  \<open>py_error + 'a\<close>, with \<open>Inl\<close> for the raised exception. \<open>NotANumber\<close> is no
  exception: it marks a tensor whose entries torch computes as NaN (a mean over an empty
  dimension), which the reals do not have; the model stops there.
\<close>

datatype py_error =
  ValueError | AssertionError | IndexError | KeyError | RuntimeError | UnboundLocalError
  | AttributeError | NotANumber

definition bind_err :: "py_error + 'a \<Rightarrow> ('a \<Rightarrow> py_error + 'b) \<Rightarrow> py_error + 'b" where
  "bind_err m f = (case m of Inl e \<Rightarrow> Inl e | Inr x \<Rightarrow> f x)"

definition py_assert :: "bool \<Rightarrow> py_error + unit" where
  "py_assert c = (if c then Inr () else Inl AssertionError)"

section \<open>Target synchronization\<close>

text \<open>
  A parameter tensor is the list of its entries (floating-point numbers are idealised
  as reals throughout); \<open>module.parameters()\<close> is the list of the module's parameter
  tensors, in order.
\<close>

type_synonym ptensor = "real list"
type_synonym params = "ptensor list"

text \<open>
  \<open>target_param.data.copy_(src)\<close>: the target takes the entries of \<open>src\<close>. Tensors of
  different sizes are outside the model (torch broadcasts or raises there); the model
  raises.
\<close>

definition copy_data :: "ptensor \<Rightarrow> ptensor \<Rightarrow> py_error + ptensor" where
  "copy_data dst src = (if length src = length dst then Inr src else Inl RuntimeError)"

text \<open>\<open>target_param.data * (1.0 - self.tau) + param.data * self.tau\<close>, elementwise.\<close>

definition ema_data :: "real \<Rightarrow> ptensor \<Rightarrow> ptensor \<Rightarrow> py_error + ptensor" where
  "ema_data tau target_param param =
     (if length param = length target_param
      then Inr (map (\<lambda>(t, p). t * (1 - tau) + p * tau) (zip target_param param))
      else Inl RuntimeError)"

text \<open>
  \<open>for target_param, param in zip(target.parameters(), online.parameters())\<close>: the loop
  stops at the shorter of the two lists; target parameters beyond it are left as they are.
\<close>

fun full_copy :: "params \<Rightarrow> params \<Rightarrow> py_error + params" where
  "full_copy (t # ts) (p # ps) =
     bind_err (copy_data t p) (\<lambda>t'.
     bind_err (full_copy ts ps) (\<lambda>ts'. Inr (t' # ts')))"
| "full_copy ts [] = Inr ts"
| "full_copy [] ps = Inr []"

fun ema_copy :: "real \<Rightarrow> params \<Rightarrow> params \<Rightarrow> py_error + params" where
  "ema_copy tau (t # ts) (p # ps) =
     bind_err (ema_data tau t p) (\<lambda>v.
     bind_err (copy_data t v) (\<lambda>t'.
     bind_err (ema_copy tau ts ps) (\<lambda>ts'. Inr (t' # ts'))))"
| "ema_copy tau ts [] = Inr ts"
| "ema_copy tau [] ps = Inr []"

section \<open>The agent: configuration and construction\<close>

text \<open>
  \<open>gym\<close> action spaces: \<open>Discrete(n)\<close>, \<open>MultiBinary(n)\<close>, \<open>Box\<close> with its shape, and
  \<open>OtherSpace\<close> for every other value of the argument (another space class, or \<open>None\<close>,
  the default).
\<close>

datatype space = Discrete nat | MultiBinary nat | Box "nat list" | OtherSpace

text \<open>
  The fields of \<open>Agent\<close> that the modelled methods read, and the parameters of its five
  networks. The encoders, the optimizer and the schedule are not part of the model.
\<close>

record agent =
  action_dim :: nat
  discrete :: bool
  multibinary :: bool
  reward_multiplier :: real
  fake_filter :: bool
  offline_coeff :: real
  online_coeff :: real
  tau :: real
  use_target_actor :: bool
  critic_loss_weight :: real
  gammas :: "real list"
  num_critics :: int
  num_critics_td :: int
  critics :: params
  target_critics :: params
  maximized_critics :: params
  actor :: params
  target_actor :: params

text \<open>\<open>hard_sync_targets\<close>: three full copies, in the source's order.\<close>

definition hard_sync_targets :: "'a agent_scheme \<Rightarrow> py_error + 'a agent_scheme" where
  "hard_sync_targets s =
     bind_err (full_copy (target_critics s) (critics s)) (\<lambda>tc.
     bind_err (full_copy (target_actor s) (actor s)) (\<lambda>ta.
     bind_err (full_copy (maximized_critics s) (critics s)) (\<lambda>mc.
     Inr (s\<lparr>target_critics := tc, target_actor := ta, maximized_critics := mc\<rparr>))))"

text \<open>\<open>soft_sync_targets\<close>: two EMA copies with rate \<open>self.tau\<close>, then the full copy
  of the online critics to the maximized critics.\<close>

definition soft_sync_targets :: "'a agent_scheme \<Rightarrow> py_error + 'a agent_scheme" where
  "soft_sync_targets s =
     bind_err (ema_copy (tau s) (target_critics s) (critics s)) (\<lambda>tc.
     bind_err (ema_copy (tau s) (target_actor s) (actor s)) (\<lambda>ta.
     bind_err (full_copy (maximized_critics s) (critics s)) (\<lambda>mc.
     Inr (s\<lparr>target_critics := tc, target_actor := ta, maximized_critics := mc\<rparr>))))"

text \<open>
  The arguments of \<open>Agent.__init__\<close>. The \<open>init_\<close> fields are the parameters the five
  network constructors return (\<open>NCritics\<close> three times and \<open>Actor\<close> twice, each with
  its own random initialisation).
\<close>

record agent_args =
  arg_action_space :: space
  arg_action_dim :: "nat option"
  arg_critic_loss_weight :: real
  arg_num_critics :: int
  arg_num_critics_td :: int
  arg_online_coeff :: real
  arg_offline_coeff :: real
  arg_gamma :: real
  arg_reward_multiplier :: real
  arg_tau :: real
  arg_fake_filter :: bool
  arg_use_target_actor :: bool
  arg_use_multigamma :: bool
  init_critics :: params
  init_target_critics :: params
  init_maximized_critics :: params
  init_actor :: params
  init_target_actor :: params

text \<open>\<open>Multigammas\<close>: the same default list for discrete and continuous actions.\<close>

definition Multigammas_discrete :: "real list" where
  "Multigammas_discrete = [0.1, 0.9, 0.95, 0.97, 0.99, 0.995]"

definition Multigammas_continuous :: "real list" where
  "Multigammas_continuous = [0.1, 0.9, 0.95, 0.97, 0.99, 0.995]"

text \<open>
  Lines 76-92: the action dimension and the two flags. With \<open>action_dim\<close> given, the
  action space is not inspected. \<open>shape[-1]\<close> of a \<open>Box\<close> with the empty shape raises
  \<open>IndexError\<close>.
\<close>

definition init_action_space :: "space \<Rightarrow> nat option \<Rightarrow> py_error + (nat \<times> bool \<times> bool)" where
  "init_action_space sp adim =
     (case adim of
        None \<Rightarrow>
          (case sp of
             Discrete n \<Rightarrow> Inr (n, True, False)
           | MultiBinary n \<Rightarrow> Inr (n, False, True)
           | Box shp \<Rightarrow> (if shp = [] then Inl IndexError else Inr (last shp, False, False))
           | OtherSpace \<Rightarrow> Inl ValueError)
      | Some n \<Rightarrow> Inr (n, False, False))"

definition Agent_init :: "agent_args \<Rightarrow> py_error + agent" where
  "Agent_init args =
     bind_err (init_action_space (arg_action_space args) (arg_action_dim args))
       (\<lambda>(adim, disc, multi).
     let multigammas = (if disc then Multigammas_discrete else Multigammas_continuous);
         gs = (if arg_use_multigamma args then multigammas else []) @ [arg_gamma args]
     in
     bind_err (py_assert (arg_num_critics_td args \<le> arg_num_critics args)) (\<lambda>_.
     hard_sync_targets
       \<lparr>action_dim = adim, discrete = disc, multibinary = multi,
        reward_multiplier = arg_reward_multiplier args,
        fake_filter = arg_fake_filter args,
        offline_coeff = arg_offline_coeff args,
        online_coeff = arg_online_coeff args,
        tau = arg_tau args,
        use_target_actor = arg_use_target_actor args,
        critic_loss_weight = arg_critic_loss_weight args,
        gammas = gs,
        num_critics = arg_num_critics args,
        num_critics_td = arg_num_critics_td args,
        critics = init_critics args,
        target_critics = init_target_critics args,
        maximized_critics = init_maximized_critics args,
        actor = init_actor args,
        target_actor = init_target_actor args\<rparr>))"

text \<open>Parameter lists of the same architecture: tensor by tensor the same size.\<close>

definition same_shape :: "params \<Rightarrow> params \<Rightarrow> bool" where
  "same_shape ts ps = (map length ts = map length ps)"

text \<open>
  The soft update as the specification words it: every entry of the new target is
  \<open>(1 - tau) * old + tau * online\<close>.
\<close>

definition ema_spec :: "real \<Rightarrow> params \<Rightarrow> params \<Rightarrow> params" where
  "ema_spec rate old online =
     map (\<lambda>(t, p). map (\<lambda>(a, b). (1 - rate) * a + rate * b) (zip t p)) (zip old online)"

text \<open>A small agent and constructor arguments, used to run the definitions.\<close>

definition example_args :: agent_args where
  "example_args =
     \<lparr>arg_action_space = Discrete 4, arg_action_dim = None,
      arg_critic_loss_weight = 10, arg_num_critics = 2, arg_num_critics_td = 2,
      arg_online_coeff = 1, arg_offline_coeff = 1 / 10, arg_gamma = 999 / 1000,
      arg_reward_multiplier = 10, arg_tau = 1 / 4, arg_fake_filter = False,
      arg_use_target_actor = True, arg_use_multigamma = True,
      init_critics = [[1, 2], [3]], init_target_critics = [[0, 0], [8]],
      init_maximized_critics = [[5, 5], [5]],
      init_actor = [[4]], init_target_actor = [[0]]\<rparr>"

definition example_agent :: agent where
  "example_agent =
     \<lparr>action_dim = 4, discrete = True, multibinary = False, reward_multiplier = 10,
      fake_filter = False, offline_coeff = 1 / 10, online_coeff = 1, tau = 1 / 4,
      use_target_actor = True, critic_loss_weight = 10, gammas = [9 / 10, 99 / 100],
      num_critics = 2, num_critics_td = 2,
      critics = [[1, 2], [3]], target_critics = [[0, 0], [8]],
      maximized_critics = [[5, 5], [5]],
      actor = [[4]], target_actor = [[0]]\<rparr>"

section \<open>Tensors\<close>

text \<open>
  A tensor is a nested list, batch dimension first. The trailing dimension of size one
  that the source keeps on value tensors for broadcasting (shapes \<open>(B, L, C, G, 1)\<close> and
  \<open>(B, L, G, 1)\<close>) is dropped: a value tensor over batch, time, critic and gamma is a
  \<open>t4\<close>, one over batch, time and gamma a \<open>t3\<close>.
\<close>

type_synonym t2 = "real list list"
type_synonym t3 = "real list list list"
type_synonym t4 = "real list list list list"

definition dim1 :: "'a list list \<Rightarrow> nat" where
  "dim1 t = (case t of [] \<Rightarrow> 0 | r # _ \<Rightarrow> length r)"

definition dim2 :: "'a list list list \<Rightarrow> nat" where
  "dim2 t = (case t of [] \<Rightarrow> 0 | r # _ \<Rightarrow> dim1 r)"

definition is_shape2 :: "nat \<Rightarrow> nat \<Rightarrow> 'a list list \<Rightarrow> bool" where
  "is_shape2 B L t = (length t = B \<and> list_all (\<lambda>r. length r = L) t)"

definition is_shape3 :: "nat \<Rightarrow> nat \<Rightarrow> nat \<Rightarrow> 'a list list list \<Rightarrow> bool" where
  "is_shape3 B L G t = (length t = B \<and> list_all (is_shape2 L G) t)"

definition is_shape4 :: "nat \<Rightarrow> nat \<Rightarrow> nat \<Rightarrow> nat \<Rightarrow> 'a list list list list \<Rightarrow> bool" where
  "is_shape4 B L C G t = (length t = B \<and> list_all (is_shape3 L C G) t)"

text \<open>The tensor of a given shape whose entry at an index is \<open>f\<close> of the index.\<close>

definition tab2 :: "nat \<Rightarrow> nat \<Rightarrow> (nat \<Rightarrow> nat \<Rightarrow> 'a) \<Rightarrow> 'a list list" where
  "tab2 B L f = map (\<lambda>b. map (\<lambda>l. f b l) [0..<L]) [0..<B]"

definition tab3 :: "nat \<Rightarrow> nat \<Rightarrow> nat \<Rightarrow> (nat \<Rightarrow> nat \<Rightarrow> nat \<Rightarrow> 'a) \<Rightarrow> 'a list list list" where
  "tab3 B L G f = map (\<lambda>b. map (\<lambda>l. map (\<lambda>g. f b l g) [0..<G]) [0..<L]) [0..<B]"

definition tab4 ::
  "nat \<Rightarrow> nat \<Rightarrow> nat \<Rightarrow> nat \<Rightarrow> (nat \<Rightarrow> nat \<Rightarrow> nat \<Rightarrow> nat \<Rightarrow> 'a) \<Rightarrow> 'a list list list list" where
  "tab4 B L C G f =
     map (\<lambda>b. map (\<lambda>l. map (\<lambda>c. map (\<lambda>g. f b l c g) [0..<G]) [0..<C]) [0..<L]) [0..<B]"

text \<open>\<open>x.clamp(lo, hi)\<close> on one entry.\<close>

definition clamp :: "real \<Rightarrow> real \<Rightarrow> real \<Rightarrow> real" where
  "clamp lo hi x = min (max x lo) hi"

text \<open>\<open>x[:, 1:, ...]\<close> and \<open>x[:, :-1, ...]\<close>: an empty time dimension stays empty.\<close>

definition drop_first :: "'a list list \<Rightarrow> 'a list list" where
  "drop_first t = map tl t"

definition drop_last :: "'a list list \<Rightarrow> 'a list list" where
  "drop_last t = map butlast t"

text \<open>
  \<open>x.mean(dim)\<close> over one line of the reduced dimension; over an empty line torch
  gives NaN, which is no real number: the callers below stop there.
\<close>

definition mean :: "real list \<Rightarrow> real" where
  "mean xs = sum_list xs / real (length xs)"

section \<open>The batch and the networks\<close>

text \<open>
  \<open>rews\<close> and \<open>dones\<close> keep their trailing feature dimension, which \<open>forward\<close>
  asserts to be of size one.
\<close>

record batch =
  obs :: "(string \<times> t3) list"
  goals :: t3
  rl2s :: t3
  actions :: t3
  rews :: t3
  dones :: t3
  time_idxs :: t2

text \<open>
  The modules whose code is outside the modelled files, as parameters: the two encoders,
  the network architectures as functions of their parameters, the action distribution
  \<open>'d\<close> with its accessors, the recurrent state \<open>'h\<close> of the trajectory encoder, and
  the PopArt layer with its statistics \<open>'p\<close>, which acts on each entry by its gamma
  index. \<open>dist_sample\<close> takes the number of the random draw
  within one forward pass. A critic returns values of shape \<open>(B, L, C, G)\<close>.
\<close>

record ('d, 'p, 'h) modules =
  tstep_encoder :: "(string \<times> t3) list \<Rightarrow> t3 \<Rightarrow> t3 \<Rightarrow> t3"
  traj_encoder :: "t3 \<Rightarrow> t2 \<Rightarrow> 'h option \<Rightarrow> t3 \<times> 'h"
  emb_dim :: nat
  actor_net :: "params \<Rightarrow> t3 \<Rightarrow> 'd"
  actions_differentiable :: bool
  critic_net :: "params \<Rightarrow> t3 \<Rightarrow> t4 \<Rightarrow> t4"
  dist_probs :: "'d \<Rightarrow> t4"
  dist_rsample :: "'d \<Rightarrow> t4"
  dist_mean :: "'d \<Rightarrow> t4"
  dist_sample :: "nat \<Rightarrow> 'd \<Rightarrow> t4"
  dist_log_prob :: "'d \<Rightarrow> t4 \<Rightarrow> t4"
  dist_log_prob_index :: "'d \<Rightarrow> nat list list list \<Rightarrow> t3"
  popart_call :: "'p \<Rightarrow> bool \<Rightarrow> nat \<Rightarrow> real \<Rightarrow> real"
  popart_normalize_values :: "'p \<Rightarrow> nat \<Rightarrow> real \<Rightarrow> real"
  popart_update_stats :: "'p \<Rightarrow> t3 \<Rightarrow> bool list list list \<Rightarrow> 'p"

section \<open>\<open>Agent.forward\<close>\<close>

text \<open>
  Step 1 (lines 336-357). \<open>MAGIC_PAD_VAL\<close> is imported from a module outside the modelled
  files and is a parameter \<open>pad_val\<close>.
\<close>

definition clamp_actions :: "bool \<Rightarrow> t3 \<Rightarrow> t3" where
  "clamp_actions disc a =
     map (map (map (if disc then clamp 0 1 else clamp (- 1) 1))) a"

text \<open>
  \<open>torch.cat((a, a[:, -1, ...].clone().unsqueeze(1)), axis=1)\<close>, then
  \<open>repeat(a_buffer, "b l a -> b l G a")\<close>. Indexing the last timestep of an empty
  time dimension raises.
\<close>

definition make_a_buffer :: "nat \<Rightarrow> t3 \<Rightarrow> py_error + t4" where
  "make_a_buffer G a =
     (if a \<noteq> [] \<and> dim1 a = 0 then Inl IndexError
      else Inr (map (\<lambda>row. map (\<lambda>v. replicate G v) (row @ [last row])) a))"

text \<open>
  \<open>(~((rl2s == pad_val).all(-1, keepdim=True))).float()\<close>: one where the timestep's
  \<open>rl2\<close> vector is not entirely the padding value, zero where it is.
\<close>

definition state_mask_of :: "real \<Rightarrow> t3 \<Rightarrow> t2" where
  "state_mask_of pad_val rl2 =
     map (map (\<lambda>v. if list_all (\<lambda>x. x = pad_val) v then 0 else 1)) rl2"

text \<open>\<open>repeat(state_mask, "b l 1 -> b l G 1")\<close>.\<close>

definition repeat_G :: "nat \<Rightarrow> t2 \<Rightarrow> t3" where
  "repeat_G G m = map (map (\<lambda>x. replicate G x)) m"

text \<open>\<open>repeat(state_mask[...], "b l 1 -> b l C G 1")\<close>.\<close>

definition repeat_CG :: "nat \<Rightarrow> nat \<Rightarrow> t2 \<Rightarrow> t4" where
  "repeat_CG C G m = map (map (\<lambda>x. replicate C (replicate G x))) m"

text \<open>
  \<open>torch.take_along_dim(x, idx, dim=2)\<close> for \<open>x\<close> of shape \<open>(B, L, C, G)\<close> and an index
  tensor of shape \<open>(B, L, K, G)\<close>: entry \<open>(b, l, k, g)\<close> of the result is
  \<open>x[b, l, idx[b, l, k, g], g]\<close>; an index outside \<open>0..C-1\<close> raises.
\<close>

definition take_along_dim2 ::
  "nat \<Rightarrow> nat \<Rightarrow> nat \<Rightarrow> nat \<Rightarrow> nat \<Rightarrow> t4 \<Rightarrow> nat list list list list \<Rightarrow> py_error + t4" where
  "take_along_dim2 B L C K G x idx =
     (if list_all (list_all (list_all (list_all (\<lambda>i. i < C)))) idx
      then Inr (tab4 B L K G (\<lambda>b l k g. x ! b ! l ! (idx ! b ! l ! k ! g) ! g))
      else Inl RuntimeError)"

text \<open>
  Lines 402-404: \<open>r = reward_multiplier * rews\<close> and \<open>d = dones\<close>, repeated over the
  gammas; \<open>ensemble_td_target = r + gamma * (1.0 - d) * q_targ_sp_ap_gp\<close>.
\<close>

definition compute_ensemble_td_target ::
  "real \<Rightarrow> real list \<Rightarrow> nat \<Rightarrow> nat \<Rightarrow> nat \<Rightarrow> t3 \<Rightarrow> t3 \<Rightarrow> t4 \<Rightarrow> t4" where
  "compute_ensemble_td_target rm gs B L1 C rews_t dones_t q_targ =
     tab4 B L1 C (length gs) (\<lambda>b l c g.
       rm * (rews_t ! b ! l ! 0)
       + gs ! g * (1 - dones_t ! b ! l ! 0) * (q_targ ! b ! l ! c ! g))"

text \<open>
  \<open>x.min(2, keepdims=True).values\<close> and \<open>x.mean(2, keepdims=True)\<close> for \<open>x\<close> of shape
  \<open>(B, L, K, G)\<close>. The minimum over an empty dimension raises; the mean over it is NaN.
\<close>

definition min_dim2 :: "nat \<Rightarrow> nat \<Rightarrow> nat \<Rightarrow> nat \<Rightarrow> t4 \<Rightarrow> py_error + t3" where
  "min_dim2 B L K G x =
     (if K = 0 then Inl IndexError
      else Inr (tab3 B L G (\<lambda>b l g. min_list (map (\<lambda>k. x ! b ! l ! k ! g) [0..<K]))))"

definition mean_dim2 :: "nat \<Rightarrow> nat \<Rightarrow> nat \<Rightarrow> nat \<Rightarrow> t4 \<Rightarrow> py_error + t3" where
  "mean_dim2 B L K G x =
     (if K = 0 then Inl NotANumber
      else Inr (tab3 B L G (\<lambda>b l g. mean (map (\<lambda>k. x ! b ! l ! k ! g) [0..<K]))))"

text \<open>
  \<open>torch.randint(low=0, high=C, size=(B, L - 1, num_critics_td, G, 1))\<close>. The generator
  is a parameter \<open>rng\<close> giving a raw number for every position; the draw reduces it into
  \<open>0..C-1\<close>, so every tensor of that shape with entries below \<open>C\<close> is a possible
  outcome, position by position. An empty range or a negative size raises.
\<close>

definition torch_randint ::
  "nat \<Rightarrow> nat \<Rightarrow> nat \<Rightarrow> int \<Rightarrow> nat \<Rightarrow> (nat \<Rightarrow> nat \<Rightarrow> nat \<Rightarrow> nat \<Rightarrow> nat)
     \<Rightarrow> py_error + nat list list list list" where
  "torch_randint C B L1 K G rng =
     (if C = 0 \<or> K < 0 then Inl RuntimeError
      else Inr (tab4 B L1 (nat K) G (\<lambda>b l k g. rng b l k g mod C)))"

text \<open>\<open>critic_mask.all(2, keepdim=True)\<close>.\<close>

definition all_dim2 :: "nat \<Rightarrow> t4 \<Rightarrow> bool list list list" where
  "all_dim2 G x = map (map (\<lambda>cs. map (\<lambda>g. list_all (\<lambda>row. row ! g \<noteq> 0) cs) [0..<G])) x"

text \<open>The local tensors of step 4 (lines 393-427).\<close>

record td_common =
  ap :: t4
  q_targ_sp_ap_gp :: t4
  ensemble_td_target :: t4
  random_subset :: "nat list list list list"
  td_target_rand :: t4
  td_target :: t3

record td_locals = td_common +
  td_target_norm :: t3

text \<open>
  Lines 394-395: the next actions \<open>ap\<close>, from the target actor when \<open>use_target_actor\<close>
  is set and from the online actor's distribution \<open>a_dist\<close> otherwise; the
  probabilities for discrete actions, a sample (the second draw of the pass) otherwise.
\<close>

definition Agent_ap :: "agent \<Rightarrow> ('d, 'p, 'h) modules \<Rightarrow> t3 \<Rightarrow> 'd \<Rightarrow> t4" where
  "Agent_ap ag m s_rep a_dist =
     (let a_prime_dist =
            (if use_target_actor ag then actor_net m (target_actor ag) s_rep else a_dist)
      in if discrete ag then dist_probs m a_prime_dist else dist_sample m 1 a_prime_dist)"

definition Agent_td_targets ::
  "agent \<Rightarrow> ('d, 'p, 'h) modules \<Rightarrow> 'p \<Rightarrow> (nat \<Rightarrow> nat \<Rightarrow> nat \<Rightarrow> nat \<Rightarrow> nat) \<Rightarrow> batch
     \<Rightarrow> t3 \<Rightarrow> 'd \<Rightarrow> t4 \<Rightarrow> nat \<Rightarrow> nat \<Rightarrow> nat \<Rightarrow> py_error + (td_locals \<times> 'p)" where
  "Agent_td_targets ag m pop rng bt s_rep a_dist critic_mask B L D_action =
     (let G = length (gammas ag);
          C = nat (num_critics ag);
          ap1 = Agent_ap ag m s_rep a_dist
      in
      bind_err (py_assert (is_shape4 B L G D_action ap1)) (\<lambda>_.
      let q0 = critic_net m (target_critics ag) (drop_first s_rep) (drop_first ap1) in
      bind_err (py_assert (is_shape4 B (L - 1) C G q0)) (\<lambda>_.
      let q_targ = tab4 B (L - 1) C G (\<lambda>b l c g. popart_call m pop False g (q0 ! b ! l ! c ! g));
          ens = compute_ensemble_td_target (reward_multiplier ag) (gammas ag) B (L - 1) C
                  (rews bt) (dones bt) q_targ
      in
      bind_err (torch_randint C B (L - 1) (num_critics_td ag) G rng) (\<lambda>subset.
      bind_err (take_along_dim2 B (L - 1) C (nat (num_critics_td ag)) G ens subset) (\<lambda>rand.
      bind_err (if online_coeff ag > 0
                then min_dim2 B (L - 1) (nat (num_critics_td ag)) G rand
                else mean_dim2 B (L - 1) (nat (num_critics_td ag)) G rand)
        (\<lambda>td.
      let pop' = popart_update_stats m pop td (all_dim2 G critic_mask);
          td_norm = tab3 B (L - 1) G (\<lambda>b l g. popart_normalize_values m pop' g (td ! b ! l ! g))
      in
      Inr (\<lparr>ap = ap1, q_targ_sp_ap_gp = q_targ, ensemble_td_target = ens,
            random_subset = subset,
            td_target_rand = rand, td_target = td, td_target_norm = td_norm\<rparr>, pop')))))))"

text \<open>
  Steps 3 to 5 under \<open>if not self.fake_filter or self.online_coeff > 0\<close> (lines 380-434):
  the maximized critics on the agent's actions, the online critics on the buffer actions,
  the TD targets and the squared error of the PopArt-normalized values. The result holds
  \<open>q_s_a_agent_g\<close>, \<open>q_s_a_g\<close>, the critic loss, the locals of step 4 and the PopArt
  statistics after their update.
\<close>

definition Agent_critic_step ::
  "agent \<Rightarrow> ('d, 'p, 'h) modules \<Rightarrow> 'p \<Rightarrow> (nat \<Rightarrow> nat \<Rightarrow> nat \<Rightarrow> nat \<Rightarrow> nat) \<Rightarrow> batch
     \<Rightarrow> t3 \<Rightarrow> 'd \<Rightarrow> t4 \<Rightarrow> t4 \<Rightarrow> t4 \<Rightarrow> nat \<Rightarrow> nat \<Rightarrow> nat
     \<Rightarrow> py_error + (t4 \<times> t4 \<times> t4 \<times> td_locals \<times> 'p)" where
  "Agent_critic_step ag m pop rng bt s_rep a_dist a_agent a_buffer critic_mask B L D_action =
     (let G = length (gammas ag);
          C = nat (num_critics ag);
          q_s_a_agent_g = critic_net m (maximized_critics ag) s_rep a_agent
      in
      bind_err (py_assert (is_shape4 B L C G q_s_a_agent_g)) (\<lambda>_.
      let q_s_a_g = critic_net m (critics ag) (drop_last s_rep) (drop_last a_buffer) in
      bind_err (Agent_td_targets ag m pop rng bt s_rep a_dist critic_mask B L D_action)
        (\<lambda>(td, pop').
      bind_err (py_assert (is_shape4 B (L - 1) C G q_s_a_g)) (\<lambda>_.
      let critic_loss = tab4 B (L - 1) C G (\<lambda>b l c g.
            (popart_call m pop' True g (q_s_a_g ! b ! l ! c ! g)
               - td_target_norm td ! b ! l ! g)\<^sup>2)
      in Inr (q_s_a_agent_g, q_s_a_g, critic_loss, td, pop')))))"

text \<open>
  Step 6 (lines 449-456): the actor loss starts as zeros of shape \<open>(B, L - 1, G, 1)\<close>;
  with \<open>online_coeff > 0\<close> the actor must have differentiable actions, and
  \<open>online_coeff * -(popart(q_s_a_agent_g[:, :-1, ...].min(2).values))\<close> is added.
  \<open>q_s_a_agent_g\<close> is bound only when the critic step ran.
\<close>

definition Agent_dpg_loss ::
  "agent \<Rightarrow> ('d, 'p, 'h) modules \<Rightarrow> 'p \<Rightarrow> nat \<Rightarrow> nat \<Rightarrow> t4 option \<Rightarrow> py_error + t3" where
  "Agent_dpg_loss ag m pop B L1 q_s_a_agent_g =
     (let G = length (gammas ag); C = nat (num_critics ag) in
      if online_coeff ag > 0 then
        bind_err (py_assert (actions_differentiable m)) (\<lambda>_.
        case q_s_a_agent_g of
          None \<Rightarrow> Inl UnboundLocalError
        | Some q \<Rightarrow>
            bind_err (min_dim2 B L1 C G q) (\<lambda>q_min.
            Inr (tab3 B L1 G (\<lambda>b l g.
                   0 + online_coeff ag * - popart_call m pop True g (q_min ! b ! l ! g)))))
      else Inr (tab3 B L1 G (\<lambda>b l g. 0)))"

text \<open>
  Lines 466-471: \<open>val_s_g = q_s_a_agent_g[:, :-1, ...].mean(2)\<close>,
  \<open>advantage_a_s_g = q_s_a_g.mean(2) - val_s_g\<close> and
  \<open>filter_ = (advantage_a_s_g > 1e-3).float()\<close>.
\<close>

definition Agent_advantage ::
  "nat \<Rightarrow> nat \<Rightarrow> nat \<Rightarrow> nat \<Rightarrow> t4 \<Rightarrow> t4 \<Rightarrow> py_error + t3" where
  "Agent_advantage B L1 C G q_s_a_g q_s_a_agent_g =
     bind_err (mean_dim2 B L1 C G q_s_a_agent_g) (\<lambda>val_s_g.
     bind_err (mean_dim2 B L1 C G q_s_a_g) (\<lambda>q_mean.
     Inr (tab3 B L1 G (\<lambda>b l g. q_mean ! b ! l ! g - val_s_g ! b ! l ! g))))"

definition Agent_filter :: "t3 \<Rightarrow> t3" where
  "Agent_filter advantage_a_s_g =
     map (map (map (\<lambda>x. if x > 1 / 1000 then 1 else 0))) advantage_a_s_g"

text \<open>
  \<open>x.argmax(-1)\<close> on one line: the index of the first maximal entry. Over an empty
  line torch raises (the callers check).
\<close>

definition argmax_list :: "real list \<Rightarrow> nat" where
  "argmax_list xs = length (takeWhile (\<lambda>x. x \<noteq> Max (set xs)) xs)"

text \<open>
  Lines 475-482: the log-probability of the buffer actions, by kind of action space,
  reduced over the action dimension.
\<close>

definition Agent_logp_a :: "agent \<Rightarrow> ('d, 'p, 'h) modules \<Rightarrow> 'd \<Rightarrow> t4 \<Rightarrow> py_error + t3" where
  "Agent_logp_a ag m a_dist a_buffer =
     (if discrete ag then
        (if list_ex (list_ex (list_ex (\<lambda>v. v = []))) a_buffer then Inl IndexError
         else Inr (dist_log_prob_index m a_dist (map (map (map argmax_list)) a_buffer)))
      else if multibinary ag then
        (let lp = dist_log_prob m a_dist a_buffer in
         if list_ex (list_ex (list_ex (\<lambda>v. v = []))) lp then Inl NotANumber
         else Inr (map (map (map mean)) lp))
      else
        Inr (map (map (map sum_list))
               (dist_log_prob m a_dist
                  (map (map (map (map (clamp (- 995 / 1000) (995 / 1000))))) a_buffer))))"

text \<open>
  Step 7 (lines 463-486): with \<open>offline_coeff > 0\<close>, the filter (the advantage filter, or
  ones under \<open>fake_filter\<close>), the clamped log-probabilities without the duplicated last
  timestep, and \<open>actor_loss += offline_coeff * -(filter_ * logp_a)\<close>. The in-place
  addition needs \<open>logp_a\<close> to have the shape of the actor loss.
\<close>

definition Agent_fbc_loss ::
  "agent \<Rightarrow> ('d, 'p, 'h) modules \<Rightarrow> 'd \<Rightarrow> t4 \<Rightarrow> (t4 \<times> t4) option \<Rightarrow> nat \<Rightarrow> nat \<Rightarrow> t3
     \<Rightarrow> py_error + t3" where
  "Agent_fbc_loss ag m a_dist a_buffer qs B L1 actor_loss =
     (let G = length (gammas ag); C = nat (num_critics ag) in
      if offline_coeff ag > 0 then
        bind_err
          (if \<not> fake_filter ag then
             (case qs of
                None \<Rightarrow> Inl UnboundLocalError
              | Some (q_s_a_agent_g, q_s_a_g) \<Rightarrow>
                  bind_err (Agent_advantage B L1 C G q_s_a_g q_s_a_agent_g)
                    (\<lambda>advantage_a_s_g. Inr (Agent_filter advantage_a_s_g)))
           else Inr (tab3 B L1 G (\<lambda>b l g. 1)))
          (\<lambda>filter1.
        bind_err (Agent_logp_a ag m a_dist a_buffer) (\<lambda>logp0.
        let logp_a = map (map (map (clamp (- 1000) 1000))) (drop_last logp0) in
        bind_err (if is_shape3 B L1 G logp_a then Inr () else Inl RuntimeError) (\<lambda>_.
        Inr (tab3 B L1 G (\<lambda>b l g.
               actor_loss ! b ! l ! g
               + offline_coeff ag * - (filter1 ! b ! l ! g * logp_a ! b ! l ! g))))))
      else Inr actor_loss)"

text \<open>
  \<open>Agent.forward\<close> with \<open>log_step\<close> false (the logged statistics are not part of the
  model). It returns the critic loss (\<open>None\<close> when the critic step did not run), the
  actor loss and the PopArt statistics it leaves behind. \<open>rng\<close> is the generator behind
  \<open>torch.randint\<close>. The encoders return rectangular tensors with a non-empty batch.
\<close>

definition Agent_forward ::
  "agent \<Rightarrow> ('d, 'p, 'h) modules \<Rightarrow> real \<Rightarrow> 'p \<Rightarrow> (nat \<Rightarrow> nat \<Rightarrow> nat \<Rightarrow> nat \<Rightarrow> nat) \<Rightarrow> batch
     \<Rightarrow> py_error + (t4 option \<times> t3 \<times> 'p)" where
  "Agent_forward ag m pad_val pop rng bt =
     (let ob = tstep_encoder m (obs bt) (goals bt) (rl2s bt);
          B = length ob;
          L = dim1 ob;
          a = clamp_actions (discrete ag) (actions bt);
          L1 = dim1 a;
          D_action = dim2 a
      in
      bind_err (py_assert (int L1 = int L - 1)) (\<lambda>_.
      let G = length (gammas ag) in
      bind_err (make_a_buffer G a) (\<lambda>a_buffer.
      let C = nat (num_critics ag) in
      bind_err (py_assert (is_shape3 B (L - 1) 1 (rews bt))) (\<lambda>_.
      bind_err (py_assert (is_shape3 B (L - 1) 1 (dones bt))) (\<lambda>_.
      let state_mask = state_mask_of pad_val (rl2s bt);
          actor_mask = repeat_G G state_mask;
          critic_mask = repeat_CG C G (drop_first state_mask);
          s_rep = fst (traj_encoder m ob (time_idxs bt) None)
      in
      bind_err (py_assert (is_shape3 B L (emb_dim m) s_rep)) (\<lambda>_.
      let a_dist = actor_net m (actor ag) s_rep;
          a_agent = (if discrete ag then dist_probs m a_dist
                     else if actions_differentiable m then dist_rsample m a_dist
                     else dist_sample m 0 a_dist)
      in
      bind_err
        (if \<not> fake_filter ag \<or> online_coeff ag > 0 then
           bind_err (Agent_critic_step ag m pop rng bt s_rep a_dist a_agent a_buffer
                       critic_mask B L D_action)
             (\<lambda>(q_s_a_agent_g, q_s_a_g, critic_loss, td, pop').
                Inr (Some (q_s_a_agent_g, q_s_a_g), Some critic_loss, pop'))
         else Inr (None, None, pop))
        (\<lambda>(qs, critic_loss, pop').
      bind_err (Agent_dpg_loss ag m pop' B (L - 1) (map_option fst qs)) (\<lambda>actor_loss.
      bind_err (Agent_fbc_loss ag m a_dist a_buffer qs B (L - 1) actor_loss) (\<lambda>actor_loss'.
      Inr (critic_loss, actor_loss', pop'))))))))))"

section \<open>\<open>MultiTaskAgent\<close>\<close>

text \<open>\<open>binary_filter(adv, threshold)\<close> (lines 638-647); the default threshold is \<open>0.0\<close>.\<close>

definition binary_filter :: "real \<Rightarrow> t3 \<Rightarrow> bool list list list" where
  "binary_filter threshold adv = map (map (map (\<lambda>x. x > threshold))) adv"

definition binary_filter_default :: "t3 \<Rightarrow> bool list list list" where
  "binary_filter_default = binary_filter 0"

text \<open>
  \<open>MultiTaskAgent\<close> extends \<open>Agent\<close> by the number of resampled actions and the filter
  function, any function from the advantage tensor to a tensor of booleans.
\<close>

record mt_agent = agent +
  fbc_filter_k :: int
  fbc_filter_func :: "t3 \<Rightarrow> bool list list list"

text \<open>
  The two-hot critics (\<open>NCriticsTwoHot\<close>) and the other modules that only
  \<open>MultiTaskAgent\<close> uses, as parameters: the critic returns a distribution \<open>'q\<close> over
  bins for every batch element, timestep, critic and gamma, with its probabilities and
  logits of shape \<open>(B, L, C, G, Bins)\<close>; \<open>bin_dist_to_raw_val\<close> is the value of one such
  distribution and \<open>raw_val_to_label\<close> the label of one value;
  \<open>dist_sample_n K\<close> stands for \<open>sample((K,))\<close>.
\<close>

type_synonym t5 = "real list list list list list"

record ('d, 'q) twohot_modules =
  critic_dist_net :: "params \<Rightarrow> t3 \<Rightarrow> t4 \<Rightarrow> 'q"
  num_bins :: nat
  q_probs :: "'q \<Rightarrow> t5"
  q_logits :: "'q \<Rightarrow> t5"
  bin_dist_to_raw_val :: "real list \<Rightarrow> real"
  raw_val_to_label :: "real \<Rightarrow> real list"
  cross_entropy :: "real list \<Rightarrow> real list \<Rightarrow> real"
  DiscreteLikeContinuous :: "'d \<Rightarrow> 'd"
  dist_log_prob_onehot :: "'d \<Rightarrow> t4 \<Rightarrow> t3"
  dist_sample_n :: "nat \<Rightarrow> 'd \<Rightarrow> t4 list"

definition is_shape5 ::
  "nat \<Rightarrow> nat \<Rightarrow> nat \<Rightarrow> nat \<Rightarrow> nat \<Rightarrow> 'a list list list list list \<Rightarrow> bool" where
  "is_shape5 B L C G N t = (length t = B \<and> list_all (is_shape4 L C G N) t)"

text \<open>\<open>bin_dist_to_raw_vals\<close> on a whole tensor of distributions.\<close>

definition bin_dist_to_raw_vals :: "('d, 'q) twohot_modules \<Rightarrow> 'q \<Rightarrow> t4" where
  "bin_dist_to_raw_vals m2 q = map (map (map (map (bin_dist_to_raw_val m2)))) (q_probs m2 q)"

text \<open>Lines 748-754: the next actions, always a sample (the first draw of the pass).\<close>

definition MultiTaskAgent_ap ::
  "mt_agent \<Rightarrow> ('d, 'p, 'h) modules \<Rightarrow> ('d, 'q) twohot_modules \<Rightarrow> t3 \<Rightarrow> 'd \<Rightarrow> t4" where
  "MultiTaskAgent_ap ag m m2 s_rep a_dist =
     (let a_prime_dist =
            (if use_target_actor ag then
               (let d = actor_net m (target_actor ag) s_rep
                in if discrete ag then DiscreteLikeContinuous m2 d else d)
             else a_dist)
      in dist_sample m 0 a_prime_dist)"

record mt_td_locals = td_common +
  td_target_labels :: t4

text \<open>
  Step 4 of \<open>MultiTaskAgent.forward\<close> (lines 747-787). The drawn subset is aggregated by
  \<open>td_target_rand.mean(2, keepdims=True)\<close>, whatever \<open>online_coeff\<close> is.
\<close>

definition MultiTaskAgent_td_targets ::
  "mt_agent \<Rightarrow> ('d, 'p, 'h) modules \<Rightarrow> ('d, 'q) twohot_modules \<Rightarrow> 'p
     \<Rightarrow> (nat \<Rightarrow> nat \<Rightarrow> nat \<Rightarrow> nat \<Rightarrow> nat) \<Rightarrow> batch \<Rightarrow> t3 \<Rightarrow> 'd \<Rightarrow> t4 \<Rightarrow> nat \<Rightarrow> nat \<Rightarrow> nat
     \<Rightarrow> py_error + (mt_td_locals \<times> 'p)" where
  "MultiTaskAgent_td_targets ag m m2 pop rng bt s_rep a_dist critic_mask B L D_action =
     (let G = length (gammas ag);
          C = nat (num_critics ag);
          Bins = num_bins m2;
          ap1 = MultiTaskAgent_ap ag m m2 s_rep a_dist
      in
      bind_err (py_assert (is_shape4 B L G D_action ap1)) (\<lambda>_.
      let q_dist = critic_dist_net m2 (target_critics ag) (drop_first s_rep) (drop_first ap1) in
      bind_err (py_assert (is_shape5 B (L - 1) C G Bins (q_probs m2 q_dist))) (\<lambda>_.
      let q_targ = bin_dist_to_raw_vals m2 q_dist in
      bind_err (py_assert (is_shape4 B (L - 1) C G q_targ)) (\<lambda>_.
      let ens = compute_ensemble_td_target (reward_multiplier ag) (gammas ag) B (L - 1) C
                  (rews bt) (dones bt) q_targ
      in
      bind_err (torch_randint C B (L - 1) (num_critics_td ag) G rng) (\<lambda>subset.
      bind_err (take_along_dim2 B (L - 1) C (nat (num_critics_td ag)) G ens subset) (\<lambda>rand.
      bind_err (mean_dim2 B (L - 1) (nat (num_critics_td ag)) G rand) (\<lambda>td.
      let pop' = popart_update_stats m pop td (all_dim2 G critic_mask);
          labels = map (map (map (raw_val_to_label m2))) td
      in
      bind_err (py_assert (is_shape4 B (L - 1) G Bins labels)) (\<lambda>_.
      Inr (\<lparr>ap = ap1, q_targ_sp_ap_gp = q_targ, ensemble_td_target = ens,
            random_subset = subset, td_target_rand = rand, td_target = td,
            td_target_labels = labels\<rparr>, pop')))))))))"

text \<open>
  Steps 4 and 5 (lines 743-803): the TD targets, the online critics on the buffer actions
  and the cross-entropy of their logits (without the last timestep) against the labels.
  \<open>F.cross_entropy\<close> needs as many rows of logits as of labels.
\<close>

definition MultiTaskAgent_critic_step ::
  "mt_agent \<Rightarrow> ('d, 'p, 'h) modules \<Rightarrow> ('d, 'q) twohot_modules \<Rightarrow> 'p
     \<Rightarrow> (nat \<Rightarrow> nat \<Rightarrow> nat \<Rightarrow> nat \<Rightarrow> nat) \<Rightarrow> batch \<Rightarrow> t3 \<Rightarrow> 'd \<Rightarrow> t4 \<Rightarrow> t4 \<Rightarrow> nat \<Rightarrow> nat \<Rightarrow> nat
     \<Rightarrow> py_error + ('q \<times> t4 \<times> mt_td_locals \<times> 'p)" where
  "MultiTaskAgent_critic_step ag m m2 pop rng bt s_rep a_dist a_buffer critic_mask B L D_action =
     (let G = length (gammas ag);
          C = nat (num_critics ag);
          Bins = num_bins m2
      in
      bind_err (MultiTaskAgent_td_targets ag m m2 pop rng bt s_rep a_dist critic_mask B L D_action)
        (\<lambda>(td, pop').
      let q_s_a_g = critic_dist_net m2 (critics ag) s_rep a_buffer in
      bind_err (py_assert (is_shape5 B L C G Bins (q_probs m2 q_s_a_g))) (\<lambda>_.
      bind_err (if is_shape5 B L C G Bins (q_logits m2 q_s_a_g) then Inr ()
                else Inl RuntimeError) (\<lambda>_.
      let critic_loss = tab4 B (L - 1) C G (\<lambda>b l c g.
            cross_entropy m2 (q_logits m2 q_s_a_g ! b ! l ! c ! g)
              (td_target_labels td ! b ! l ! g))
      in Inr (q_s_a_g, critic_loss, td, pop')))))"

text \<open>
  Step 6, the filter (lines 821-841). With \<open>fake_filter\<close> unset and \<open>offline_coeff > 0\<close>:
  \<open>K\<close> actions are sampled from the actor and arranged along the batch,
  \<open>"k b l g a -> (b k) l g a"\<close>; the online critics' values are averaged over the critics,
  then over the \<open>K\<close> samples; the advantage is \<open>Q(s, a_buffer)\<close> averaged over the critics
  minus that value; the filter is \<open>self.fbc_filter_func(advantage_s_a)[:, :-1, ...].float()\<close>.
  Otherwise the filter is ones.
\<close>

definition MultiTaskAgent_advantage ::
  "mt_agent \<Rightarrow> ('d, 'p, 'h) modules \<Rightarrow> ('d, 'q) twohot_modules \<Rightarrow> t3 \<Rightarrow> 'd \<Rightarrow> 'q option
     \<Rightarrow> nat \<Rightarrow> nat \<Rightarrow> py_error + t3" where
  "MultiTaskAgent_advantage ag m m2 s_rep a_dist q_s_a_g B L =
     (let G = length (gammas ag);
          C = nat (num_critics ag);
          Bins = num_bins m2;
          K = fbc_filter_k ag
      in
      if K < 0 then Inl RuntimeError
      else
        (let a_agent = concat (transpose (dist_sample_n m2 (nat K) a_dist));
             s_rep_fbc = concat (map (replicate (nat K)) s_rep);
             q_s_a_agent = critic_dist_net m2 (critics ag) s_rep_fbc a_agent
         in
         bind_err (py_assert (is_shape5 (B * nat K) L C G Bins (q_probs m2 q_s_a_agent))) (\<lambda>_.
         bind_err (mean_dim2 (B * nat K) L C G (bin_dist_to_raw_vals m2 q_s_a_agent)) (\<lambda>val_bk.
         bind_err (if K = 0 then Inl NotANumber
                   else Inr (tab3 B L G (\<lambda>b l g.
                          mean (map (\<lambda>k. val_bk ! (b * nat K + k) ! l ! g) [0..<nat K]))))
           (\<lambda>val_s.
         bind_err (case q_s_a_g of
                     None \<Rightarrow> Inl UnboundLocalError
                   | Some q \<Rightarrow> mean_dim2 B L C G (bin_dist_to_raw_vals m2 q)) (\<lambda>q_mean.
         Inr (tab3 B L G (\<lambda>b l g. q_mean ! b ! l ! g - val_s ! b ! l ! g))))))))"

definition MultiTaskAgent_filter ::
  "mt_agent \<Rightarrow> ('d, 'p, 'h) modules \<Rightarrow> ('d, 'q) twohot_modules \<Rightarrow> t3 \<Rightarrow> 'd \<Rightarrow> 'q option
     \<Rightarrow> nat \<Rightarrow> nat \<Rightarrow> py_error + t3" where
  "MultiTaskAgent_filter ag m m2 s_rep a_dist q_s_a_g B L =
     (if \<not> fake_filter ag \<and> offline_coeff ag > 0 then
        bind_err (MultiTaskAgent_advantage ag m m2 s_rep a_dist q_s_a_g B L) (\<lambda>advantage_s_a.
        Inr (map (map (map of_bool)) (drop_last (fbc_filter_func ag advantage_s_a))))
      else Inr (tab3 B (L - 1) (length (gammas ag)) (\<lambda>b l g. 1)))"

text \<open>
  The actor loss of \<open>MultiTaskAgent.forward\<close> starts as the Python number \<open>0.0\<close> and
  becomes a tensor with the first term added to it.
\<close>

datatype loss_val = PyFloat real | LossTensor t3

definition add_loss :: "nat \<Rightarrow> nat \<Rightarrow> nat \<Rightarrow> loss_val \<Rightarrow> t3 \<Rightarrow> loss_val" where
  "add_loss B L1 G acc x =
     (case acc of
        PyFloat v \<Rightarrow> LossTensor (tab3 B L1 G (\<lambda>b l g. v + x ! b ! l ! g))
      | LossTensor t \<Rightarrow> LossTensor (tab3 B L1 G (\<lambda>b l g. t ! b ! l ! g + x ! b ! l ! g)))"

text \<open>Lines 843-853: the filtered log-likelihood term.\<close>

definition MultiTaskAgent_logp_a ::
  "mt_agent \<Rightarrow> ('d, 'p, 'h) modules \<Rightarrow> ('d, 'q) twohot_modules \<Rightarrow> 'd \<Rightarrow> t4 \<Rightarrow> py_error + t3" where
  "MultiTaskAgent_logp_a ag m m2 a_dist a_buffer =
     (if discrete ag then Inr (dist_log_prob_onehot m2 a_dist a_buffer)
      else if multibinary ag then
        (let lp = dist_log_prob m a_dist a_buffer in
         if list_ex (list_ex (list_ex (\<lambda>v. v = []))) lp then Inl NotANumber
         else Inr (map (map (map mean)) lp))
      else
        Inr (map (map (map sum_list))
               (dist_log_prob m a_dist
                  (map (map (map (map (clamp (- 995 / 1000) (995 / 1000))))) a_buffer))))"

definition MultiTaskAgent_fbc_loss ::
  "mt_agent \<Rightarrow> ('d, 'p, 'h) modules \<Rightarrow> ('d, 'q) twohot_modules \<Rightarrow> 'd \<Rightarrow> t4 \<Rightarrow> t3 \<Rightarrow> nat \<Rightarrow> nat
     \<Rightarrow> py_error + loss_val" where
  "MultiTaskAgent_fbc_loss ag m m2 a_dist a_buffer filter1 B L1 =
     (let G = length (gammas ag) in
      if offline_coeff ag > 0 then
        bind_err (MultiTaskAgent_logp_a ag m m2 a_dist a_buffer) (\<lambda>logp0.
        let logp_a = map (map (map (clamp (- 1000) 1000))) (drop_last logp0) in
        bind_err (if is_shape3 B L1 G logp_a \<and> is_shape3 B L1 G filter1 then Inr ()
                  else Inl RuntimeError) (\<lambda>_.
        Inr (add_loss B L1 G (PyFloat 0)
               (tab3 B L1 G (\<lambda>b l g.
                  offline_coeff ag * - (filter1 ! b ! l ! g * logp_a ! b ! l ! g))))))
      else Inr (PyFloat 0))"

text \<open>
  Step 7 (lines 862-871): with \<open>online_coeff > 0\<close> the actor must have differentiable
  actions and the action space must not be discrete; the maximized critics' minimum over
  the ensemble, PopArt-normalized, is subtracted with weight \<open>online_coeff\<close>.
\<close>

definition MultiTaskAgent_dpg_loss ::
  "mt_agent \<Rightarrow> ('d, 'p, 'h) modules \<Rightarrow> ('d, 'q) twohot_modules \<Rightarrow> 'p \<Rightarrow> t3 \<Rightarrow> 'd \<Rightarrow> nat \<Rightarrow> nat
     \<Rightarrow> loss_val \<Rightarrow> py_error + loss_val" where
  "MultiTaskAgent_dpg_loss ag m m2 pop s_rep a_dist B L actor_loss =
     (let G = length (gammas ag); C = nat (num_critics ag) in
      if online_coeff ag > 0 then
        bind_err (py_assert (actions_differentiable m \<and> \<not> discrete ag)) (\<lambda>_.
        let a_agent = dist_rsample m a_dist;
            q_s_a_agent = critic_dist_net m2 (maximized_critics ag) s_rep a_agent
        in
        bind_err (if is_shape5 B L C G (num_bins m2) (q_probs m2 q_s_a_agent) then Inr ()
                  else Inl RuntimeError) (\<lambda>_.
        bind_err (min_dim2 B L C G (bin_dist_to_raw_vals m2 q_s_a_agent)) (\<lambda>q_min.
        Inr (add_loss B (L - 1) G actor_loss
               (tab3 B (L - 1) G (\<lambda>b l g.
                  online_coeff ag * - popart_normalize_values m pop g (q_min ! b ! l ! g)))))))
      else Inr actor_loss)"

text \<open>\<open>MultiTaskAgent.forward\<close> with \<open>log_step\<close> false.\<close>

definition MultiTaskAgent_forward ::
  "mt_agent \<Rightarrow> ('d, 'p, 'h) modules \<Rightarrow> ('d, 'q) twohot_modules \<Rightarrow> real \<Rightarrow> 'p
     \<Rightarrow> (nat \<Rightarrow> nat \<Rightarrow> nat \<Rightarrow> nat \<Rightarrow> nat) \<Rightarrow> batch \<Rightarrow> py_error + (t4 option \<times> loss_val \<times> 'p)" where
  "MultiTaskAgent_forward ag m m2 pad_val pop rng bt =
     (let ob = tstep_encoder m (obs bt) (goals bt) (rl2s bt);
          B = length ob;
          L = dim1 ob;
          a = clamp_actions (discrete ag) (actions bt);
          L1 = dim1 a;
          D_action = dim2 a
      in
      bind_err (py_assert (int L1 = int L - 1)) (\<lambda>_.
      let G = length (gammas ag) in
      bind_err (make_a_buffer G a) (\<lambda>a_buffer.
      let C = nat (num_critics ag) in
      bind_err (py_assert (is_shape3 B (L - 1) 1 (rews bt))) (\<lambda>_.
      bind_err (py_assert (is_shape3 B (L - 1) 1 (dones bt))) (\<lambda>_.
      let state_mask = state_mask_of pad_val (rl2s bt);
          actor_mask = repeat_G G state_mask;
          critic_mask = repeat_CG C G (drop_first state_mask);
          s_rep = fst (traj_encoder m ob (time_idxs bt) None)
      in
      bind_err (py_assert (is_shape3 B L (emb_dim m) s_rep)) (\<lambda>_.
      let a_dist0 = actor_net m (actor ag) s_rep;
          a_dist = (if discrete ag then DiscreteLikeContinuous m2 a_dist0 else a_dist0)
      in
      bind_err
        (if \<not> fake_filter ag \<or> online_coeff ag > 0 then
           bind_err (MultiTaskAgent_critic_step ag m m2 pop rng bt s_rep a_dist a_buffer
                       critic_mask B L D_action)
             (\<lambda>(q_s_a_g, critic_loss, td, pop'). Inr (Some q_s_a_g, Some critic_loss, pop'))
         else Inr (None, None, pop))
        (\<lambda>(q_s_a_g, critic_loss, pop').
      bind_err (MultiTaskAgent_filter ag m m2 s_rep a_dist q_s_a_g B L) (\<lambda>filter1.
      bind_err (MultiTaskAgent_fbc_loss ag m m2 a_dist a_buffer filter1 B (L - 1))
        (\<lambda>actor_loss.
      bind_err (MultiTaskAgent_dpg_loss ag m m2 pop' s_rep a_dist B L actor_loss)
        (\<lambda>actor_loss'.
      Inr (critic_loss, actor_loss', pop')))))))))))"

section \<open>The masked losses (\<open>Experiment.compute_loss\<close>, \<open>Agent._compute_loss\<close>)\<close>

text \<open>
  The values of the returned mapping: \<open>None\<close>, a Python number, a zero-dimensional tensor,
  or such a tensor holding NaN (zero divided by zero).
\<close>

datatype py_scalar = PyNone | PyNumber real | Scalar real | ScalarNaN

record loss_dict =
  entry_critic_loss :: py_scalar
  entry_actor_loss :: py_scalar
  entry_mask :: t2

definition sum3 :: "t3 \<Rightarrow> real" where
  "sum3 x = sum_list (map (\<lambda>r. sum_list (map sum_list r)) x)"

definition sum4 :: "t4 \<Rightarrow> real" where
  "sum4 x = sum_list (map sum3 x)"

text \<open>The elementwise product of two tensors of the same shape.\<close>

definition mul3 :: "t3 \<Rightarrow> t3 \<Rightarrow> py_error + t3" where
  "mul3 x y =
     (if map (map length) x = map (map length) y
      then Inr (map (\<lambda>(r, r'). map (\<lambda>(v, v'). map (\<lambda>(a, b). a * b) (zip v v')) (zip r r'))
                  (zip x y))
      else Inl RuntimeError)"

definition mul4 :: "t4 \<Rightarrow> t4 \<Rightarrow> py_error + t4" where
  "mul4 x y =
     (if map (map (map length)) x = map (map (map length)) y
      then Inr (map (\<lambda>(r, r').
                  map (\<lambda>(u, u'). map (\<lambda>(v, v'). map (\<lambda>(a, b). a * b) (zip v v')) (zip u u'))
                    (zip r r'))
                  (zip x y))
      else Inl RuntimeError)"

text \<open>
  \<open>(mask * loss).sum() / mask.sum()\<close> (learning.py, lines 511-517). With no valid entry
  both sums are zero and the quotient is NaN.
\<close>

definition masked_mean3 :: "t3 \<Rightarrow> t3 \<Rightarrow> py_error + py_scalar" where
  "masked_mean3 msk loss =
     bind_err (mul3 msk loss) (\<lambda>prod.
     Inr (if sum3 msk = 0 then ScalarNaN else Scalar (sum3 prod / sum3 msk)))"

definition masked_mean4 :: "t4 \<Rightarrow> t4 \<Rightarrow> py_error + py_scalar" where
  "masked_mean4 msk loss =
     bind_err (mul4 msk loss) (\<lambda>prod.
     Inr (if sum4 msk = 0 then ScalarNaN else Scalar (sum4 prod / sum4 msk)))"

text \<open>
  \<open>Experiment.compute_loss\<close> (learning.py, lines 502-526) from the two losses that the
  policy's forward pass returned; \<open>C\<close> is \<open>len(self.policy.critics)\<close>. The shape of a
  Python number cannot be read. The logged statistics are not part of the model.
\<close>

definition compute_loss :: "real \<Rightarrow> nat \<Rightarrow> batch \<Rightarrow> t4 option \<Rightarrow> loss_val \<Rightarrow> py_error + loss_dict" where
  "compute_loss pad_val C bt critic_loss actor_loss =
     (case actor_loss of
        PyFloat _ \<Rightarrow> Inl AttributeError
      | LossTensor al \<Rightarrow>
          (let G = dim2 al;
               state_mask = state_mask_of pad_val (rl2s bt);
               critic_state_mask = repeat_CG C G (drop_first state_mask);
               actor_state_mask = repeat_G G (drop_last state_mask)
           in
           bind_err (masked_mean3 actor_state_mask al) (\<lambda>masked_actor_loss.
           bind_err (case critic_loss of
                       Some cl \<Rightarrow> masked_mean4 critic_state_mask cl
                     | None \<Rightarrow> Inr (PyNumber 0)) (\<lambda>masked_critic_loss.
           Inr \<lparr>entry_critic_loss = masked_critic_loss,
                entry_actor_loss = masked_actor_loss,
                entry_mask = state_mask\<rparr>))))"

text \<open>\<open>compute_loss\<close> with the forward pass of each kind of policy in front.\<close>

definition Agent_compute_loss ::
  "agent \<Rightarrow> ('d, 'p, 'h) modules \<Rightarrow> real \<Rightarrow> 'p \<Rightarrow> (nat \<Rightarrow> nat \<Rightarrow> nat \<Rightarrow> nat \<Rightarrow> nat) \<Rightarrow> batch
     \<Rightarrow> py_error + loss_dict" where
  "Agent_compute_loss ag m pad_val pop rng bt =
     bind_err (Agent_forward ag m pad_val pop rng bt) (\<lambda>(critic_loss, actor_loss, pop').
     compute_loss pad_val (nat (num_critics ag)) bt critic_loss (LossTensor actor_loss))"

definition MultiTaskAgent_compute_loss ::
  "mt_agent \<Rightarrow> ('d, 'p, 'h) modules \<Rightarrow> ('d, 'q) twohot_modules \<Rightarrow> real \<Rightarrow> 'p
     \<Rightarrow> (nat \<Rightarrow> nat \<Rightarrow> nat \<Rightarrow> nat \<Rightarrow> nat) \<Rightarrow> batch \<Rightarrow> py_error + loss_dict" where
  "MultiTaskAgent_compute_loss ag m m2 pad_val pop rng bt =
     bind_err (MultiTaskAgent_forward ag m m2 pad_val pop rng bt)
       (\<lambda>(critic_loss, actor_loss, pop').
     compute_loss pad_val (nat (num_critics ag)) bt critic_loss actor_loss)"

section \<open>\<open>Experiment.train_step\<close>\<close>

text \<open>The calls one training step makes, in the order it makes them.\<close>

datatype call =
  Zero_grad | Compute_loss | Backward | Clip_grad_norm | Soft_sync_targets | Get_grad_norms
  | Optimizer_step

record trainer =
  policy :: agent
  calls :: "call list"

text \<open>
  \<open>train_step\<close> (learning.py, lines 539-553). \<open>loss\<close> is the outcome of
  \<open>self.compute_loss\<close>, \<open>sync_gradients\<close> the accelerator's flag, and \<open>optimizer_step\<close>
  the effect of \<open>self.optimizer.step()\<close> on the policy.
\<close>

definition train_step ::
  "(agent \<Rightarrow> agent) \<Rightarrow> bool \<Rightarrow> bool \<Rightarrow> py_error + loss_dict \<Rightarrow> trainer
     \<Rightarrow> py_error + (loss_dict \<times> trainer)" where
  "train_step optimizer_step sync_gradients log_step loss tr =
     (let tr1 = tr\<lparr>calls := calls tr @ [Zero_grad, Compute_loss]\<rparr> in
      bind_err loss (\<lambda>l.
      let tr2 = tr1\<lparr>calls := calls tr1 @ [Backward]\<rparr> in
      bind_err
        (if sync_gradients then
           (let tr3 = tr2\<lparr>calls := calls tr2 @ [Clip_grad_norm]\<rparr> in
            bind_err (soft_sync_targets (policy tr3)) (\<lambda>pol.
            let tr4 = tr3\<lparr>policy := pol, calls := calls tr3 @ [Soft_sync_targets]\<rparr> in
            Inr (if log_step then tr4\<lparr>calls := calls tr4 @ [Get_grad_norms]\<rparr> else tr4)))
         else Inr tr2)
        (\<lambda>tr5.
      Inr (l, tr5\<lparr>policy := optimizer_step (policy tr5),
                  calls := calls tr5 @ [Optimizer_step]\<rparr>))))"

section \<open>Rollout: \<open>get_current_timestep\<close> and \<open>get_actions\<close>\<close>

text \<open>
  \<open>torch.take_along_dim(v, seq_lengths_ - 1, dim=1)\<close> for \<open>v\<close> with batch first and time
  second, and one sequence length per batch element: row \<open>b\<close> of the result is the
  length-one time slice holding \<open>v[b, seq_lengths[b] - 1]\<close>. An index outside
  \<open>0..L-1\<close> raises.
\<close>

definition take_along_time :: "'a list list \<Rightarrow> int list \<Rightarrow> py_error + 'a list list" where
  "take_along_time v seq_lengths =
     (if length seq_lengths \<noteq> length v then Inl RuntimeError
      else if list_all (\<lambda>(row, n). 1 \<le> n \<and> n \<le> int (length row)) (zip v seq_lengths)
      then Inr (map (\<lambda>(row, n). [row ! nat (n - 1)]) (zip v seq_lengths))
      else Inl RuntimeError)"

text \<open>The loop \<open>for k, v in sequences.items()\<close>.\<close>

fun get_current_timestep_items ::
  "(string \<times> 'a list list) list \<Rightarrow> int list \<Rightarrow> py_error + (string \<times> 'a list list) list" where
  "get_current_timestep_items [] seq_lengths = Inr []"
| "get_current_timestep_items ((k, v) # kvs) seq_lengths =
     bind_err (take_along_time v seq_lengths) (\<lambda>t.
     bind_err (get_current_timestep_items kvs seq_lengths) (\<lambda>ts. Inr ((k, t) # ts)))"

text \<open>The argument is a tensor or a dict of tensors (its items, in order).\<close>

datatype 'a sequences = SeqTensor "'a list list" | SeqDict "(string \<times> 'a list list) list"

definition get_current_timestep :: "'a sequences \<Rightarrow> int list \<Rightarrow> py_error + 'a sequences" where
  "get_current_timestep sequences seq_lengths =
     (case sequences of
        SeqTensor v \<Rightarrow>
          bind_err (get_current_timestep_items [(''dummy'', v)] seq_lengths) (\<lambda>timesteps.
          case map_of timesteps ''dummy'' of
            None \<Rightarrow> Inl KeyError
          | Some t \<Rightarrow> Inr (SeqTensor t))
      | SeqDict kvs \<Rightarrow>
          bind_err (get_current_timestep_items kvs seq_lengths) (\<lambda>timesteps.
          Inr (SeqDict timesteps)))"

text \<open>
  \<open>astype(np.uint8)\<close> of a float: the fraction is dropped; a value outside \<open>0..255\<close>
  has no defined result in C and wraps in the model.
\<close>

definition to_uint8 :: "real \<Rightarrow> 8 word" where
  "to_uint8 x = word_of_int (if 0 \<le> x then \<lfloor>x\<rfloor> else \<lceil>x\<rceil>)"

datatype action_array = UInt8 "8 word list list list" | Float32 "real list list list"

text \<open>
  \<open>get_actions\<close> (lines 272-316), in two parts. The first part (lines 285-301) runs
  the encoders and the actor on the current timestep and returns the action
  distribution and the new hidden state. The time axis of length one that \<open>squeeze(1)\<close>
  removes is kept in the model: the actor's distribution and the returned array have
  shape \<open>(B, 1, ...)\<close> here where the source has \<open>(B, ...)\<close>.
\<close>

definition get_action_dists ::
  "agent \<Rightarrow> ('d, 'p, 'h) modules \<Rightarrow> (string \<times> t3) list \<Rightarrow> t3 \<Rightarrow> t3 \<Rightarrow> int list \<Rightarrow> t2
     \<Rightarrow> 'h option \<Rightarrow> py_error + ('d \<times> 'h)" where
  "get_action_dists ag m obs0 goals0 rl2s0 seq_lengths time_idxs0 hidden_state =
     (let using_hidden = (hidden_state \<noteq> None) in
      bind_err
        (if using_hidden then
           bind_err (get_current_timestep_items obs0 seq_lengths) (\<lambda>ob.
           bind_err (take_along_time goals0 seq_lengths) (\<lambda>gl.
           bind_err (take_along_time rl2s0 seq_lengths) (\<lambda>rl.
           bind_err (take_along_time time_idxs0 seq_lengths) (\<lambda>ti. Inr (ob, gl, rl, ti)))))
         else Inr (obs0, goals0, rl2s0, time_idxs0))
        (\<lambda>(ob, gl, rl, ti).
      let tstep_emb = tstep_encoder m ob gl rl;
          (traj_emb, hidden_state') = traj_encoder m tstep_emb ti hidden_state
      in
      bind_err (if \<not> using_hidden then take_along_time traj_emb seq_lengths else Inr traj_emb)
        (\<lambda>traj_emb_t.
      Inr (actor_net m (actor ag) traj_emb_t, hidden_state'))))"

text \<open>
  The second part (lines 302-315): a sample, or with \<open>sample\<close> false the index of the
  largest probability (kept as a dimension of size one) for discrete actions and the
  mean of the distribution otherwise; then the slice \<open>[..., -1, :]\<close> of the last gamma,
  and the cast to \<open>uint8\<close> for discrete actions and \<open>float32\<close> otherwise. \<open>argmax\<close>
  over an empty action dimension and \<open>[..., -1, :]\<close> with no gamma raise.
\<close>

definition select_actions ::
  "agent \<Rightarrow> ('d, 'p, 'h) modules \<Rightarrow> bool \<Rightarrow> 'd \<Rightarrow> py_error + action_array" where
  "select_actions ag m sample action_dists =
     bind_err
       (if sample then Inr (dist_sample m 0 action_dists)
        else if discrete ag then
          (if list_ex (list_ex (list_ex (\<lambda>v. v = []))) (dist_probs m action_dists)
           then Inl IndexError
           else Inr (map (map (map (\<lambda>p. [real (argmax_list p)]))) (dist_probs m action_dists)))
        else Inr (dist_mean m action_dists))
       (\<lambda>acts.
     if list_ex (list_ex (\<lambda>gs. gs = [])) acts then Inl IndexError
     else
       (let primary = map (map last) acts in
        Inr (if discrete ag then UInt8 (map (map (map to_uint8)) primary)
             else Float32 primary)))"

definition get_actions ::
  "agent \<Rightarrow> ('d, 'p, 'h) modules \<Rightarrow> (string \<times> t3) list \<Rightarrow> t3 \<Rightarrow> t3 \<Rightarrow> int list \<Rightarrow> t2
     \<Rightarrow> 'h option \<Rightarrow> bool \<Rightarrow> py_error + (action_array \<times> 'h)" where
  "get_actions ag m obs0 goals0 rl2s0 seq_lengths time_idxs0 hidden_state sample =
     bind_err (get_action_dists ag m obs0 goals0 rl2s0 seq_lengths time_idxs0 hidden_state)
       (\<lambda>(action_dists, hidden_state').
     bind_err (select_actions ag m sample action_dists) (\<lambda>actions1.
     Inr (actions1, hidden_state')))"

text \<open>
  The specification's reading of \<open>get_current_timestep\<close>: for each batch element the
  timestep at index \<open>seq_lengths - 1\<close>, as a time slice of length one. The sequence
  lengths are valid for a tensor when there is one per batch element, each at least one
  and at most the length of that element's time dimension.
\<close>

definition current_timestep_spec :: "'a list list \<Rightarrow> int list \<Rightarrow> 'a list list" where
  "current_timestep_spec v seq_lengths =
     map (\<lambda>b. [v ! b ! nat (seq_lengths ! b - 1)]) [0..<length v]"

definition valid_seq_lengths :: "'a list list \<Rightarrow> int list \<Rightarrow> bool" where
  "valid_seq_lengths v seq_lengths =
     (length seq_lengths = length v
      \<and> list_all (\<lambda>b. 1 \<le> seq_lengths ! b \<and> seq_lengths ! b \<le> int (length (v ! b)))
           [0..<length v])"

text \<open>An example outcome of \<open>compute_loss\<close> and an example trainer.\<close>

definition example_loss :: loss_dict where
  "example_loss =
     \<lparr>entry_critic_loss = Scalar 1, entry_actor_loss = Scalar 2, entry_mask = [[1, 1]]\<rparr>"

definition example_trainer :: trainer where
  "example_trainer = \<lparr>policy = example_agent, calls = []\<rparr>"

text \<open>
  Example modules: the encoders pass the \<open>rl2\<close> vectors through; the actor's
  distribution is its table of probabilities, built from the first actor parameter; every
  parameter tensor of a critic network is one critic, whose value is its first entry plus
  the sum of the action; PopArt is disabled (the identity).
\<close>

definition example_modules :: "(t4, unit, unit) modules" where
  "example_modules =
     \<lparr>tstep_encoder = (\<lambda>ob gl rl. rl),
      traj_encoder = (\<lambda>x ti h. (x, ())),
      emb_dim = 2,
      actor_net = (\<lambda>ps s. map (map (\<lambda>v. [[hd (hd ps), 1, 2, 3], [3, 2, 1, hd (hd ps)]])) s),
      actions_differentiable = False,
      critic_net = (\<lambda>ps s a. map (map (\<lambda>ag. map (\<lambda>p. map (\<lambda>act. hd p + sum_list act) ag) ps)) a),
      dist_probs = (\<lambda>d. d),
      dist_rsample = (\<lambda>d. d),
      dist_mean = (\<lambda>d. d),
      dist_sample = (\<lambda>n d. d),
      dist_log_prob = (\<lambda>d a. d),
      dist_log_prob_index =
        (\<lambda>d idx. map (\<lambda>(db, ib). map (\<lambda>(dl, il). map (\<lambda>(p, i). p ! i) (zip dl il)) (zip db ib))
                     (zip d idx)),
      popart_call = (\<lambda>p n g x. x),
      popart_normalize_values = (\<lambda>p g x. x),
      popart_update_stats = (\<lambda>p t k. p)\<rparr>"

text \<open>
  An example batch: one trajectory of three timesteps, the last one padding (the pad
  value is \<open>4\<close> in the examples), with two one-hot actions.
\<close>

definition example_batch :: batch where
  "example_batch =
     \<lparr>obs = [(''observation'', [[[0], [1], [2]]])],
      goals = [[[0], [0], [0]]],
      rl2s = [[[1, 0], [0, 1], [4, 4]]],
      actions = [[[0, 1, 0, 0], [4, 4, 4, 4]]],
      rews = [[[1], [2]]],
      dones = [[[0], [1]]],
      time_idxs = [[0, 1, 2]]\<rparr>"

definition example_rng :: "nat \<Rightarrow> nat \<Rightarrow> nat \<Rightarrow> nat \<Rightarrow> nat" where
  "example_rng b l k g = k + g"

text \<open>
  An example \<open>MultiTaskAgent\<close> over the same fields, and example two-hot modules: two
  bins with the values \<open>0\<close> and \<open>10\<close>; every parameter tensor of a critic network is
  one critic, which puts the probability (first entry)/10 on the second bin, so that its
  value is its first entry.
\<close>

definition example_mt_agent :: mt_agent where
  "example_mt_agent =
     agent.extend example_agent
       (mt_agent.fields 1 binary_filter_default)"

definition example_twohot :: "(t4, t5) twohot_modules" where
  "example_twohot =
     \<lparr>critic_dist_net =
        (\<lambda>ps s a. map (map (\<lambda>ag. map (\<lambda>p. map (\<lambda>act. [1 - hd p / 10, hd p / 10]) ag) ps)) a),
      num_bins = 2,
      q_probs = (\<lambda>q. q),
      q_logits = (\<lambda>q. q),
      bin_dist_to_raw_val = (\<lambda>pr. 10 * pr ! 1),
      raw_val_to_label = (\<lambda>v. [1 - v / 10, v / 10]),
      cross_entropy = (\<lambda>lg lb. - sum_list (map (\<lambda>(a, b). a * b) (zip lg lb))),
      DiscreteLikeContinuous = (\<lambda>d. d),
      dist_log_prob_onehot =
        (\<lambda>d a. map (\<lambda>(db, ab). map (\<lambda>(dl, al). map (\<lambda>(p, x). sum_list (map (\<lambda>(u, v). u * v) (zip p x)))
                                         (zip dl al)) (zip db ab)) (zip d a)),
      dist_sample_n = (\<lambda>K d. replicate K d)\<rparr>"

text \<open>A zero-dimensional tensor, holding a number or NaN.\<close>

definition is_tensor_scalar :: "py_scalar \<Rightarrow> bool" where
  "is_tensor_scalar s = (case s of Scalar _ \<Rightarrow> True | ScalarNaN \<Rightarrow> True | _ \<Rightarrow> False)"

text \<open>Examples with the online (DPG) term switched off, and with the filter faked too.\<close>

definition example_offline :: agent where
  "example_offline = example_agent\<lparr>online_coeff := 0\<rparr>"

definition example_bc :: agent where
  "example_bc = example_agent\<lparr>online_coeff := 0, fake_filter := True\<rparr>"

definition example_mt_offline :: mt_agent where
  "example_mt_offline = example_mt_agent\<lparr>online_coeff := 0\<rparr>"

text \<open>
  Two loss tensors of the same shape that hold the same values wherever the mask is not
  zero: the second is the first with only the entries at padded positions changed.
\<close>

definition same_on_valid3 :: "t3 \<Rightarrow> t3 \<Rightarrow> t3 \<Rightarrow> bool" where
  "same_on_valid3 msk x y =
     (map (map length) x = map (map length) y
      \<and> list_all (\<lambda>b. list_all (\<lambda>l. list_all (\<lambda>g.
              msk ! b ! l ! g \<noteq> 0 \<longrightarrow> x ! b ! l ! g = y ! b ! l ! g)
            [0..<length (x ! b ! l)]) [0..<length (x ! b)]) [0..<length x])"

definition same_on_valid4 :: "t4 \<Rightarrow> t4 \<Rightarrow> t4 \<Rightarrow> bool" where
  "same_on_valid4 msk x y =
     (map (map (map length)) x = map (map (map length)) y
      \<and> list_all (\<lambda>b. list_all (\<lambda>l. list_all (\<lambda>c. list_all (\<lambda>g.
              msk ! b ! l ! c ! g \<noteq> 0 \<longrightarrow> x ! b ! l ! c ! g = y ! b ! l ! c ! g)
            [0..<length (x ! b ! l ! c)]) [0..<length (x ! b ! l)]) [0..<length (x ! b)])
          [0..<length x])"

text \<open>
  Modelled from the spec: \<open>utils.masked_avg(tensor, mask)\<close>, which \<open>Agent._compute_loss\<close>
  calls and whose module is outside the given sources: the mean that divides the masked
  sum by the sum of its own validity mask.
\<close>

definition masked_avg3 :: "t3 \<Rightarrow> t3 \<Rightarrow> py_error + py_scalar" where
  "masked_avg3 x msk = masked_mean3 msk x"

definition masked_avg4 :: "t4 \<Rightarrow> t4 \<Rightarrow> py_error + py_scalar" where
  "masked_avg4 x msk = masked_mean4 msk x"

text \<open>
  \<open>Agent._compute_loss\<close> (agent.py, lines 184-215), from the two losses its forward pass
  returned; \<open>Agent.forward\<close> always returns a tensor as actor loss.
\<close>

definition Agent_loss_dict :: "real \<Rightarrow> nat \<Rightarrow> batch \<Rightarrow> t4 option \<Rightarrow> t3 \<Rightarrow> py_error + loss_dict" where
  "Agent_loss_dict pad_val C bt critic_loss actor_loss =
     (let G = dim2 actor_loss;
          state_mask = state_mask_of pad_val (rl2s bt);
          critic_state_mask = repeat_CG C G (drop_first state_mask);
          actor_state_mask = repeat_G G (drop_last state_mask)
      in
      bind_err (masked_avg3 actor_loss actor_state_mask) (\<lambda>masked_actor_loss.
      bind_err (case critic_loss of
                  Some cl \<Rightarrow> masked_avg4 cl critic_state_mask
                | None \<Rightarrow> Inr (PyNumber 0)) (\<lambda>masked_critic_loss.
      Inr \<lparr>entry_critic_loss = masked_critic_loss,
           entry_actor_loss = masked_actor_loss,
           entry_mask = state_mask\<rparr>)))"

text \<open>
  An example batch of two trajectories of three timesteps, the second one padded after its
  first timestep, with an actor loss and a critic loss for two gammas and two critics, and
  the same losses with other values at the padded positions.
\<close>

definition example_padded_batch :: batch where
  "example_padded_batch =
     example_batch\<lparr>rl2s := [[[1, 0], [0, 1], [1, 1]], [[1, 0], [4, 4], [4, 4]]]\<rparr>"

definition example_actor_loss :: t3 where
  "example_actor_loss = [[[1, 1], [2, 2]], [[3, 3], [100, 100]]]"

definition example_actor_loss' :: t3 where
  "example_actor_loss' = [[[1, 1], [2, 2]], [[3, 3], [- 7, 55]]]"

definition example_critic_loss :: t4 where
  "example_critic_loss =
     [[[[1, 2], [3, 4]], [[5, 6], [7, 8]]], [[[9, 9], [9, 9]], [[9, 9], [9, 9]]]]"

definition example_critic_loss' :: t4 where
  "example_critic_loss' =
     [[[[1, 2], [3, 4]], [[5, 6], [7, 8]]], [[[0, - 1], [2, 30]], [[400, 5], [6, 7]]]]"

text \<open>
  The example batch with another value at its one padded action. The trajectory has two
  real timesteps and one real action; its third \<open>rl2\<close> vector and its second action are
  padding.
\<close>

definition example_perturbed_batch :: batch where
  "example_perturbed_batch = example_batch\<lparr>actions := [[[0, 1, 0, 0], [0, 0, 9, 0]]]\<rparr>"

text \<open>
  Example rollout inputs in the shape of the specification's test: a 4-action discrete
  space, batch size 2, sequence length 3 and two gammas, with an actor whose
  probabilities depend on the first entry of the embedding, and sequence lengths 3 and 1.
\<close>

definition example_rollout_modules :: "(t4, unit, unit) modules" where
  "example_rollout_modules =
     example_modules
       \<lparr>actor_net := (\<lambda>ps s. map (map (\<lambda>v. [[hd v, 1, 2, 3], [3, 2, hd v, 1 / 2]])) s)\<rparr>"

definition example_rollout_rl2s :: t3 where
  "example_rollout_rl2s = [[[1, 0], [0, 1], [5, 0]], [[1, 0], [4, 4], [4, 4]]]"

definition example_rollout_obs :: "(string \<times> t3) list" where
  "example_rollout_obs = [(''observation'', [[[0], [1], [2]], [[0], [1], [2]]])]"

definition example_rollout_goals :: t3 where
  "example_rollout_goals = [[[0], [0], [0]], [[0], [0], [0]]]"

definition example_rollout_time_idxs :: t2 where
  "example_rollout_time_idxs = [[0, 1, 2], [0, 1, 2]]"

text \<open>
  Examples for the advantage filter. The modules: the actor is uniform over the four
  actions (the log-probability of an action is \<open>-1.386\<close>, the logarithm of \<open>1/4\<close> to
  three decimals), and a critic's value is its first parameter times the second entry of
  the action, divided by \<open>3000\<close>. The agent is \<open>example_offline\<close> right after a
  synchronisation of its maximized critics. The \<open>MultiTaskAgent\<close> is
  \<open>example_mt_offline\<close> configured with \<open>binary_filter\<close> at the threshold \<open>-1e-4\<close>.
\<close>

definition example_filter_modules :: "(t4, unit, unit) modules" where
  "example_filter_modules =
     example_modules
       \<lparr>actor_net := (\<lambda>ps s. map (map (\<lambda>v. replicate 2 (replicate 4 (1 / 4)))) s),
        critic_net :=
          (\<lambda>ps s a. map (map (\<lambda>ag. map (\<lambda>p. map (\<lambda>act. hd p * (act ! 1) / 3000) ag) ps)) a),
        dist_log_prob_index := (\<lambda>d idx. map (map (map (\<lambda>i. - (693 / 500)))) idx)\<rparr>"

definition example_filter_agent :: agent where
  "example_filter_agent = example_offline\<lparr>maximized_critics := critics example_offline\<rparr>"

definition example_mt_threshold :: mt_agent where
  "example_mt_threshold = example_mt_offline\<lparr>fbc_filter_func := binary_filter (- 1 / 10000)\<rparr>"

(*PROPERTIES*)

section \<open>Properties\<close>

subsection \<open>Sequencing\<close>

lemma bind_err_Inr [simp]: "bind_err (Inr x) f = f x"
  by (simp add: bind_err_def)

lemma bind_err_Inl [simp]: "bind_err (Inl e) f = Inl e"
  by (simp add: bind_err_def)

lemma bind_err_eq_Inr: "bind_err m f = Inr y \<longleftrightarrow> (\<exists>x. m = Inr x \<and> f x = Inr y)"
  by (cases m) simp_all

lemma py_assert_True [simp]: "c \<Longrightarrow> py_assert c = Inr ()"
  by (simp add: py_assert_def)

lemma py_assert_False [simp]: "\<not> c \<Longrightarrow> py_assert c = Inl AssertionError"
  by (simp add: py_assert_def)

subsection \<open>Tensors\<close>

lemma tab3_nth [simp]:
  "b < B \<Longrightarrow> l < L \<Longrightarrow> g < G \<Longrightarrow> tab3 B L G f ! b ! l ! g = f b l g"
  by (simp add: tab3_def)

lemma tab4_nth [simp]:
  "b < B \<Longrightarrow> l < L \<Longrightarrow> c < C \<Longrightarrow> g < G \<Longrightarrow> tab4 B L C G f ! b ! l ! c ! g = f b l c g"
  by (simp add: tab4_def)

lemma map_nth_upt: "length xs = n \<Longrightarrow> map (\<lambda>i. xs ! i) [0..<n] = xs"
  using map_nth [of xs] by simp

lemma tab4_of_nth:
  assumes "is_shape4 B L C G t"
  shows "tab4 B L C G (\<lambda>b l c g. t ! b ! l ! c ! g) = t"
proof -
  have len: "length t = B" using assms by (simp add: is_shape4_def)
  have "map (\<lambda>b. map (\<lambda>l. map (\<lambda>c. map (\<lambda>g. t ! b ! l ! c ! g) [0..<G]) [0..<C]) [0..<L]) [0..<B]
        = map (\<lambda>b. t ! b) [0..<B]"
  proof (rule map_cong [OF refl])
    fix b assume "b \<in> set [0..<B]"
    then have b: "b < length t" using len by simp
    then have s3: "is_shape3 L C G (t ! b)"
      using assms by (simp add: is_shape4_def list_all_length)
    have "map (\<lambda>l. map (\<lambda>c. map (\<lambda>g. t ! b ! l ! c ! g) [0..<G]) [0..<C]) [0..<L]
          = map (\<lambda>l. t ! b ! l) [0..<L]"
    proof (rule map_cong [OF refl])
      fix l assume "l \<in> set [0..<L]"
      then have l: "l < length (t ! b)" using s3 by (simp add: is_shape3_def)
      then have s2: "is_shape2 C G (t ! b ! l)"
        using s3 by (simp add: is_shape3_def list_all_length)
      have "map (\<lambda>c. map (\<lambda>g. t ! b ! l ! c ! g) [0..<G]) [0..<C] = map (\<lambda>c. t ! b ! l ! c) [0..<C]"
      proof (rule map_cong [OF refl])
        fix c assume "c \<in> set [0..<C]"
        then have "length (t ! b ! l ! c) = G"
          using s2 by (simp add: is_shape2_def list_all_length)
        then show "map (\<lambda>g. t ! b ! l ! c ! g) [0..<G] = t ! b ! l ! c"
          by (rule map_nth_upt)
      qed
      also have "\<dots> = t ! b ! l"
        using s2 by (intro map_nth_upt) (simp add: is_shape2_def)
      finally show "map (\<lambda>c. map (\<lambda>g. t ! b ! l ! c ! g) [0..<G]) [0..<C] = t ! b ! l" .
    qed
    also have "\<dots> = t ! b"
      using s3 by (intro map_nth_upt) (simp add: is_shape3_def)
    finally show "map (\<lambda>l. map (\<lambda>c. map (\<lambda>g. t ! b ! l ! c ! g) [0..<G]) [0..<C]) [0..<L] = t ! b" .
  qed
  also have "\<dots> = t" using len by (rule map_nth_upt)
  finally show ?thesis by (simp add: tab4_def)
qed

lemma is_shape4_nth:
  "is_shape4 B L C G t \<Longrightarrow> b < B \<Longrightarrow> l < L \<Longrightarrow> k < C \<Longrightarrow>
   length t = B \<and> length (t ! b) = L \<and> length (t ! b ! l) = C \<and> length (t ! b ! l ! k) = G"
  by (simp add: is_shape4_def is_shape3_def is_shape2_def list_all_length)

lemma list_all4_below:
  assumes "is_shape4 B L K G idx"
    and "\<And>b l k g. b < B \<Longrightarrow> l < L \<Longrightarrow> k < K \<Longrightarrow> g < G \<Longrightarrow> idx ! b ! l ! k ! g < C"
  shows "list_all (list_all (list_all (list_all (\<lambda>i. i < C)))) idx"
  using assms is_shape4_nth [OF assms(1)]
  by (simp add: list_all_length is_shape4_def is_shape3_def is_shape2_def)

lemma take_along_dim2_tab:
  "0 < C \<Longrightarrow>
   take_along_dim2 B L C K G x (tab4 B L K G (\<lambda>b l k g. rng b l k g mod C))
   = Inr (tab4 B L K G (\<lambda>b l k g. x ! b ! l ! (rng b l k g mod C) ! g))"
  by (simp add: take_along_dim2_def tab4_def list_all_iff cong: map_cong)

subsection \<open>The TD targets\<close>

lemma torch_randint_pos:
  "0 < C \<Longrightarrow> 0 \<le> K \<Longrightarrow>
   torch_randint C B L K G rng = Inr (tab4 B L (nat K) G (\<lambda>b l k g. rng b l k g mod C))"
  by (simp add: torch_randint_def)

lemma Agent_td_targets_value:
  fixes ag :: agent and m :: "('d, 'p, 'h) modules" and s_rep :: t3 and a_dist :: 'd and pop :: 'p
    and rng :: "nat \<Rightarrow> nat \<Rightarrow> nat \<Rightarrow> nat \<Rightarrow> nat" and bt :: batch and cm :: t4
    and B L :: nat
  defines "G \<equiv> length (gammas ag)" and "C \<equiv> nat (num_critics ag)"
    and "K \<equiv> nat (num_critics_td ag)"
  defines "q0 \<equiv> critic_net m (target_critics ag) (drop_first s_rep)
                   (drop_first (Agent_ap ag m s_rep a_dist))"
  defines "q_targ \<equiv> tab4 B (L - 1) C G (\<lambda>b l c g. popart_call m pop False g (q0 ! b ! l ! c ! g))"
  defines "ens \<equiv> compute_ensemble_td_target (reward_multiplier ag) (gammas ag) B (L - 1) C
                    (rews bt) (dones bt) q_targ"
  defines "rand \<equiv> tab4 B (L - 1) K G (\<lambda>b l k g. ens ! b ! l ! (rng b l k g mod C) ! g)"
  defines "td \<equiv> (if online_coeff ag > 0
                  then tab3 B (L - 1) G (\<lambda>b l g. min_list (map (\<lambda>k. rand ! b ! l ! k ! g) [0..<K]))
                  else tab3 B (L - 1) G (\<lambda>b l g. mean (map (\<lambda>k. rand ! b ! l ! k ! g) [0..<K])))"
  defines "pop' \<equiv> popart_update_stats m pop td (all_dim2 G cm)"
  assumes ap: "is_shape4 B L G D (Agent_ap ag m s_rep a_dist)"
      and q: "is_shape4 B (L - 1) C G q0"
      and C: "0 < num_critics ag" and K: "0 < num_critics_td ag"
  shows "Agent_td_targets ag m pop rng bt s_rep a_dist cm B L D =
           Inr (\<lparr>ap = Agent_ap ag m s_rep a_dist, q_targ_sp_ap_gp = q_targ,
                 ensemble_td_target = ens,
                 random_subset = tab4 B (L - 1) K G (\<lambda>b l k g. rng b l k g mod C),
                 td_target_rand = rand, td_target = td,
                 td_target_norm =
                   tab3 B (L - 1) G (\<lambda>b l g. popart_normalize_values m pop' g (td ! b ! l ! g))\<rparr>,
                pop')"
proof -
  have Cp: "0 < C" and Kp: "0 < K" using C K by (simp_all add: C_def K_def)
  have ri: "torch_randint C B (L - 1) (num_critics_td ag) G rng
              = Inr (tab4 B (L - 1) K G (\<lambda>b l k g. rng b l k g mod C))"
    using Cp K by (simp add: torch_randint_pos K_def)
  have ta: "take_along_dim2 B (L - 1) C K G ens (tab4 B (L - 1) K G (\<lambda>b l k g. rng b l k g mod C))
              = Inr rand"
    using Cp by (simp add: take_along_dim2_tab rand_def)
  have agg: "(if online_coeff ag > 0 then min_dim2 B (L - 1) K G rand
              else mean_dim2 B (L - 1) K G rand) = Inr td"
    using Kp by (simp add: min_dim2_def mean_dim2_def td_def)
  show ?thesis
    using ap q ri ta agg
    unfolding Agent_td_targets_def Let_def G_def C_def K_def q0_def q_targ_def ens_def
      rand_def td_def pop'_def
    by (simp del: One_nat_def)
qed

subsection \<open>Target synchronization\<close>

lemma full_copy_same_shape: "same_shape ts ps \<Longrightarrow> full_copy ts ps = Inr ps"
proof (induction ts ps rule: full_copy.induct)
  case (1 t ts p ps)
  then show ?case by (simp add: same_shape_def copy_data_def)
next
  case (2 ts)
  then show ?case by (simp add: same_shape_def)
next
  case (3 ps)
  then show ?case by (simp add: same_shape_def)
qed

lemma ema_copy_same_shape:
  "same_shape ts ps \<Longrightarrow> ema_copy rate ts ps = Inr (ema_spec rate ts ps)"
proof (induction rate ts ps rule: ema_copy.induct)
  case (1 rate t ts p ps)
  then show ?case
    by (simp add: same_shape_def ema_data_def copy_data_def ema_spec_def mult.commute)
next
  case (2 rate ts)
  then show ?case by (simp add: same_shape_def ema_spec_def)
next
  case (3 rate ps)
  then show ?case by (simp add: same_shape_def ema_spec_def)
qed

lemma same_shape_lengths:
  assumes "same_shape old online"
  shows "length online = length old"
    and "i < length old \<Longrightarrow> length (online ! i) = length (old ! i)"
proof -
  from assms have eq: "map length old = map length online"
    by (simp add: same_shape_def)
  then show len: "length online = length old"
    by (metis length_map)
  show "length (online ! i) = length (old ! i)" if "i < length old"
    using that eq len by (metis nth_map)
qed

lemma ema_spec_nth:
  assumes "same_shape old online" and "i < length old" and "j < length (old ! i)"
  shows "ema_spec rate old online ! i ! j = (1 - rate) * (old ! i ! j) + rate * (online ! i ! j)"
  using assms same_shape_lengths [OF assms(1)]
  by (simp add: ema_spec_def)

lemma ema_spec_shape: "same_shape old online \<Longrightarrow> same_shape (ema_spec rate old online) old"
proof (induction old arbitrary: online)
  case Nil
  then show ?case by (simp add: ema_spec_def same_shape_def)
next
  case (Cons t old)
  then obtain p ps where "online = p # ps"
    by (cases online) (auto simp: same_shape_def)
  with Cons show ?case
    by (simp add: ema_spec_def same_shape_def)
qed

text \<open>
  Claim C3. When each target network has the architecture of its online network
  (parameter tensors of the same sizes, as the constructor builds them),
  \<open>hard_sync_targets\<close> returns with the target critics, the target actor and the
  maximized critics exactly equal to the online parameters, so any network function gives
  the same output on target and online parameters; \<open>soft_sync_targets\<close> returns with every
  target entry equal to \<open>(1 - tau) * old_target + tau * online\<close> and the maximized critics
  equal to the online critics; neither changes the online critics or actor.
\<close>

theorem sync_targets_correct:
  assumes tc: "same_shape (target_critics s) (critics s)"
      and ta: "same_shape (target_actor s) (actor s)"
      and mc: "same_shape (maximized_critics s) (critics s)"
  shows "(\<exists>h. hard_sync_targets s = Inr h
            \<and> target_critics h = critics h \<and> target_actor h = actor h
            \<and> maximized_critics h = critics h
            \<and> critics h = critics s \<and> actor h = actor s
            \<and> (\<forall>net x. net (target_critics h) x = net (critics h) x)
            \<and> (\<forall>net x. net (maximized_critics h) x = net (critics h) x)
            \<and> (\<forall>net x. net (target_actor h) x = net (actor h) x))
       \<and> (\<exists>t. soft_sync_targets s = Inr t
            \<and> target_critics t = ema_spec (tau s) (target_critics s) (critics s)
            \<and> target_actor t = ema_spec (tau s) (target_actor s) (actor s)
            \<and> (\<forall>i j. i < length (target_critics s) \<and> j < length (target_critics s ! i) \<longrightarrow>
                  target_critics t ! i ! j
                  = (1 - tau s) * (target_critics s ! i ! j) + tau s * (critics s ! i ! j))
            \<and> (\<forall>i j. i < length (target_actor s) \<and> j < length (target_actor s ! i) \<longrightarrow>
                  target_actor t ! i ! j
                  = (1 - tau s) * (target_actor s ! i ! j) + tau s * (actor s ! i ! j))
            \<and> same_shape (target_critics t) (target_critics s)
            \<and> same_shape (target_actor t) (target_actor s)
            \<and> maximized_critics t = critics t
            \<and> critics t = critics s \<and> actor t = actor s)"
proof
  show "\<exists>h. hard_sync_targets s = Inr h
            \<and> target_critics h = critics h \<and> target_actor h = actor h
            \<and> maximized_critics h = critics h
            \<and> critics h = critics s \<and> actor h = actor s
            \<and> (\<forall>net x. net (target_critics h) x = net (critics h) x)
            \<and> (\<forall>net x. net (maximized_critics h) x = net (critics h) x)
            \<and> (\<forall>net x. net (target_actor h) x = net (actor h) x)"
    by (simp add: hard_sync_targets_def full_copy_same_shape [OF tc]
        full_copy_same_shape [OF ta] full_copy_same_shape [OF mc])
next
  have "soft_sync_targets s =
      Inr (s\<lparr>target_critics := ema_spec (tau s) (target_critics s) (critics s),
             target_actor := ema_spec (tau s) (target_actor s) (actor s),
             maximized_critics := critics s\<rparr>)"
    by (simp add: soft_sync_targets_def ema_copy_same_shape [OF tc]
        ema_copy_same_shape [OF ta] full_copy_same_shape [OF mc])
  then show "\<exists>t. soft_sync_targets s = Inr t
            \<and> target_critics t = ema_spec (tau s) (target_critics s) (critics s)
            \<and> target_actor t = ema_spec (tau s) (target_actor s) (actor s)
            \<and> (\<forall>i j. i < length (target_critics s) \<and> j < length (target_critics s ! i) \<longrightarrow>
                  target_critics t ! i ! j
                  = (1 - tau s) * (target_critics s ! i ! j) + tau s * (critics s ! i ! j))
            \<and> (\<forall>i j. i < length (target_actor s) \<and> j < length (target_actor s ! i) \<longrightarrow>
                  target_actor t ! i ! j
                  = (1 - tau s) * (target_actor s ! i ! j) + tau s * (actor s ! i ! j))
            \<and> same_shape (target_critics t) (target_critics s)
            \<and> same_shape (target_actor t) (target_actor s)
            \<and> maximized_critics t = critics t
            \<and> critics t = critics s \<and> actor t = actor s"
    by (simp add: ema_spec_nth [OF tc] ema_spec_nth [OF ta] ema_spec_shape [OF tc]
        ema_spec_shape [OF ta])
qed

theorem sync_targets_correct_witness:
  "same_shape (target_critics example_agent) (critics example_agent)
   \<and> same_shape (target_actor example_agent) (actor example_agent)
   \<and> same_shape (maximized_critics example_agent) (critics example_agent)
   \<and> (\<exists>h. hard_sync_targets example_agent = Inr h
         \<and> target_critics h = [[1, 2], [3]] \<and> maximized_critics h = [[1, 2], [3]]
         \<and> target_actor h = [[4]] \<and> critics h = [[1, 2], [3]] \<and> actor h = [[4]])
   \<and> (\<exists>t. soft_sync_targets example_agent = Inr t
         \<and> target_critics t = [[1 / 4, 1 / 2], [27 / 4]] \<and> target_actor t = [[1]]
         \<and> maximized_critics t = [[1, 2], [3]]
         \<and> critics t = [[1, 2], [3]] \<and> actor t = [[4]])"
proof -
  have h: "same_shape (target_critics example_agent) (critics example_agent)"
    "same_shape (target_actor example_agent) (actor example_agent)"
    "same_shape (maximized_critics example_agent) (critics example_agent)"
    by (simp_all add: example_agent_def same_shape_def)
  have e: "ema_spec (tau example_agent) (target_critics example_agent) (critics example_agent)
             = [[1 / 4, 1 / 2], [27 / 4]]"
    "ema_spec (tau example_agent) (target_actor example_agent) (actor example_agent) = [[1]]"
    by (simp_all add: example_agent_def ema_spec_def)
  have v: "critics example_agent = [[1, 2], [3]]" "actor example_agent = [[4]]"
    by (simp_all add: example_agent_def)
  note c = sync_targets_correct [OF h]
  from c [THEN conjunct1] obtain hh where hh: "hard_sync_targets example_agent = Inr hh
            \<and> target_critics hh = critics hh \<and> target_actor hh = actor hh
            \<and> maximized_critics hh = critics hh
            \<and> critics hh = critics example_agent \<and> actor hh = actor example_agent"
    by (elim exE conjE) (rule that, intro conjI, assumption+)
  from c [THEN conjunct2] obtain tt where tt: "soft_sync_targets example_agent = Inr tt
            \<and> target_critics tt = ema_spec (tau example_agent) (target_critics example_agent) (critics example_agent)
            \<and> target_actor tt = ema_spec (tau example_agent) (target_actor example_agent) (actor example_agent)
            \<and> maximized_critics tt = critics tt
            \<and> critics tt = critics example_agent \<and> actor tt = actor example_agent"
    by (elim exE conjE) (rule that, intro conjI, assumption+)
  have "\<exists>h. hard_sync_targets example_agent = Inr h
         \<and> target_critics h = [[1, 2], [3]] \<and> maximized_critics h = [[1, 2], [3]]
         \<and> target_actor h = [[4]] \<and> critics h = [[1, 2], [3]] \<and> actor h = [[4]]"
    using hh v by (intro exI [of _ hh]) simp
  moreover have
    "\<exists>t. soft_sync_targets example_agent = Inr t
         \<and> target_critics t = [[1 / 4, 1 / 2], [27 / 4]] \<and> target_actor t = [[1]]
         \<and> maximized_critics t = [[1, 2], [3]]
         \<and> critics t = [[1, 2], [3]] \<and> actor t = [[4]]"
    using tt v e by (intro exI [of _ tt]) simp
  ultimately show ?thesis using h by simp
qed

subsection \<open>\<open>get_current_timestep\<close>\<close>

lemma take_along_time_valid:
  assumes "valid_seq_lengths v sl"
  shows "take_along_time v sl = Inr (current_timestep_spec v sl)"
proof -
  from assms have len: "length sl = length v"
    and rng: "\<And>b. b < length v \<Longrightarrow> 1 \<le> sl ! b \<and> sl ! b \<le> int (length (v ! b))"
    by (simp_all add: valid_seq_lengths_def list_all_iff)
  have ok: "list_all (\<lambda>(row, n). 1 \<le> n \<and> n \<le> int (length row)) (zip v sl)"
    using len rng by (simp add: list_all_length)
  have "map (\<lambda>(row, n). [row ! nat (n - 1)]) (zip v sl) = current_timestep_spec v sl"
    using len by (intro nth_equalityI) (simp_all add: current_timestep_spec_def)
  with ok len show ?thesis
    by (simp add: take_along_time_def)
qed

lemma get_current_timestep_items_valid:
  "list_all (\<lambda>(k, v). valid_seq_lengths v sl) kvs \<Longrightarrow>
   get_current_timestep_items kvs sl
   = Inr (map (\<lambda>(k, v). (k, current_timestep_spec v sl)) kvs)"
  by (induction kvs) (auto simp: take_along_time_valid)

text \<open>
  Claim C10. For a tensor, or a dict of tensors, with batch first and time second, and
  one sequence length per batch element that is at least 1 (and, being the length of that
  very sequence, at most the length of its time dimension), \<open>get_current_timestep\<close>
  returns, for each batch element and each dict key, exactly the timestep at index
  \<open>seq_lengths - 1\<close> as a time slice of length one, a tensor for a tensor and a dict with
  the same keys in the same order for a dict. The function is pure, so its arguments are
  as they were.
\<close>

theorem get_current_timestep_correct:
  "(valid_seq_lengths v sl \<longrightarrow>
      get_current_timestep (SeqTensor v) sl = Inr (SeqTensor (current_timestep_spec v sl))
      \<and> (\<forall>b < length v. current_timestep_spec v sl ! b = [v ! b ! nat (sl ! b - 1)]))
   \<and> (list_all (\<lambda>(k, u). valid_seq_lengths u sl) kvs \<longrightarrow>
      get_current_timestep (SeqDict kvs) sl
      = Inr (SeqDict (map (\<lambda>(k, u). (k, current_timestep_spec u sl)) kvs)))"
  by (simp add: get_current_timestep_def get_current_timestep_items_valid
      take_along_time_valid current_timestep_spec_def)

theorem get_current_timestep_correct_witness:
  "valid_seq_lengths [[[1, 2], [3, 4 :: real]], [[5, 6], [7, 8]]] [2, 1]
   \<and> get_current_timestep (SeqTensor [[[1, 2], [3, 4 :: real]], [[5, 6], [7, 8]]]) [2, 1]
     = Inr (SeqTensor [[[3, 4]], [[5, 6]]])
   \<and> list_all (\<lambda>(k, u). valid_seq_lengths u [2, 1])
        [(''observation'', [[[1, 2], [3, 4 :: real]], [[5, 6], [7, 8]]]), (''extra'', [[[9], [10]], [[11], [12]]])]
   \<and> get_current_timestep
        (SeqDict [(''observation'', [[[1, 2], [3, 4 :: real]], [[5, 6], [7, 8]]]),
                  (''extra'', [[[9], [10]], [[11], [12]]])]) [2, 1]
     = Inr (SeqDict [(''observation'', [[[3, 4]], [[5, 6]]]), (''extra'', [[[10]], [[11]]])])"
proof -
  have a: "valid_seq_lengths [[[1, 2], [3, 4 :: real]], [[5, 6], [7, 8]]] [2, 1]"
    by (simp add: valid_seq_lengths_def upt_rec)
  have b: "list_all (\<lambda>(k, u). valid_seq_lengths u [2, 1])
        [(''observation'', [[[1, 2], [3, 4 :: real]], [[5, 6], [7, 8]]]), (''extra'', [[[9], [10]], [[11], [12]]])]"
    by (simp add: valid_seq_lengths_def upt_rec)
  show ?thesis
    using a b get_current_timestep_correct
      [of "[[[1, 2], [3, 4 :: real]], [[5, 6], [7, 8]]]" "[2, 1]"
          "[(''observation'', [[[1, 2], [3, 4 :: real]], [[5, 6], [7, 8]]]), (''extra'', [[[9], [10]], [[11], [12]]])]"]
    by (simp add: current_timestep_spec_def upt_rec)
qed

subsection \<open>\<open>train_step\<close>\<close>

lemma soft_sync_targets_value:
  assumes "same_shape (target_critics s) (critics s)"
    and "same_shape (target_actor s) (actor s)"
    and "same_shape (maximized_critics s) (critics s)"
  shows "soft_sync_targets s =
      Inr (s\<lparr>target_critics := ema_spec (tau s) (target_critics s) (critics s),
             target_actor := ema_spec (tau s) (target_actor s) (actor s),
             maximized_critics := critics s\<rparr>)"
  by (simp add: soft_sync_targets_def ema_copy_same_shape [OF assms(1)]
      ema_copy_same_shape [OF assms(2)] full_copy_same_shape [OF assms(3)])

text \<open>
  Claim C6, amended. In every training step whose loss computation returns, on a policy
  whose target networks have the architecture of the online ones, the calls are, in this
  order: \<open>zero_grad\<close>, \<open>compute_loss\<close>, the backward pass, then, only when the
  accelerator synchronises gradients, gradient clipping and \<open>soft_sync_targets\<close> (and
  the gradient norms when logging), and last the optimizer step. So
  \<open>soft_sync_targets\<close> comes after the backward pass and before the optimizer step of
  the same training step, and the targets it leaves are the moving average with the online
  parameters from before that optimizer step.
\<close>

theorem train_step_call_order:
  assumes "same_shape (target_critics (policy tr)) (critics (policy tr))"
    and "same_shape (target_actor (policy tr)) (actor (policy tr))"
    and "same_shape (maximized_critics (policy tr)) (critics (policy tr))"
  shows "\<exists>tr'. train_step optimizer_step sync_gradients log_step (Inr l) tr = Inr (l, tr')
     \<and> calls tr' =
         calls tr @ [Zero_grad, Compute_loss, Backward]
         @ (if sync_gradients
            then [Clip_grad_norm, Soft_sync_targets] @ (if log_step then [Get_grad_norms] else [])
            else [])
         @ [Optimizer_step]
     \<and> policy tr' =
         optimizer_step
           (if sync_gradients
            then (policy tr)
                   \<lparr>target_critics :=
                      ema_spec (tau (policy tr)) (target_critics (policy tr)) (critics (policy tr)),
                    target_actor :=
                      ema_spec (tau (policy tr)) (target_actor (policy tr)) (actor (policy tr)),
                    maximized_critics := critics (policy tr)\<rparr>
            else policy tr)"
  by (simp add: train_step_def Let_def soft_sync_targets_value [OF assms])

theorem train_step_call_order_witness:
  "same_shape (target_critics (policy example_trainer)) (critics (policy example_trainer))
   \<and> same_shape (target_actor (policy example_trainer)) (actor (policy example_trainer))
   \<and> same_shape (maximized_critics (policy example_trainer)) (critics (policy example_trainer))
   \<and> (\<exists>tr'. train_step (\<lambda>p. p\<lparr>critics := [[0, 0], [0]]\<rparr>) True True (Inr example_loss)
               example_trainer = Inr (example_loss, tr')
         \<and> calls tr' = [Zero_grad, Compute_loss, Backward, Clip_grad_norm, Soft_sync_targets,
                         Get_grad_norms, Optimizer_step]
         \<and> target_critics (policy tr') = [[1 / 4, 1 / 2], [27 / 4]]
         \<and> critics (policy tr') = [[0, 0], [0]])"
proof -
  have h: "same_shape (target_critics (policy example_trainer)) (critics (policy example_trainer))"
    "same_shape (target_actor (policy example_trainer)) (actor (policy example_trainer))"
    "same_shape (maximized_critics (policy example_trainer)) (critics (policy example_trainer))"
    by (simp_all add: example_trainer_def example_agent_def same_shape_def)
  from train_step_call_order [OF h, of "\<lambda>p. p\<lparr>critics := [[0, 0], [0]]\<rparr>" True True example_loss]
  obtain tr' where t: "train_step (\<lambda>p. p\<lparr>critics := [[0, 0], [0]]\<rparr>) True True (Inr example_loss)
               example_trainer = Inr (example_loss, tr')"
    "calls tr' = calls example_trainer @ [Zero_grad, Compute_loss, Backward]
         @ (if True
            then [Clip_grad_norm, Soft_sync_targets] @ (if True then [Get_grad_norms] else [])
            else [])
         @ [Optimizer_step]"
    "policy tr' =
         (\<lambda>p. p\<lparr>critics := [[0, 0], [0]]\<rparr>)
           (if True
            then (policy example_trainer)
                   \<lparr>target_critics :=
                      ema_spec (tau (policy example_trainer)) (target_critics (policy example_trainer)) (critics (policy example_trainer)),
                    target_actor :=
                      ema_spec (tau (policy example_trainer)) (target_actor (policy example_trainer)) (actor (policy example_trainer)),
                    maximized_critics := critics (policy example_trainer)\<rparr>
            else policy example_trainer)"
    by (elim exE conjE) (rule that, assumption+)
  have "calls tr' = [Zero_grad, Compute_loss, Backward, Clip_grad_norm, Soft_sync_targets,
                         Get_grad_norms, Optimizer_step]"
    using t(2) by (simp add: example_trainer_def)
  moreover have "target_critics (policy tr') = [[1 / 4, 1 / 2], [27 / 4]]"
    "critics (policy tr') = [[0, 0], [0]]"
    using t(3) by (simp_all add: example_trainer_def example_agent_def ema_spec_def)
  ultimately show ?thesis using h t(1) by (intro conjI exI [of _ tr']) simp_all
qed

text \<open>
  As stated (backward pass, optimizer step, then target soft sync) the claim fails: in a
  step that synchronises gradients \<open>soft_sync_targets\<close> is called before the optimizer
  step and not after it, and in a step that does not it is not called at all.
\<close>

theorem train_step_call_order_counterexample:
  "map_sum id (calls \<circ> snd) (train_step id True False (Inr example_loss) example_trainer)
     = Inr [Zero_grad, Compute_loss, Backward, Clip_grad_norm, Soft_sync_targets, Optimizer_step]
   \<and> map_sum id (\<lambda>r. Soft_sync_targets \<in> set (dropWhile (\<lambda>c. c \<noteq> Optimizer_step) (calls (snd r))))
        (train_step id True False (Inr example_loss) example_trainer) = Inr False
   \<and> map_sum id (calls \<circ> snd) (train_step id False False (Inr example_loss) example_trainer)
     = Inr [Zero_grad, Compute_loss, Backward, Optimizer_step]"
  by (simp add: train_step_def Let_def example_trainer_def example_agent_def
      soft_sync_targets_def ema_data_def copy_data_def)

subsection \<open>Configuration errors\<close>

lemma isl_bind_err: "isl (bind_err m f) \<longleftrightarrow> (\<forall>x. m = Inr x \<longrightarrow> isl (f x))"
  by (cases m) simp_all

lemma Agent_dpg_loss_assert:
  "online_coeff ag > 0 \<Longrightarrow> \<not> actions_differentiable m \<Longrightarrow>
   Agent_dpg_loss ag m pop B L1 q = Inl AssertionError"
  by (simp add: Agent_dpg_loss_def Let_def)

lemma MultiTaskAgent_dpg_loss_assert:
  "online_coeff ag > 0 \<Longrightarrow> \<not> (actions_differentiable m \<and> \<not> discrete ag) \<Longrightarrow>
   MultiTaskAgent_dpg_loss ag m m2 pop s_rep a_dist B L al = Inl AssertionError"
  by (simp add: MultiTaskAgent_dpg_loss_def Let_def)

lemma Agent_forward_fails:
  assumes "online_coeff ag > 0" and "\<not> actions_differentiable m"
  shows "isl (Agent_forward ag m pad_val pop rng bt)"
  unfolding Agent_forward_def Let_def
  by (simp add: isl_bind_err Agent_dpg_loss_assert [OF assms] split: prod.splits)

lemma MultiTaskAgent_forward_fails:
  assumes "online_coeff ag > 0" and "\<not> (actions_differentiable m \<and> \<not> discrete ag)"
  shows "isl (MultiTaskAgent_forward ag m m2 pad_val pop rng bt)"
  unfolding MultiTaskAgent_forward_def Let_def
  by (simp add: isl_bind_err MultiTaskAgent_dpg_loss_assert [OF assms] split: prod.splits)

lemma Agent_init_unsupported:
  "arg_action_dim args = None \<Longrightarrow> arg_action_space args = OtherSpace \<Longrightarrow>
   Agent_init args = Inl ValueError"
  by (simp add: Agent_init_def init_action_space_def)

lemma Agent_init_too_many_td:
  assumes "arg_num_critics_td args > arg_num_critics args"
  shows "isl (Agent_init args)"
    and "init_action_space (arg_action_space args) (arg_action_dim args) = Inr x \<Longrightarrow>
         Agent_init args = Inl AssertionError"
  using assms
  by (cases "init_action_space (arg_action_space args) (arg_action_dim args)";
      simp add: Agent_init_def Let_def split: prod.splits)+

text \<open>
  Claim C7, amended. Configuration errors fail immediately: constructing an \<open>Agent\<close>
  without \<open>action_dim\<close> and with an unsupported action-space type raises \<open>ValueError\<close>;
  constructing with \<open>num_critics_td > num_critics\<close> fails (with the assertion, when the
  action space was accepted); and with \<open>online_coeff > 0\<close> and an actor without
  differentiable actions the forward pass fails, the actor-loss step raising the
  assertion whatever it is given, in \<open>Agent\<close> and (there also for discrete actions) in
  \<open>MultiTaskAgent\<close>.
\<close>

theorem configuration_errors_fail:
  "(arg_action_dim args = None \<and> arg_action_space args = OtherSpace \<longrightarrow>
      Agent_init args = Inl ValueError)
   \<and> (arg_num_critics_td args > arg_num_critics args \<longrightarrow>
      isl (Agent_init args)
      \<and> (\<forall>x. init_action_space (arg_action_space args) (arg_action_dim args) = Inr x \<longrightarrow>
            Agent_init args = Inl AssertionError))
   \<and> (online_coeff ag > 0 \<and> \<not> actions_differentiable m \<longrightarrow>
      isl (Agent_forward ag m pad_val pop rng bt)
      \<and> (\<forall>pop' B L1 q. Agent_dpg_loss ag m pop' B L1 q = Inl AssertionError))
   \<and> (online_coeff mag > 0 \<and> \<not> (actions_differentiable m \<and> \<not> discrete mag) \<longrightarrow>
      isl (MultiTaskAgent_forward mag m m2 pad_val pop rng bt)
      \<and> (\<forall>pop' s_rep a_dist B L al.
            MultiTaskAgent_dpg_loss mag m m2 pop' s_rep a_dist B L al = Inl AssertionError))"
proof (intro conjI impI allI)
  assume "arg_action_dim args = None \<and> arg_action_space args = OtherSpace"
  then show "Agent_init args = Inl ValueError"
    by (simp add: Agent_init_unsupported)
next
  assume "arg_num_critics_td args > arg_num_critics args"
  then show "isl (Agent_init args)"
    by (rule Agent_init_too_many_td)
next
  fix x
  assume "arg_num_critics_td args > arg_num_critics args"
    and "init_action_space (arg_action_space args) (arg_action_dim args) = Inr x"
  then show "Agent_init args = Inl AssertionError"
    by (rule Agent_init_too_many_td)
next
  assume "online_coeff ag > 0 \<and> \<not> actions_differentiable m"
  then show "isl (Agent_forward ag m pad_val pop rng bt)"
    by (simp add: Agent_forward_fails)
next
  fix pop' :: 'b and B L1 q
  assume "online_coeff ag > 0 \<and> \<not> actions_differentiable m"
  then show "Agent_dpg_loss ag m pop' B L1 q = Inl AssertionError"
    by (simp add: Agent_dpg_loss_assert)
next
  assume "online_coeff mag > 0 \<and> \<not> (actions_differentiable m \<and> \<not> discrete mag)"
  then show "isl (MultiTaskAgent_forward mag m m2 pad_val pop rng bt)"
    by (intro MultiTaskAgent_forward_fails) simp_all
next
  fix pop' :: 'b and s_rep a_dist B L al
  assume "online_coeff mag > 0 \<and> \<not> (actions_differentiable m \<and> \<not> discrete mag)"
  then show "MultiTaskAgent_dpg_loss mag m m2 pop' s_rep a_dist B L al = Inl AssertionError"
    by (intro MultiTaskAgent_dpg_loss_assert) simp_all
qed

theorem configuration_errors_fail_witness:
  "Agent_init (example_args\<lparr>arg_action_space := OtherSpace\<rparr>) = Inl ValueError
   \<and> Agent_init (example_args\<lparr>arg_num_critics_td := 3\<rparr>) = Inl AssertionError
   \<and> isl (Agent_forward example_agent example_modules 4 () example_rng example_batch)
   \<and> Agent_dpg_loss example_agent example_modules () 1 2 None = Inl AssertionError
   \<and> isl (MultiTaskAgent_forward example_mt_agent example_modules example_twohot 4 ()
            example_rng example_batch)
   \<and> MultiTaskAgent_dpg_loss example_mt_agent example_modules example_twohot () [] [] 1 3
        (PyFloat 0) = Inl AssertionError"
proof -
  have a: "arg_action_dim (example_args\<lparr>arg_action_space := OtherSpace\<rparr>) = None
           \<and> arg_action_space (example_args\<lparr>arg_action_space := OtherSpace\<rparr>) = OtherSpace"
    by (simp add: example_args_def)
  have b: "arg_num_critics_td (example_args\<lparr>arg_num_critics_td := 3\<rparr>)
             > arg_num_critics (example_args\<lparr>arg_num_critics_td := 3\<rparr>)"
    by (simp add: example_args_def)
  have b': "init_action_space (arg_action_space (example_args\<lparr>arg_num_critics_td := 3\<rparr>))
              (arg_action_dim (example_args\<lparr>arg_num_critics_td := 3\<rparr>)) = Inr (4, True, False)"
    by (simp add: example_args_def init_action_space_def)
  have c: "online_coeff example_agent > 0 \<and> \<not> actions_differentiable example_modules"
    by (simp add: example_agent_def example_modules_def)
  have d: "online_coeff example_mt_agent > 0
           \<and> \<not> (actions_differentiable example_modules \<and> \<not> discrete example_mt_agent)"
    by (simp add: example_mt_agent_def example_agent_def example_modules_def agent.defs)
  note t1 = configuration_errors_fail
      [of "example_args\<lparr>arg_action_space := OtherSpace\<rparr>" example_agent example_modules 4 "()"
          example_rng example_batch example_mt_agent example_twohot]
  note t2 = configuration_errors_fail
      [of "example_args\<lparr>arg_num_critics_td := 3\<rparr>" example_agent example_modules 4 "()"
          example_rng example_batch example_mt_agent example_twohot]
  have "Agent_init (example_args\<lparr>arg_action_space := OtherSpace\<rparr>) = Inl ValueError"
    by (rule t1 [THEN conjunct1, THEN mp, OF a])
  moreover have "Agent_init (example_args\<lparr>arg_num_critics_td := 3\<rparr>) = Inl AssertionError"
    by (rule t2 [THEN conjunct2, THEN conjunct1, THEN mp, OF b, THEN conjunct2, THEN spec,
          THEN mp, OF b'])
  moreover note c3 = t1 [THEN conjunct2, THEN conjunct2, THEN conjunct1, THEN mp, OF c]
  have "isl (Agent_forward example_agent example_modules 4 () example_rng example_batch)"
    by (rule c3 [THEN conjunct1])
  moreover have "Agent_dpg_loss example_agent example_modules () 1 2 None = Inl AssertionError"
    by (rule c3 [THEN conjunct2, THEN spec, THEN spec, THEN spec, THEN spec])
  moreover note c4 = t1 [THEN conjunct2, THEN conjunct2, THEN conjunct2, THEN mp, OF d]
  have "isl (MultiTaskAgent_forward example_mt_agent example_modules example_twohot 4 ()
            example_rng example_batch)"
    by (rule c4 [THEN conjunct1])
  moreover have "MultiTaskAgent_dpg_loss example_mt_agent example_modules example_twohot () [] [] 1 3
        (PyFloat 0) = Inl AssertionError"
    by (rule c4 [THEN conjunct2, THEN spec, THEN spec, THEN spec, THEN spec, THEN spec, THEN spec])
  ultimately show ?thesis by simp
qed

text \<open>
  As stated, for every construction with an unsupported action-space type, the claim
  fails: with \<open>action_dim\<close> given the action space is not inspected and the construction
  succeeds.
\<close>

theorem configuration_errors_fail_counterexample:
  "map_sum id action_dim
     (Agent_init (example_args\<lparr>arg_action_space := OtherSpace, arg_action_dim := Some 4\<rparr>))
   = Inr 4"
  by (simp add: Agent_init_def init_action_space_def example_args_def Let_def
      hard_sync_targets_def copy_data_def)

subsection \<open>The returned mapping\<close>

lemma Agent_forward_critic_loss_None:
  assumes "Agent_forward ag m pad_val pop rng bt = Inr (cl, al, pop')"
  shows "cl = None \<longleftrightarrow> fake_filter ag \<and> \<not> online_coeff ag > 0"
  using assms unfolding Agent_forward_def Let_def
  by (auto simp: bind_err_eq_Inr split: prod.splits if_splits)

lemma MultiTaskAgent_forward_critic_loss_None:
  assumes "MultiTaskAgent_forward ag m m2 pad_val pop rng bt = Inr (cl, al, pop')"
  shows "cl = None \<longleftrightarrow> fake_filter ag \<and> \<not> online_coeff ag > 0"
  using assms unfolding MultiTaskAgent_forward_def Let_def
  by (auto simp: bind_err_eq_Inr split: prod.splits if_splits)

lemma masked_mean3_scalar: "masked_mean3 msk x = Inr s \<Longrightarrow> is_tensor_scalar s"
  by (auto simp: masked_mean3_def bind_err_eq_Inr is_tensor_scalar_def)

lemma masked_mean4_scalar: "masked_mean4 msk x = Inr s \<Longrightarrow> is_tensor_scalar s"
  by (auto simp: masked_mean4_def bind_err_eq_Inr is_tensor_scalar_def)

lemma compute_loss_entries:
  assumes "compute_loss pad_val C bt cl al = Inr d"
  shows "entry_mask d = state_mask_of pad_val (rl2s bt)"
    and "is_tensor_scalar (entry_actor_loss d)"
    and "cl = None \<Longrightarrow> entry_critic_loss d = PyNumber 0"
    and "cl \<noteq> None \<Longrightarrow> is_tensor_scalar (entry_critic_loss d)"
  using assms unfolding compute_loss_def Let_def
  by (auto simp: bind_err_eq_Inr split: loss_val.splits option.splits
      dest: masked_mean3_scalar masked_mean4_scalar)

lemma Agent_compute_loss_entries:
  assumes "Agent_compute_loss ag m pad_val pop rng bt = Inr d"
  shows "entry_critic_loss d = PyNumber 0 \<longleftrightarrow> fake_filter ag \<and> \<not> online_coeff ag > 0"
    and "\<not> (fake_filter ag \<and> \<not> online_coeff ag > 0) \<Longrightarrow> is_tensor_scalar (entry_critic_loss d)"
    and "entry_critic_loss d \<noteq> PyNone"
    and "is_tensor_scalar (entry_actor_loss d)"
    and "entry_mask d = state_mask_of pad_val (rl2s bt)"
proof -
  from assms obtain cl al pop' where
    f: "Agent_forward ag m pad_val pop rng bt = Inr (cl, al, pop')"
    and c: "compute_loss pad_val (nat (num_critics ag)) bt cl (LossTensor al) = Inr d"
    by (auto simp: Agent_compute_loss_def bind_err_eq_Inr)
  note n = Agent_forward_critic_loss_None [OF f]
  note e = compute_loss_entries [OF c]
  show "entry_critic_loss d = PyNumber 0 \<longleftrightarrow> fake_filter ag \<and> \<not> online_coeff ag > 0"
    using n e(3,4) by (cases "cl = None") (auto simp: is_tensor_scalar_def)
  show "is_tensor_scalar (entry_critic_loss d)" if "\<not> (fake_filter ag \<and> \<not> online_coeff ag > 0)"
    using that n e(4) by blast
  show "entry_critic_loss d \<noteq> PyNone"
    using e(3,4) by (cases "cl = None") (auto simp: is_tensor_scalar_def)
  show "is_tensor_scalar (entry_actor_loss d)" by (rule e(2))
  show "entry_mask d = state_mask_of pad_val (rl2s bt)" by (rule e(1))
qed

lemma MultiTaskAgent_compute_loss_entries:
  assumes "MultiTaskAgent_compute_loss ag m m2 pad_val pop rng bt = Inr d"
  shows "entry_critic_loss d = PyNumber 0 \<longleftrightarrow> fake_filter ag \<and> \<not> online_coeff ag > 0"
    and "\<not> (fake_filter ag \<and> \<not> online_coeff ag > 0) \<Longrightarrow> is_tensor_scalar (entry_critic_loss d)"
    and "entry_critic_loss d \<noteq> PyNone"
    and "is_tensor_scalar (entry_actor_loss d)"
    and "entry_mask d = state_mask_of pad_val (rl2s bt)"
proof -
  from assms obtain cl al pop' where
    f: "MultiTaskAgent_forward ag m m2 pad_val pop rng bt = Inr (cl, al, pop')"
    and c: "compute_loss pad_val (nat (num_critics ag)) bt cl al = Inr d"
    by (auto simp: MultiTaskAgent_compute_loss_def bind_err_eq_Inr)
  note n = MultiTaskAgent_forward_critic_loss_None [OF f]
  note e = compute_loss_entries [OF c]
  show "entry_critic_loss d = PyNumber 0 \<longleftrightarrow> fake_filter ag \<and> \<not> online_coeff ag > 0"
    using n e(3,4) by (cases "cl = None") (auto simp: is_tensor_scalar_def)
  show "is_tensor_scalar (entry_critic_loss d)" if "\<not> (fake_filter ag \<and> \<not> online_coeff ag > 0)"
    using that n e(4) by blast
  show "entry_critic_loss d \<noteq> PyNone"
    using e(3,4) by (cases "cl = None") (auto simp: is_tensor_scalar_def)
  show "is_tensor_scalar (entry_actor_loss d)" by (rule e(2))
  show "entry_mask d = state_mask_of pad_val (rl2s bt)" by (rule e(1))
qed

lemma example_bc_compute_loss:
  "Agent_compute_loss example_bc example_modules 4 () example_rng example_batch
   = Inr \<lparr>entry_critic_loss = PyNumber 0, entry_actor_loss = Scalar (- (1 / 4)),
          entry_mask = [[1, 1, 0]]\<rparr>"
  by code_simp

lemma example_mt_offline_compute_loss:
  "MultiTaskAgent_compute_loss example_mt_offline example_modules example_twohot 4 ()
     example_rng example_batch
   = Inr \<lparr>entry_critic_loss = Scalar (67 / 2500), entry_actor_loss = Scalar 0,
          entry_mask = [[1, 1, 0]]\<rparr>"
  by code_simp

text \<open>
  Claim C8, amended. The mapping returned by one update (by \<open>compute_loss\<close> after the
  forward pass of an \<open>Agent\<close> or a \<open>MultiTaskAgent\<close>) contains a \<open>critic_loss\<close> entry
  that is the number \<open>0.0\<close> exactly when the configuration disables critic learning
  (\<open>fake_filter\<close> set and the online coefficient not positive, where the forward pass
  returns \<open>None\<close> for the critic loss), and a scalar tensor otherwise; it is never
  \<open>None\<close>. The \<open>actor_loss\<close> entry is a scalar tensor and \<open>mask\<close> is the validity mask.
\<close>

theorem update_mapping_entries:
  "(Agent_compute_loss ag m pad_val pop rng bt = Inr d \<longrightarrow>
      (entry_critic_loss d = PyNumber 0 \<longleftrightarrow> fake_filter ag \<and> \<not> online_coeff ag > 0)
      \<and> (\<not> (fake_filter ag \<and> \<not> online_coeff ag > 0) \<longrightarrow> is_tensor_scalar (entry_critic_loss d))
      \<and> entry_critic_loss d \<noteq> PyNone
      \<and> is_tensor_scalar (entry_actor_loss d)
      \<and> entry_mask d = state_mask_of pad_val (rl2s bt))
   \<and> (MultiTaskAgent_compute_loss mag m m2 pad_val pop rng bt = Inr d' \<longrightarrow>
      (entry_critic_loss d' = PyNumber 0 \<longleftrightarrow> fake_filter mag \<and> \<not> online_coeff mag > 0)
      \<and> (\<not> (fake_filter mag \<and> \<not> online_coeff mag > 0) \<longrightarrow> is_tensor_scalar (entry_critic_loss d'))
      \<and> entry_critic_loss d' \<noteq> PyNone
      \<and> is_tensor_scalar (entry_actor_loss d')
      \<and> entry_mask d' = state_mask_of pad_val (rl2s bt))"
proof (intro conjI impI)
  assume a: "Agent_compute_loss ag m pad_val pop rng bt = Inr d"
  show "entry_critic_loss d = PyNumber 0 \<longleftrightarrow> fake_filter ag \<and> \<not> online_coeff ag > 0"
    by (rule Agent_compute_loss_entries(1) [OF a])
  show "is_tensor_scalar (entry_critic_loss d)" if "\<not> (fake_filter ag \<and> \<not> online_coeff ag > 0)"
    using that by (rule Agent_compute_loss_entries(2) [OF a])
  show "entry_critic_loss d \<noteq> PyNone" by (rule Agent_compute_loss_entries(3) [OF a])
  show "is_tensor_scalar (entry_actor_loss d)" by (rule Agent_compute_loss_entries(4) [OF a])
  show "entry_mask d = state_mask_of pad_val (rl2s bt)"
    by (rule Agent_compute_loss_entries(5) [OF a])
next
  assume a: "MultiTaskAgent_compute_loss mag m m2 pad_val pop rng bt = Inr d'"
  show "entry_critic_loss d' = PyNumber 0 \<longleftrightarrow> fake_filter mag \<and> \<not> online_coeff mag > 0"
    by (rule MultiTaskAgent_compute_loss_entries(1) [OF a])
  show "is_tensor_scalar (entry_critic_loss d')"
    if "\<not> (fake_filter mag \<and> \<not> online_coeff mag > 0)"
    using that by (rule MultiTaskAgent_compute_loss_entries(2) [OF a])
  show "entry_critic_loss d' \<noteq> PyNone" by (rule MultiTaskAgent_compute_loss_entries(3) [OF a])
  show "is_tensor_scalar (entry_actor_loss d')"
    by (rule MultiTaskAgent_compute_loss_entries(4) [OF a])
  show "entry_mask d' = state_mask_of pad_val (rl2s bt)"
    by (rule MultiTaskAgent_compute_loss_entries(5) [OF a])
qed

theorem update_mapping_entries_witness:
  "Agent_compute_loss example_bc example_modules 4 () example_rng example_batch
     = Inr \<lparr>entry_critic_loss = PyNumber 0, entry_actor_loss = Scalar (- (1 / 4)),
            entry_mask = [[1, 1, 0]]\<rparr>
   \<and> fake_filter example_bc \<and> \<not> online_coeff example_bc > 0
   \<and> MultiTaskAgent_compute_loss example_mt_offline example_modules example_twohot 4 ()
        example_rng example_batch
     = Inr \<lparr>entry_critic_loss = Scalar (67 / 2500), entry_actor_loss = Scalar 0,
            entry_mask = [[1, 1, 0]]\<rparr>
   \<and> \<not> fake_filter example_mt_offline
   \<and> state_mask_of 4 (rl2s example_batch) = [[1, 1, 0]]"
proof -
  note t = update_mapping_entries [of example_bc example_modules 4 "()" example_rng
      example_batch
      "\<lparr>entry_critic_loss = PyNumber 0, entry_actor_loss = Scalar (- (1 / 4)),
        entry_mask = [[1, 1, 0]]\<rparr>"
      example_mt_offline example_twohot
      "\<lparr>entry_critic_loss = Scalar (67 / 2500), entry_actor_loss = Scalar 0,
        entry_mask = [[1, 1, 0]]\<rparr>"]
  note a = t [THEN conjunct1, THEN mp, OF example_bc_compute_loss]
  note b = t [THEN conjunct2, THEN mp, OF example_mt_offline_compute_loss]
  have "fake_filter example_bc \<and> \<not> online_coeff example_bc > 0"
    using a [THEN conjunct1] by simp
  moreover have "\<not> fake_filter example_mt_offline"
    using b [THEN conjunct1]
    by (simp add: example_mt_offline_def example_mt_agent_def example_agent_def agent.defs)
  moreover have "state_mask_of 4 (rl2s example_batch) = [[1, 1, 0]]"
    using a by simp
  ultimately show ?thesis
    using example_bc_compute_loss example_mt_offline_compute_loss by simp
qed

text \<open>
  As stated, with a \<open>critic_loss\<close> entry that is \<open>None\<close> when critic learning is
  disabled, the claim fails: the entry is the number \<open>0.0\<close> there.
\<close>

theorem update_mapping_entries_counterexample:
  "fake_filter example_bc \<and> \<not> online_coeff example_bc > 0
   \<and> map_sum id entry_critic_loss
        (Agent_compute_loss example_bc example_modules 4 () example_rng example_batch)
      = Inr (PyNumber 0)
   \<and> PyNumber 0 \<noteq> PyNone"
  by (simp add: example_bc_compute_loss) (simp add: example_bc_def)

subsection \<open>Masked means\<close>

lemma mul1_same:
  fixes m x y :: "real list"
  assumes "length x = length y"
    and "\<And>i. i < length x \<Longrightarrow> m ! i \<noteq> 0 \<Longrightarrow> x ! i = y ! i"
  shows "map (\<lambda>(a, b). a * b) (zip m x) = map (\<lambda>(a, b). a * b) (zip m y)"
proof (rule nth_equalityI)
  show "length (map (\<lambda>(a, b). a * b) (zip m x)) = length (map (\<lambda>(a, b). a * b) (zip m y))"
    using assms(1) by simp
next
  fix i assume "i < length (map (\<lambda>(a, b). a * b) (zip m x))"
  then have i: "i < length m" "i < length x" "i < length y"
    using assms(1) by simp_all
  show "map (\<lambda>(a, b). a * b) (zip m x) ! i = map (\<lambda>(a, b). a * b) (zip m y) ! i"
    using i assms(2) [of i] by (cases "m ! i = 0") simp_all
qed

lemma map_zip_same:
  assumes "length x = length y"
    and "\<And>i. i < length x \<Longrightarrow> i < length m \<Longrightarrow> f (m ! i) (x ! i) = f (m ! i) (y ! i)"
  shows "map (\<lambda>(a, b). f a b) (zip m x) = map (\<lambda>(a, b). f a b) (zip m y)"
  using assms by (intro nth_equalityI) simp_all

lemma map_length_nth:
  "map f x = map f y \<Longrightarrow> length x = length y \<and> (\<forall>i < length x. f (x ! i) = f (y ! i))"
  by (metis length_map nth_map)

lemma mul3_same:
  assumes "same_on_valid3 msk x y"
  shows "mul3 msk x = mul3 msk y"
proof -
  from assms have sh: "map (map length) x = map (map length) y"
    and eq: "\<And>b l g. b < length x \<Longrightarrow> l < length (x ! b) \<Longrightarrow> g < length (x ! b ! l) \<Longrightarrow>
               msk ! b ! l ! g \<noteq> 0 \<Longrightarrow> x ! b ! l ! g = y ! b ! l ! g"
    by (simp_all add: same_on_valid3_def list_all_iff)
  from map_length_nth [OF sh] have lb: "length x = length y"
    and shb: "\<And>b. b < length x \<Longrightarrow> map length (x ! b) = map length (y ! b)"
    by simp_all
  have "map (\<lambda>(r, r'). map (\<lambda>(v, v'). map (\<lambda>(a, b). a * b) (zip v v')) (zip r r')) (zip msk x)
      = map (\<lambda>(r, r'). map (\<lambda>(v, v'). map (\<lambda>(a, b). a * b) (zip v v')) (zip r r')) (zip msk y)"
  proof (rule map_zip_same [OF lb])
    fix b assume b: "b < length x" "b < length msk"
    from map_length_nth [OF shb [OF b(1)]] have ll: "length (x ! b) = length (y ! b)"
      and shl: "\<And>l. l < length (x ! b) \<Longrightarrow> length (x ! b ! l) = length (y ! b ! l)"
      by simp_all
    show "map (\<lambda>(v, v'). map (\<lambda>(a, b). a * b) (zip v v')) (zip (msk ! b) (x ! b))
        = map (\<lambda>(v, v'). map (\<lambda>(a, b). a * b) (zip v v')) (zip (msk ! b) (y ! b))"
    proof (rule map_zip_same [OF ll])
      fix l assume l: "l < length (x ! b)" "l < length (msk ! b)"
      show "map (\<lambda>(a, b). a * b) (zip (msk ! b ! l) (x ! b ! l))
          = map (\<lambda>(a, b). a * b) (zip (msk ! b ! l) (y ! b ! l))"
        using shl [OF l(1)] eq [OF b(1) l(1)] by (intro mul1_same) simp_all
    qed
  qed
  then show ?thesis using sh by (simp add: mul3_def)
qed

lemma mul4_same:
  assumes "same_on_valid4 msk x y"
  shows "mul4 msk x = mul4 msk y"
proof -
  from assms have sh: "map (map (map length)) x = map (map (map length)) y"
    and eq: "\<And>b l c g. b < length x \<Longrightarrow> l < length (x ! b) \<Longrightarrow> c < length (x ! b ! l) \<Longrightarrow>
               g < length (x ! b ! l ! c) \<Longrightarrow> msk ! b ! l ! c ! g \<noteq> 0 \<Longrightarrow>
               x ! b ! l ! c ! g = y ! b ! l ! c ! g"
    by (simp_all add: same_on_valid4_def list_all_iff)
  from map_length_nth [OF sh] have lb: "length x = length y"
    and shb: "\<And>b. b < length x \<Longrightarrow> map (map length) (x ! b) = map (map length) (y ! b)"
    by simp_all
  have "map (\<lambda>(r, r'). map (\<lambda>(u, u'). map (\<lambda>(v, v'). map (\<lambda>(a, b). a * b) (zip v v')) (zip u u'))
                          (zip r r')) (zip msk x)
      = map (\<lambda>(r, r'). map (\<lambda>(u, u'). map (\<lambda>(v, v'). map (\<lambda>(a, b). a * b) (zip v v')) (zip u u'))
                          (zip r r')) (zip msk y)"
  proof (rule map_zip_same [OF lb])
    fix b assume b: "b < length x" "b < length msk"
    from map_length_nth [OF shb [OF b(1)]] have ll: "length (x ! b) = length (y ! b)"
      and shl: "\<And>l. l < length (x ! b) \<Longrightarrow> map length (x ! b ! l) = map length (y ! b ! l)"
      by simp_all
    show "map (\<lambda>(u, u'). map (\<lambda>(v, v'). map (\<lambda>(a, b). a * b) (zip v v')) (zip u u'))
            (zip (msk ! b) (x ! b))
        = map (\<lambda>(u, u'). map (\<lambda>(v, v'). map (\<lambda>(a, b). a * b) (zip v v')) (zip u u'))
            (zip (msk ! b) (y ! b))"
    proof (rule map_zip_same [OF ll])
      fix l assume l: "l < length (x ! b)" "l < length (msk ! b)"
      from map_length_nth [OF shl [OF l(1)]] have lc: "length (x ! b ! l) = length (y ! b ! l)"
        and shc: "\<And>c. c < length (x ! b ! l) \<Longrightarrow>
                    length (x ! b ! l ! c) = length (y ! b ! l ! c)"
        by simp_all
      show "map (\<lambda>(v, v'). map (\<lambda>(a, b). a * b) (zip v v')) (zip (msk ! b ! l) (x ! b ! l))
          = map (\<lambda>(v, v'). map (\<lambda>(a, b). a * b) (zip v v')) (zip (msk ! b ! l) (y ! b ! l))"
      proof (rule map_zip_same [OF lc])
        fix c assume c: "c < length (x ! b ! l)" "c < length (msk ! b ! l)"
        show "map (\<lambda>(a, b). a * b) (zip (msk ! b ! l ! c) (x ! b ! l ! c))
            = map (\<lambda>(a, b). a * b) (zip (msk ! b ! l ! c) (y ! b ! l ! c))"
          using shc [OF c(1)] eq [OF b(1) l(1) c(1)] by (intro mul1_same) simp_all
      qed
    qed
  qed
  then show ?thesis using sh by (simp add: mul4_def)
qed

lemma same_shape_dim2:
  fixes x y :: t3
  assumes "map (map length) x = map (map length) y"
  shows "dim2 x = dim2 y"
proof (cases x)
  case Nil
  with assms show ?thesis by simp
next
  case (Cons r rs)
  with assms obtain r' rs' where y: "y = r' # rs'" and r: "map length r = map length r'"
    by (cases y) auto
  from r have "dim1 r = dim1 r'"
    by (cases r; cases r') (auto simp: dim1_def)
  with Cons y show ?thesis by (simp add: dim2_def)
qed

lemma masked_mean3_same:
  assumes "same_on_valid3 msk x y"
  shows "masked_mean3 msk x = masked_mean3 msk y"
  unfolding masked_mean3_def mul3_same [OF assms] ..

lemma masked_mean4_same:
  assumes "same_on_valid4 msk x y"
  shows "masked_mean4 msk x = masked_mean4 msk y"
  unfolding masked_mean4_def mul4_same [OF assms] ..

text \<open>
  On the loss tensors alone the masked means do what their name says: two loss tensors
  of the same shape that agree wherever the mask is not zero give the same entries, in
  \<open>Experiment.compute_loss\<close> and in \<open>Agent._compute_loss\<close>. (Losses are finite real
  numbers here.)
\<close>

lemma masked_means_ignore_masked_entries:
  assumes "same_on_valid3
             (repeat_G (dim2 al) (drop_last (state_mask_of pad_val (rl2s bt)))) al al'"
    and "rel_option
           (same_on_valid4
              (repeat_CG C (dim2 al) (drop_first (state_mask_of pad_val (rl2s bt)))))
           cl cl'"
  shows "compute_loss pad_val C bt cl (LossTensor al)
           = compute_loss pad_val C bt cl' (LossTensor al')
       \<and> Agent_loss_dict pad_val C bt cl al = Agent_loss_dict pad_val C bt cl' al'
       \<and> masked_mean3 (repeat_G (dim2 al) (drop_last (state_mask_of pad_val (rl2s bt)))) al
           = bind_err (mul3 (repeat_G (dim2 al) (drop_last (state_mask_of pad_val (rl2s bt)))) al)
               (\<lambda>prod. Inr
                  (if sum3 (repeat_G (dim2 al) (drop_last (state_mask_of pad_val (rl2s bt)))) = 0
                   then ScalarNaN
                   else Scalar
                     (sum3 prod
                      / sum3 (repeat_G (dim2 al) (drop_last (state_mask_of pad_val (rl2s bt)))))))"
proof -
  from assms(1) have "map (map length) al = map (map length) al'"
    by (simp add: same_on_valid3_def)
  then have d: "dim2 al' = dim2 al"
    by (rule same_shape_dim2 [symmetric])
  note a = masked_mean3_same [OF assms(1)]
  have c: "(case cl of Some x \<Rightarrow>
              masked_mean4 (repeat_CG C (dim2 al) (drop_first (state_mask_of pad_val (rl2s bt)))) x
            | None \<Rightarrow> Inr (PyNumber 0))
         = (case cl' of Some x \<Rightarrow>
              masked_mean4 (repeat_CG C (dim2 al) (drop_first (state_mask_of pad_val (rl2s bt)))) x
            | None \<Rightarrow> Inr (PyNumber 0))"
  proof (cases cl)
    case None
    with assms(2) show ?thesis by (cases cl') simp_all
  next
    case (Some x)
    with assms(2) obtain y where y: "cl' = Some y"
      and s: "same_on_valid4
                (repeat_CG C (dim2 al) (drop_first (state_mask_of pad_val (rl2s bt)))) x y"
      by (cases cl') simp_all
    show ?thesis
      unfolding Some y option.case by (rule masked_mean4_same [OF s])
  qed
  have "compute_loss pad_val C bt cl (LossTensor al)
           = compute_loss pad_val C bt cl' (LossTensor al')"
    unfolding compute_loss_def Let_def loss_val.case d a c ..
  moreover have "Agent_loss_dict pad_val C bt cl al = Agent_loss_dict pad_val C bt cl' al'"
    unfolding Agent_loss_dict_def Let_def masked_avg3_def masked_avg4_def d a c ..
  moreover have
    "masked_mean3 (repeat_G (dim2 al) (drop_last (state_mask_of pad_val (rl2s bt)))) al
           = bind_err (mul3 (repeat_G (dim2 al) (drop_last (state_mask_of pad_val (rl2s bt)))) al)
               (\<lambda>prod. Inr
                  (if sum3 (repeat_G (dim2 al) (drop_last (state_mask_of pad_val (rl2s bt)))) = 0
                   then ScalarNaN
                   else Scalar
                     (sum3 prod
                      / sum3 (repeat_G (dim2 al) (drop_last (state_mask_of pad_val (rl2s bt)))))))"
    by (simp add: masked_mean3_def)
  ultimately show ?thesis by (intro conjI)
qed

lemma example_actor_same:
  "same_on_valid3
     (repeat_G (dim2 example_actor_loss)
        (drop_last (state_mask_of 4 (rl2s example_padded_batch))))
     example_actor_loss example_actor_loss'"
  by code_simp

lemma example_critic_same:
  "same_on_valid4
     (repeat_CG 2 (dim2 example_actor_loss)
        (drop_first (state_mask_of 4 (rl2s example_padded_batch))))
     example_critic_loss example_critic_loss'"
  by code_simp

lemma example_padded_loss:
  "compute_loss 4 2 example_padded_batch (Some example_critic_loss)
     (LossTensor example_actor_loss)
   = Inr \<lparr>entry_critic_loss = Scalar (9 / 2), entry_actor_loss = Scalar 2,
          entry_mask = [[1, 1, 1], [1, 0, 0]]\<rparr>"
  by code_simp

lemma masked_means_ignore_masked_entries_example:
  "same_on_valid3
     (repeat_G (dim2 example_actor_loss)
        (drop_last (state_mask_of 4 (rl2s example_padded_batch))))
     example_actor_loss example_actor_loss'
   \<and> same_on_valid4
       (repeat_CG 2 (dim2 example_actor_loss)
          (drop_first (state_mask_of 4 (rl2s example_padded_batch))))
       example_critic_loss example_critic_loss'
   \<and> example_actor_loss \<noteq> example_actor_loss'
   \<and> example_critic_loss \<noteq> example_critic_loss'
   \<and> compute_loss 4 2 example_padded_batch (Some example_critic_loss')
        (LossTensor example_actor_loss')
     = Inr \<lparr>entry_critic_loss = Scalar (9 / 2), entry_actor_loss = Scalar 2,
            entry_mask = [[1, 1, 1], [1, 0, 0]]\<rparr>
   \<and> Agent_loss_dict 4 2 example_padded_batch (Some example_critic_loss) example_actor_loss
     = Agent_loss_dict 4 2 example_padded_batch (Some example_critic_loss') example_actor_loss'"
proof -
  have r: "rel_option
           (same_on_valid4
              (repeat_CG 2 (dim2 example_actor_loss)
                 (drop_first (state_mask_of 4 (rl2s example_padded_batch)))))
           (Some example_critic_loss) (Some example_critic_loss')"
    using example_critic_same by simp
  note t = masked_means_ignore_masked_entries [OF example_actor_same r]
  have "compute_loss 4 2 example_padded_batch (Some example_critic_loss')
        (LossTensor example_actor_loss')
     = Inr \<lparr>entry_critic_loss = Scalar (9 / 2), entry_actor_loss = Scalar 2,
            entry_mask = [[1, 1, 1], [1, 0, 0]]\<rparr>"
    using t [THEN conjunct1] example_padded_loss by simp
  moreover have "example_actor_loss \<noteq> example_actor_loss'"
    "example_critic_loss \<noteq> example_critic_loss'"
    by (simp_all add: example_actor_loss_def example_actor_loss'_def example_critic_loss_def
        example_critic_loss'_def)
  ultimately show ?thesis
    using example_actor_same example_critic_same t [THEN conjunct2, THEN conjunct1] by simp
qed

subsection \<open>The actor mask and the padded action\<close>

text \<open>
  Claim C4, at the input where the code departs from it. The validity mask of the example
  batch is \<open>[[1, 1, 0]]\<close>. The actor loss is weighted by \<open>state_mask[:, :-1]\<close>, here
  \<open>[[1, 1]]\<close>, so the second timestep has weight one although its action is the padded
  one, while the critic loss is weighted by \<open>state_mask[:, 1:]\<close>, here \<open>[[1, 0]]\<close>.
  Changing only the value of the padded action leaves the mask and the critic loss as
  they were and changes the actor loss of the forward pass at the second timestep and so
  the masked actor loss, from \<open>-1/4\<close> to \<open>-3/20\<close> under behaviour cloning.
\<close>

theorem padded_action_changes_actor_loss:
  "rl2s example_perturbed_batch = rl2s example_batch
   \<and> state_mask_of 4 (rl2s example_batch) = [[1, 1, 0]]
   \<and> actions example_batch = [[[0, 1, 0, 0], [4, 4, 4, 4]]]
   \<and> actions example_perturbed_batch = [[[0, 1, 0, 0], [0, 0, 9, 0]]]
   \<and> Agent_forward example_bc example_modules 4 () example_rng example_batch
     = Inr (None, [[[- (1 / 10), - (1 / 5)], [- (2 / 5), - (3 / 10)]]], ())
   \<and> Agent_forward example_bc example_modules 4 () example_rng example_perturbed_batch
     = Inr (None, [[[- (1 / 10), - (1 / 5)], [- (1 / 5), - (1 / 10)]]], ())
   \<and> Agent_compute_loss example_bc example_modules 4 () example_rng example_batch
     = Inr \<lparr>entry_critic_loss = PyNumber 0, entry_actor_loss = Scalar (- (1 / 4)),
            entry_mask = [[1, 1, 0]]\<rparr>
   \<and> Agent_compute_loss example_bc example_modules 4 () example_rng example_perturbed_batch
     = Inr \<lparr>entry_critic_loss = PyNumber 0, entry_actor_loss = Scalar (- (3 / 20)),
            entry_mask = [[1, 1, 0]]\<rparr>
   \<and> Agent_compute_loss example_offline example_modules 4 () example_rng example_batch
     = Inr \<lparr>entry_critic_loss = Scalar (54361 / 200), entry_actor_loss = Scalar 0,
            entry_mask = [[1, 1, 0]]\<rparr>
   \<and> Agent_compute_loss example_offline example_modules 4 () example_rng
       example_perturbed_batch
     = Inr \<lparr>entry_critic_loss = Scalar (54361 / 200), entry_actor_loss = Scalar 0,
            entry_mask = [[1, 1, 0]]\<rparr>"
  by code_simp

theorem padded_action_changes_actor_loss_witness:
  "rl2s example_perturbed_batch = rl2s example_batch
   \<and> map_sum id entry_mask
        (Agent_compute_loss example_bc example_modules 4 () example_rng example_perturbed_batch)
     = map_sum id entry_mask
        (Agent_compute_loss example_bc example_modules 4 () example_rng example_batch)
   \<and> map_sum id entry_actor_loss
        (Agent_compute_loss example_bc example_modules 4 () example_rng example_perturbed_batch)
     \<noteq> map_sum id entry_actor_loss
        (Agent_compute_loss example_bc example_modules 4 () example_rng example_batch)"
  using padded_action_changes_actor_loss by simp

subsection \<open>\<open>get_actions\<close>\<close>

lemma takeWhile_stops_early:
  assumes "\<not> list_all P xs"
  shows "length (takeWhile P xs) < length xs"
  using assms by (induction xs) simp_all

lemma takeWhile_nth_holds: "j < length (takeWhile P xs) \<Longrightarrow> P (xs ! j)"
  by (metis nth_mem set_takeWhileD takeWhile_nth)

lemma argmax_list_props:
  fixes xs :: "real list"
  assumes "xs \<noteq> []"
  shows "argmax_list xs < length xs"
    and "xs ! argmax_list xs = Max (set xs)"
    and "\<And>j. j < argmax_list xs \<Longrightarrow> xs ! j < Max (set xs)"
proof -
  have "Max (set xs) \<in> set xs" using assms by (intro Max_in) simp_all
  then have ex: "\<not> list_all (\<lambda>x. x \<noteq> Max (set xs)) xs"
    by (simp add: list_all_iff)
  then show lt: "argmax_list xs < length xs"
    unfolding argmax_list_def by (rule takeWhile_stops_early)
  show "xs ! argmax_list xs = Max (set xs)"
    using nth_length_takeWhile [of "\<lambda>x. x \<noteq> Max (set xs)" xs] lt
    by (simp add: argmax_list_def)
  show "xs ! j < Max (set xs)" if "j < argmax_list xs" for j
  proof -
    from that have "xs ! j \<noteq> Max (set xs)"
      unfolding argmax_list_def by (rule takeWhile_nth_holds)
    moreover have "xs ! j \<le> Max (set xs)"
      using that lt by (intro Max_ge) simp_all
    ultimately show ?thesis by simp
  qed
qed

lemma to_uint8_index: "n < 256 \<Longrightarrow> unat (to_uint8 (real n)) = n"
  by (simp add: to_uint8_def unat_of_nat)

lemma select_actions_argmax:
  assumes "discrete ag"
    and "\<not> list_ex (list_ex (list_ex (\<lambda>v. v = []))) (dist_probs m d)"
    and "\<not> list_ex (list_ex (\<lambda>gs. gs = [])) (dist_probs m d)"
  shows "select_actions ag m False d
         = Inr (UInt8 (map (map (\<lambda>gs. [to_uint8 (real (argmax_list (last gs)))]))
                         (dist_probs m d)))"
proof -
  have e: "\<not> list_ex (list_ex (\<lambda>gs. gs = []))
              (map (map (map (\<lambda>p. [real (argmax_list p)]))) (dist_probs m d))"
    using assms(3) by (auto simp: list_ex_iff)
  have ne: "gs \<noteq> []" if "r \<in> set (dist_probs m d)" and "gs \<in> set r" for r gs
    using assms(3) that by (auto simp: list_ex_iff)
  have l: "map (map (map to_uint8))
             (map (map last) (map (map (map (\<lambda>p. [real (argmax_list p)]))) (dist_probs m d)))
         = map (map (\<lambda>gs. [to_uint8 (real (argmax_list (last gs)))])) (dist_probs m d)"
    unfolding map_map comp_def
  proof (intro map_cong refl)
    fix r gs assume "r \<in> set (dist_probs m d)" and "gs \<in> set r"
    then have "gs \<noteq> []" by (rule ne)
    then show "map to_uint8 (last (map (\<lambda>p. [real (argmax_list p)]) gs))
               = [to_uint8 (real (argmax_list (last gs)))]"
      by (simp add: last_map)
  qed
  show ?thesis
    using assms(1,2) e l by (simp add: select_actions_def Let_def)
qed

lemma select_actions_mean:
  assumes "\<not> discrete ag"
    and "\<not> list_ex (list_ex (\<lambda>gs. gs = [])) (dist_mean m d)"
  shows "select_actions ag m False d = Inr (Float32 (map (map last) (dist_mean m d)))"
  using assms by (simp add: select_actions_def Let_def)

lemma select_actions_sample:
  assumes "\<not> list_ex (list_ex (\<lambda>gs. gs = [])) (dist_sample m 0 d)"
  shows "select_actions ag m True d
         = Inr (if discrete ag
                then UInt8 (map (map (map to_uint8)) (map (map last) (dist_sample m 0 d)))
                else Float32 (map (map last) (dist_sample m 0 d)))"
  using assms by (simp add: select_actions_def Let_def)

lemma get_actions_split:
  "get_actions ag m obs0 goals0 rl2s0 sl ti hs sample = Inr (arr, h')
   \<longleftrightarrow> (\<exists>d. get_action_dists ag m obs0 goals0 rl2s0 sl ti hs = Inr (d, h')
            \<and> select_actions ag m sample d = Inr arr)"
  by (auto simp: get_actions_def bind_err_eq_Inr)

lemma get_action_dists_fresh:
  assumes "valid_seq_lengths
             (fst (traj_encoder m (tstep_encoder m obs0 goals0 rl2s0) ti None)) sl"
  shows "get_action_dists ag m obs0 goals0 rl2s0 sl ti None
         = Inr (actor_net m (actor ag)
                  (current_timestep_spec
                     (fst (traj_encoder m (tstep_encoder m obs0 goals0 rl2s0) ti None)) sl),
                snd (traj_encoder m (tstep_encoder m obs0 goals0 rl2s0) ti None))"
  using take_along_time_valid [OF assms]
  by (simp add: get_action_dists_def Let_def case_prod_beta)

lemma get_action_dists_hidden:
  assumes "list_all (\<lambda>(k, v). valid_seq_lengths v sl) obs0"
    and "valid_seq_lengths goals0 sl" and "valid_seq_lengths rl2s0 sl"
    and "valid_seq_lengths ti sl"
  shows "get_action_dists ag m obs0 goals0 rl2s0 sl ti (Some h)
         = (let te = traj_encoder m
                       (tstep_encoder m (map (\<lambda>(k, v). (k, current_timestep_spec v sl)) obs0)
                          (current_timestep_spec goals0 sl) (current_timestep_spec rl2s0 sl))
                       (current_timestep_spec ti sl) (Some h)
            in Inr (actor_net m (actor ag) (fst te), snd te))"
  using get_current_timestep_items_valid [OF assms(1)] take_along_time_valid [OF assms(2)]
    take_along_time_valid [OF assms(3)] take_along_time_valid [OF assms(4)]
  by (simp add: get_action_dists_def Let_def case_prod_beta)

lemma Agent_init_gammas:
  assumes "Agent_init args = Inr ag"
  shows "gammas ag \<noteq> [] \<and> last (gammas ag) = arg_gamma args"
  using assms
  by (auto simp: Agent_init_def Let_def bind_err_eq_Inr hard_sync_targets_def
      split: prod.splits)

text \<open>
  Claim C9. \<open>get_actions\<close> returns what its two parts return: the array selected from
  the actor's distribution at the current timestep, together with the hidden state that
  the trajectory encoder returned. With \<open>sample\<close> false the selection is, for a
  discrete action space, the index of the (first) largest probability and, for any other
  space, the mean of the distribution; with \<open>sample\<close> true it is a sample. In every
  mode only the entry of the last gamma is kept, as \<open>uint8\<close> for a discrete space and
  as \<open>float32\<close> otherwise; an index below 256 is kept exactly by the cast. The
  constructor puts the given \<open>gamma\<close> last in the agent's gammas.
\<close>

theorem get_actions_primary_gamma:
  "(get_actions ag m obs0 goals0 rl2s0 sl ti hs sample = Inr (arr, h')
      \<longleftrightarrow> (\<exists>d. get_action_dists ag m obs0 goals0 rl2s0 sl ti hs = Inr (d, h')
               \<and> select_actions ag m sample d = Inr arr))
   \<and> (valid_seq_lengths
         (fst (traj_encoder m (tstep_encoder m obs0 goals0 rl2s0) ti None)) sl \<longrightarrow>
       get_action_dists ag m obs0 goals0 rl2s0 sl ti None
       = Inr (actor_net m (actor ag)
                (current_timestep_spec
                   (fst (traj_encoder m (tstep_encoder m obs0 goals0 rl2s0) ti None)) sl),
              snd (traj_encoder m (tstep_encoder m obs0 goals0 rl2s0) ti None)))
   \<and> (list_all (\<lambda>(k, v). valid_seq_lengths v sl) obs0 \<and> valid_seq_lengths goals0 sl
       \<and> valid_seq_lengths rl2s0 sl \<and> valid_seq_lengths ti sl \<longrightarrow>
       get_action_dists ag m obs0 goals0 rl2s0 sl ti (Some h)
       = (let te = traj_encoder m
                     (tstep_encoder m (map (\<lambda>(k, v). (k, current_timestep_spec v sl)) obs0)
                        (current_timestep_spec goals0 sl) (current_timestep_spec rl2s0 sl))
                     (current_timestep_spec ti sl) (Some h)
          in Inr (actor_net m (actor ag) (fst te), snd te)))
   \<and> (discrete ag \<and> \<not> list_ex (list_ex (list_ex (\<lambda>v. v = []))) (dist_probs m d)
       \<and> \<not> list_ex (list_ex (\<lambda>gs. gs = [])) (dist_probs m d) \<longrightarrow>
       select_actions ag m False d
       = Inr (UInt8 (map (map (\<lambda>gs. [to_uint8 (real (argmax_list (last gs)))]))
                       (dist_probs m d))))
   \<and> (\<not> discrete ag \<and> \<not> list_ex (list_ex (\<lambda>gs. gs = [])) (dist_mean m d) \<longrightarrow>
       select_actions ag m False d = Inr (Float32 (map (map last) (dist_mean m d))))
   \<and> (\<not> list_ex (list_ex (\<lambda>gs. gs = [])) (dist_sample m 0 d) \<longrightarrow>
       select_actions ag m True d
       = Inr (if discrete ag
              then UInt8 (map (map (map to_uint8)) (map (map last) (dist_sample m 0 d)))
              else Float32 (map (map last) (dist_sample m 0 d))))
   \<and> (xs \<noteq> [] \<longrightarrow>
       argmax_list xs < length xs \<and> xs ! argmax_list xs = Max (set xs)
       \<and> (\<forall>j < argmax_list xs. xs ! j < Max (set xs)))
   \<and> (n < 256 \<longrightarrow> unat (to_uint8 (real n)) = n)
   \<and> (Agent_init args = Inr ag' \<longrightarrow> gammas ag' \<noteq> [] \<and> last (gammas ag') = arg_gamma args)"
proof (intro conjI impI)
  show "get_actions ag m obs0 goals0 rl2s0 sl ti hs sample = Inr (arr, h')
      \<longleftrightarrow> (\<exists>d. get_action_dists ag m obs0 goals0 rl2s0 sl ti hs = Inr (d, h')
               \<and> select_actions ag m sample d = Inr arr)"
    by (rule get_actions_split)
next
  assume "valid_seq_lengths
         (fst (traj_encoder m (tstep_encoder m obs0 goals0 rl2s0) ti None)) sl"
  then show "get_action_dists ag m obs0 goals0 rl2s0 sl ti None
       = Inr (actor_net m (actor ag)
                (current_timestep_spec
                   (fst (traj_encoder m (tstep_encoder m obs0 goals0 rl2s0) ti None)) sl),
              snd (traj_encoder m (tstep_encoder m obs0 goals0 rl2s0) ti None))"
    by (rule get_action_dists_fresh)
next
  assume "list_all (\<lambda>(k, v). valid_seq_lengths v sl) obs0 \<and> valid_seq_lengths goals0 sl
       \<and> valid_seq_lengths rl2s0 sl \<and> valid_seq_lengths ti sl"
  then show "get_action_dists ag m obs0 goals0 rl2s0 sl ti (Some h)
       = (let te = traj_encoder m
                     (tstep_encoder m (map (\<lambda>(k, v). (k, current_timestep_spec v sl)) obs0)
                        (current_timestep_spec goals0 sl) (current_timestep_spec rl2s0 sl))
                     (current_timestep_spec ti sl) (Some h)
          in Inr (actor_net m (actor ag) (fst te), snd te))"
    by (intro get_action_dists_hidden) simp_all
next
  assume "discrete ag \<and> \<not> list_ex (list_ex (list_ex (\<lambda>v. v = []))) (dist_probs m d)
       \<and> \<not> list_ex (list_ex (\<lambda>gs. gs = [])) (dist_probs m d)"
  then show "select_actions ag m False d
       = Inr (UInt8 (map (map (\<lambda>gs. [to_uint8 (real (argmax_list (last gs)))]))
                       (dist_probs m d)))"
    by (intro select_actions_argmax) simp_all
next
  assume "\<not> discrete ag \<and> \<not> list_ex (list_ex (\<lambda>gs. gs = [])) (dist_mean m d)"
  then show "select_actions ag m False d = Inr (Float32 (map (map last) (dist_mean m d)))"
    by (intro select_actions_mean) simp_all
next
  assume "\<not> list_ex (list_ex (\<lambda>gs. gs = [])) (dist_sample m 0 d)"
  then show "select_actions ag m True d
       = Inr (if discrete ag
              then UInt8 (map (map (map to_uint8)) (map (map last) (dist_sample m 0 d)))
              else Float32 (map (map last) (dist_sample m 0 d)))"
    by (rule select_actions_sample)
next
  assume "xs \<noteq> []"
  then show "argmax_list xs < length xs" "xs ! argmax_list xs = Max (set xs)"
    "\<forall>j < argmax_list xs. xs ! j < Max (set xs)"
    by (simp_all add: argmax_list_props)
next
  assume "n < 256"
  then show "unat (to_uint8 (real n)) = n" by (rule to_uint8_index)
next
  assume "Agent_init args = Inr ag'"
  then show "gammas ag' \<noteq> []" "last (gammas ag') = arg_gamma args"
    by (simp_all add: Agent_init_gammas)
qed

lemma example_rollout_actions:
  "get_actions example_agent example_rollout_modules example_rollout_obs example_rollout_goals
     example_rollout_rl2s [3, 1] example_rollout_time_idxs None False
   = Inr (UInt8 [[[2]], [[0]]], ())"
  by code_simp

lemma example_rollout_valid:
  "valid_seq_lengths
     (fst (traj_encoder example_rollout_modules
             (tstep_encoder example_rollout_modules example_rollout_obs example_rollout_goals
                example_rollout_rl2s)
             example_rollout_time_idxs None)) [3, 1]"
  by code_simp

lemma example_rollout_dists:
  "actor_net example_rollout_modules (actor example_agent)
     (current_timestep_spec
        (fst (traj_encoder example_rollout_modules
                (tstep_encoder example_rollout_modules example_rollout_obs
                   example_rollout_goals example_rollout_rl2s)
                example_rollout_time_idxs None)) [3, 1])
   = [[[[5, 1, 2, 3], [3, 2, 5, 1 / 2]]], [[[1, 1, 2, 3], [3, 2, 1, 1 / 2]]]]"
  by code_simp

lemma example_rollout_nonempty:
  "discrete example_agent
   \<and> \<not> list_ex (list_ex (list_ex (\<lambda>v. v = [])))
         (dist_probs example_rollout_modules
            [[[[5, 1, 2, 3], [3, 2, 5, 1 / 2]]], [[[1, 1, 2, 3], [3, 2, 1, 1 / 2]]]])
   \<and> \<not> list_ex (list_ex (\<lambda>gs. gs = []))
         (dist_probs example_rollout_modules
            [[[[5, 1, 2, 3], [3, 2, 5, 1 / 2]]], [[[1, 1, 2, 3], [3, 2, 1, 1 / 2]]]])"
  by code_simp

lemma example_rollout_probs:
  "dist_probs example_rollout_modules
     [[[[5, 1, 2, 3], [3, 2, 5, 1 / 2]]], [[[1, 1, 2, 3], [3, 2, 1, 1 / 2]]]]
   = [[[[5, 1, 2, 3], [3, 2, 5, 1 / 2]]], [[[1, 1, 2, 3], [3, 2, 1, 1 / 2]]]]"
  by code_simp

lemma example_argmax: "argmax_list [3, 2, 5, 1 / 2] = 2" "argmax_list [3, 2, 1, 1 / 2] = 0"
  by code_simp+

theorem get_actions_primary_gamma_witness:
  "get_action_dists example_agent example_rollout_modules example_rollout_obs
     example_rollout_goals example_rollout_rl2s [3, 1] example_rollout_time_idxs None
   = Inr ([[[[5, 1, 2, 3], [3, 2, 5, 1 / 2]]], [[[1, 1, 2, 3], [3, 2, 1, 1 / 2]]]], ())
   \<and> select_actions example_agent example_rollout_modules False
       [[[[5, 1, 2, 3], [3, 2, 5, 1 / 2]]], [[[1, 1, 2, 3], [3, 2, 1, 1 / 2]]]]
     = Inr (UInt8 [[[to_uint8 2]], [[to_uint8 0]]])
   \<and> unat (to_uint8 (real 2)) = 2
   \<and> argmax_list [3, 2, 5, 1 / 2] = 2
   \<and> get_actions example_agent example_rollout_modules example_rollout_obs
       example_rollout_goals example_rollout_rl2s [3, 1] example_rollout_time_idxs None False
     = Inr (UInt8 [[[2]], [[0]]], ())"
proof -
  note t = get_actions_primary_gamma
      [of example_agent example_rollout_modules example_rollout_obs example_rollout_goals
          example_rollout_rl2s "[3, 1]" example_rollout_time_idxs None False
          "UInt8 [[[2]], [[0]]]" "()" "()"
          "[[[[5, 1, 2, 3], [3, 2, 5, 1 / 2]]], [[[1, 1, 2, 3], [3, 2, 1, 1 / 2]]]]"
          "[3, 2, 5, 1 / 2]" 2 example_args example_agent]
  have a: "get_action_dists example_agent example_rollout_modules example_rollout_obs
     example_rollout_goals example_rollout_rl2s [3, 1] example_rollout_time_idxs None
   = Inr ([[[[5, 1, 2, 3], [3, 2, 5, 1 / 2]]], [[[1, 1, 2, 3], [3, 2, 1, 1 / 2]]]], ())"
    using t [THEN conjunct2, THEN conjunct1, THEN mp, OF example_rollout_valid]
    unfolding example_rollout_dists by simp
  have b: "select_actions example_agent example_rollout_modules False
       [[[[5, 1, 2, 3], [3, 2, 5, 1 / 2]]], [[[1, 1, 2, 3], [3, 2, 1, 1 / 2]]]]
     = Inr (UInt8 [[[to_uint8 2]], [[to_uint8 0]]])"
    using t [THEN conjunct2, THEN conjunct2, THEN conjunct2, THEN conjunct1, THEN mp,
        OF example_rollout_nonempty]
    unfolding example_rollout_probs by (simp add: example_argmax)
  have c: "unat (to_uint8 (real 2)) = 2"
    by (rule t [THEN conjunct2, THEN conjunct2, THEN conjunct2, THEN conjunct2, THEN conjunct2,
          THEN conjunct2, THEN conjunct2, THEN conjunct1, THEN mp]) simp
  show ?thesis
    using a b c example_argmax(1) example_rollout_actions by simp
qed

subsection \<open>The advantage filter\<close>

lemma tab3_cong:
  assumes "\<And>b l g. b < B \<Longrightarrow> l < L \<Longrightarrow> g < G \<Longrightarrow> f b l g = f' b l g"
  shows "tab3 B L G f = tab3 B L G f'"
  unfolding tab3_def by (intro map_cong refl) (simp add: assms)

lemma tab3_shape [simp]: "is_shape3 B L G (tab3 B L G f)"
  by (simp add: is_shape3_def is_shape2_def tab3_def list_all_iff)

lemma is_shape3_nth:
  "is_shape3 B L G t \<Longrightarrow> b < B \<Longrightarrow> l < L \<Longrightarrow>
   length t = B \<and> length (t ! b) = L \<and> length (t ! b ! l) = G"
  by (simp add: is_shape3_def is_shape2_def list_all_length)

lemma map3_nth:
  "is_shape3 B L G t \<Longrightarrow> b < B \<Longrightarrow> l < L \<Longrightarrow> g < G \<Longrightarrow>
   map (map (map f)) t ! b ! l ! g = f (t ! b ! l ! g)"
  using is_shape3_nth [of B L G t b l] by simp

lemma binary_filter_nth:
  assumes "is_shape3 B L G adv" and "b < B" and "l < L" and "g < G"
  shows "binary_filter threshold adv ! b ! l ! g \<longleftrightarrow> adv ! b ! l ! g > threshold"
  by (simp add: binary_filter_def map3_nth [OF assms])

lemma Agent_filter_nth:
  assumes "is_shape3 B L G adv" and "b < B" and "l < L" and "g < G"
  shows "Agent_filter adv ! b ! l ! g = (if adv ! b ! l ! g > 1 / 1000 then 1 else 0)"
  by (simp add: Agent_filter_def map3_nth [OF assms])

lemma Agent_advantage_value:
  assumes "0 < C"
  shows "Agent_advantage B L1 C G q_s_a_g q_s_a_agent_g
         = Inr (tab3 B L1 G (\<lambda>b l g.
                  mean (map (\<lambda>c. q_s_a_g ! b ! l ! c ! g) [0..<C])
                  - mean (map (\<lambda>c. q_s_a_agent_g ! b ! l ! c ! g) [0..<C])))"
  using assms by (simp add: Agent_advantage_def mean_dim2_def tab3_def cong: map_cong)

lemma Agent_fbc_loss_value:
  assumes r: "Agent_fbc_loss ag m a_dist a_buffer (Some (q_s_a_agent_g, q_s_a_g)) B L1 actor_loss
              = Inr res"
    and off: "offline_coeff ag > 0" and nf: "\<not> fake_filter ag"
  shows "0 < num_critics ag
         \<and> (\<exists>logp0. Agent_logp_a ag m a_dist a_buffer = Inr logp0
              \<and> res = tab3 B L1 (length (gammas ag)) (\<lambda>b l g.
                   actor_loss ! b ! l ! g
                   + offline_coeff ag
                     * - ((if mean (map (\<lambda>c. q_s_a_g ! b ! l ! c ! g)
                                     [0..<nat (num_critics ag)])
                              - mean (map (\<lambda>c. q_s_a_agent_g ! b ! l ! c ! g)
                                        [0..<nat (num_critics ag)]) > 1 / 1000
                           then 1 else 0)
                          * clamp (- 1000) 1000 (drop_last logp0 ! b ! l ! g))))"
proof -
  have Cp: "0 < nat (num_critics ag)"
  proof (rule ccontr)
    assume "\<not> 0 < nat (num_critics ag)"
    then have "Agent_advantage B L1 (nat (num_critics ag)) (length (gammas ag))
                 q_s_a_g q_s_a_agent_g = Inl NotANumber"
      by (simp add: Agent_advantage_def mean_dim2_def)
    with r off nf show False
      unfolding Agent_fbc_loss_def Let_def by simp
  qed
  note adv = Agent_advantage_value [OF Cp, of B L1 "length (gammas ag)" q_s_a_g q_s_a_agent_g]
  define filter1 where "filter1 = Agent_filter (tab3 B L1 (length (gammas ag)) (\<lambda>b l g.
                        mean (map (\<lambda>c. q_s_a_g ! b ! l ! c ! g) [0..<nat (num_critics ag)])
                        - mean (map (\<lambda>c. q_s_a_agent_g ! b ! l ! c ! g)
                                  [0..<nat (num_critics ag)])))"
  from r off nf have "bind_err (Agent_logp_a ag m a_dist a_buffer) (\<lambda>logp0.
        bind_err (if is_shape3 B L1 (length (gammas ag))
                       (map (map (map (clamp (- 1000) 1000))) (drop_last logp0))
                  then Inr () else Inl RuntimeError) (\<lambda>_.
        Inr (tab3 B L1 (length (gammas ag)) (\<lambda>b l g.
               actor_loss ! b ! l ! g
               + offline_coeff ag
                 * - (filter1 ! b ! l ! g
                      * map (map (map (clamp (- 1000) 1000))) (drop_last logp0) ! b ! l ! g)))))
      = Inr res"
    unfolding Agent_fbc_loss_def Let_def filter1_def by (simp add: adv)
  then obtain logp0 where lp: "Agent_logp_a ag m a_dist a_buffer = Inr logp0"
    and rest: "bind_err (if is_shape3 B L1 (length (gammas ag))
                       (map (map (map (clamp (- 1000) 1000))) (drop_last logp0))
                  then Inr () else Inl RuntimeError) (\<lambda>_.
        Inr (tab3 B L1 (length (gammas ag)) (\<lambda>b l g.
               actor_loss ! b ! l ! g
               + offline_coeff ag
                 * - (filter1 ! b ! l ! g
                      * map (map (map (clamp (- 1000) 1000))) (drop_last logp0) ! b ! l ! g))))
      = Inr res"
    unfolding bind_err_eq_Inr [of "Agent_logp_a ag m a_dist a_buffer"] by blast
  have sh: "is_shape3 B L1 (length (gammas ag))
               (map (map (map (clamp (- 1000) 1000))) (drop_last logp0))"
    using rest by (cases "is_shape3 B L1 (length (gammas ag))
               (map (map (map (clamp (- 1000) 1000))) (drop_last logp0))") simp_all
  have res: "res = tab3 B L1 (length (gammas ag)) (\<lambda>b l g.
               actor_loss ! b ! l ! g
               + offline_coeff ag
                 * - (filter1 ! b ! l ! g
                      * map (map (map (clamp (- 1000) 1000))) (drop_last logp0) ! b ! l ! g))"
    using rest sh by simp
  have sh0: "is_shape3 B L1 (length (gammas ag)) (drop_last logp0)"
    using sh by (simp add: is_shape3_def is_shape2_def list_all_iff)
  have "res = tab3 B L1 (length (gammas ag)) (\<lambda>b l g.
        actor_loss ! b ! l ! g
        + offline_coeff ag
          * - ((if mean (map (\<lambda>c. q_s_a_g ! b ! l ! c ! g) [0..<nat (num_critics ag)])
                   - mean (map (\<lambda>c. q_s_a_agent_g ! b ! l ! c ! g)
                             [0..<nat (num_critics ag)]) > 1 / 1000
                then 1 else 0)
               * clamp (- 1000) 1000 (drop_last logp0 ! b ! l ! g)))"
    unfolding res filter1_def
  proof (rule tab3_cong)
    fix b l g assume b: "b < B" and l: "l < L1" and g: "g < length (gammas ag)"
    show "actor_loss ! b ! l ! g
        + offline_coeff ag
          * - (Agent_filter (tab3 B L1 (length (gammas ag)) (\<lambda>b l g.
                        mean (map (\<lambda>c. q_s_a_g ! b ! l ! c ! g) [0..<nat (num_critics ag)])
                        - mean (map (\<lambda>c. q_s_a_agent_g ! b ! l ! c ! g)
                                  [0..<nat (num_critics ag)]))) ! b ! l ! g
               * map (map (map (clamp (- 1000) 1000))) (drop_last logp0) ! b ! l ! g)
        = actor_loss ! b ! l ! g
        + offline_coeff ag
          * - ((if mean (map (\<lambda>c. q_s_a_g ! b ! l ! c ! g) [0..<nat (num_critics ag)])
                   - mean (map (\<lambda>c. q_s_a_agent_g ! b ! l ! c ! g)
                             [0..<nat (num_critics ag)]) > 1 / 1000
                then 1 else 0)
               * clamp (- 1000) 1000 (drop_last logp0 ! b ! l ! g))"
      using b l g
      by (simp add: Agent_filter_nth [OF tab3_shape b l g] map3_nth [OF sh0 b l g])
  qed
  with lp Cp show ?thesis by auto
qed

lemma mean_dim2_eq_Inr:
  "mean_dim2 B L K G x = Inr y \<longleftrightarrow>
   0 < K \<and> y = tab3 B L G (\<lambda>b l g. mean (map (\<lambda>k. x ! b ! l ! k ! g) [0..<K]))"
  by (auto simp: mean_dim2_def)

lemma MultiTaskAgent_filter_plugged:
  assumes "\<not> fake_filter ag" and "offline_coeff ag > 0"
    and "MultiTaskAgent_advantage ag m m2 s_rep a_dist q B L = Inr adv"
  shows "MultiTaskAgent_filter ag m m2 s_rep a_dist q B L
         = Inr (map (map (map of_bool)) (drop_last (fbc_filter_func ag adv)))"
  using assms by (simp add: MultiTaskAgent_filter_def)

lemma MultiTaskAgent_filter_ones:
  assumes "fake_filter ag \<or> \<not> offline_coeff ag > 0"
  shows "MultiTaskAgent_filter ag m m2 s_rep a_dist q B L
         = Inr (tab3 B (L - 1) (length (gammas ag)) (\<lambda>b l g. 1))"
  using assms by (auto simp: MultiTaskAgent_filter_def)

lemma MultiTaskAgent_advantage_value:
  assumes "MultiTaskAgent_advantage ag m m2 s_rep a_dist q B L = Inr adv"
  shows "\<exists>qs. q = Some qs \<and> 0 < fbc_filter_k ag \<and> 0 < num_critics ag
           \<and> adv = tab3 B L (length (gammas ag)) (\<lambda>b l g.
                mean (map (\<lambda>c. bin_dist_to_raw_vals m2 qs ! b ! l ! c ! g)
                        [0..<nat (num_critics ag)])
                - mean (map (\<lambda>k.
                     mean (map (\<lambda>c.
                        bin_dist_to_raw_vals m2
                          (critic_dist_net m2 (critics ag)
                             (concat (map (replicate (nat (fbc_filter_k ag))) s_rep))
                             (concat (transpose (dist_sample_n m2 (nat (fbc_filter_k ag)) a_dist))))
                        ! (b * nat (fbc_filter_k ag) + k) ! l ! c ! g)
                        [0..<nat (num_critics ag)]))
                     [0..<nat (fbc_filter_k ag)]))"
proof -
  define G where "G = length (gammas ag)"
  define C where "C = nat (num_critics ag)"
  define K where "K = nat (fbc_filter_k ag)"
  define raw where "raw = bin_dist_to_raw_vals m2
                          (critic_dist_net m2 (critics ag)
                             (concat (map (replicate K) s_rep))
                             (concat (transpose (dist_sample_n m2 K a_dist))))"
  from assms have k0: "\<not> fbc_filter_k ag < 0"
    by (auto simp: MultiTaskAgent_advantage_def Let_def split: if_splits)
  with assms obtain val_bk val_s q_mean where
    v1: "mean_dim2 (B * K) L C G raw = Inr val_bk"
    and v2: "(if fbc_filter_k ag = 0 then Inl NotANumber
              else Inr (tab3 B L G (\<lambda>b l g.
                     mean (map (\<lambda>k. val_bk ! (b * K + k) ! l ! g) [0..<K])))) = Inr val_s"
    and v3: "(case q of None \<Rightarrow> Inl UnboundLocalError
              | Some q' \<Rightarrow> mean_dim2 B L C G (bin_dist_to_raw_vals m2 q')) = Inr q_mean"
    and v4: "adv = tab3 B L G (\<lambda>b l g. q_mean ! b ! l ! g - val_s ! b ! l ! g)"
    unfolding MultiTaskAgent_advantage_def Let_def G_def C_def K_def raw_def
    by (auto simp: bind_err_eq_Inr)
  from v2 k0 have Kp: "0 < fbc_filter_k ag"
    and vs: "val_s = tab3 B L G (\<lambda>b l g.
                     mean (map (\<lambda>k. val_bk ! (b * K + k) ! l ! g) [0..<K]))"
    by (auto split: if_splits)
  from v3 obtain qs where q: "q = Some qs"
    and qm: "mean_dim2 B L C G (bin_dist_to_raw_vals m2 qs) = Inr q_mean"
    by (cases q) simp_all
  from v1 have Cp: "0 < C"
    and vb: "val_bk = tab3 (B * K) L G (\<lambda>b l g. mean (map (\<lambda>c. raw ! b ! l ! c ! g) [0..<C]))"
    by (simp_all add: mean_dim2_eq_Inr)
  from qm have qmv: "q_mean = tab3 B L G (\<lambda>b l g.
        mean (map (\<lambda>c. bin_dist_to_raw_vals m2 qs ! b ! l ! c ! g) [0..<C]))"
    by (simp add: mean_dim2_eq_Inr)
  have Kn: "0 < K" using Kp by (simp add: K_def)
  have idx: "b * K + k < B * K" if "b < B" "k < K" for b k
  proof -
    have "b * K + k < b * K + K" using that by simp
    also have "\<dots> = (b + 1) * K" by simp
    also have "\<dots> \<le> B * K" using that by (intro mult_le_mono1) simp
    finally show ?thesis .
  qed
  have "adv = tab3 B L G (\<lambda>b l g.
          mean (map (\<lambda>c. bin_dist_to_raw_vals m2 qs ! b ! l ! c ! g) [0..<C])
          - mean (map (\<lambda>k. mean (map (\<lambda>c. raw ! (b * K + k) ! l ! c ! g) [0..<C])) [0..<K]))"
    unfolding v4
  proof (rule tab3_cong)
    fix b l g assume b: "b < B" and l: "l < L" and g: "g < G"
    have eq: "map (\<lambda>k. val_bk ! (b * K + k) ! l ! g) [0..<K]
          = map (\<lambda>k. mean (map (\<lambda>c. raw ! (b * K + k) ! l ! c ! g) [0..<C])) [0..<K]"
      by (intro map_cong refl) (simp add: vb idx [OF b] l g)
    show "q_mean ! b ! l ! g - val_s ! b ! l ! g
       = mean (map (\<lambda>c. bin_dist_to_raw_vals m2 qs ! b ! l ! c ! g) [0..<C])
          - mean (map (\<lambda>k. mean (map (\<lambda>c. raw ! (b * K + k) ! l ! c ! g) [0..<C])) [0..<K])"
      unfolding eq [symmetric] by (simp add: vs qmv b l g)
  qed
  with q Kp Cp show ?thesis
    by (simp add: G_def C_def K_def raw_def)
qed

lemma MultiTaskAgent_fbc_loss_value:
  assumes r: "MultiTaskAgent_fbc_loss ag m m2 a_dist a_buffer filter1 B L1 = Inr res"
    and off: "offline_coeff ag > 0"
  shows "\<exists>logp0. MultiTaskAgent_logp_a ag m m2 a_dist a_buffer = Inr logp0
           \<and> res = LossTensor (tab3 B L1 (length (gammas ag)) (\<lambda>b l g.
                 0 + offline_coeff ag
                     * - (filter1 ! b ! l ! g
                          * clamp (- 1000) 1000 (drop_last logp0 ! b ! l ! g))))"
proof -
  from r off have "bind_err (MultiTaskAgent_logp_a ag m m2 a_dist a_buffer) (\<lambda>logp0.
        bind_err (if is_shape3 B L1 (length (gammas ag))
                       (map (map (map (clamp (- 1000) 1000))) (drop_last logp0))
                     \<and> is_shape3 B L1 (length (gammas ag)) filter1
                  then Inr () else Inl RuntimeError) (\<lambda>_.
        Inr (add_loss B L1 (length (gammas ag)) (PyFloat 0)
               (tab3 B L1 (length (gammas ag)) (\<lambda>b l g.
                  offline_coeff ag
                  * - (filter1 ! b ! l ! g
                       * map (map (map (clamp (- 1000) 1000))) (drop_last logp0) ! b ! l ! g))))))
      = Inr res"
    unfolding MultiTaskAgent_fbc_loss_def Let_def by simp
  then obtain logp0 where lp: "MultiTaskAgent_logp_a ag m m2 a_dist a_buffer = Inr logp0"
    and rest: "bind_err (if is_shape3 B L1 (length (gammas ag))
                       (map (map (map (clamp (- 1000) 1000))) (drop_last logp0))
                     \<and> is_shape3 B L1 (length (gammas ag)) filter1
                  then Inr () else Inl RuntimeError) (\<lambda>_.
        Inr (add_loss B L1 (length (gammas ag)) (PyFloat 0)
               (tab3 B L1 (length (gammas ag)) (\<lambda>b l g.
                  offline_coeff ag
                  * - (filter1 ! b ! l ! g
                       * map (map (map (clamp (- 1000) 1000))) (drop_last logp0) ! b ! l ! g)))))
      = Inr res"
    unfolding bind_err_eq_Inr [of "MultiTaskAgent_logp_a ag m m2 a_dist a_buffer"] by blast
  have sh: "is_shape3 B L1 (length (gammas ag))
               (map (map (map (clamp (- 1000) 1000))) (drop_last logp0))"
    using rest by (cases "is_shape3 B L1 (length (gammas ag))
               (map (map (map (clamp (- 1000) 1000))) (drop_last logp0))") simp_all
  have sh0: "is_shape3 B L1 (length (gammas ag)) (drop_last logp0)"
    using sh by (simp add: is_shape3_def is_shape2_def list_all_iff)
  have shf: "is_shape3 B L1 (length (gammas ag)) filter1"
    using rest by (cases "is_shape3 B L1 (length (gammas ag)) filter1") simp_all
  have "res = add_loss B L1 (length (gammas ag)) (PyFloat 0)
               (tab3 B L1 (length (gammas ag)) (\<lambda>b l g.
                  offline_coeff ag
                  * - (filter1 ! b ! l ! g
                       * map (map (map (clamp (- 1000) 1000))) (drop_last logp0) ! b ! l ! g)))"
    using rest sh shf by simp
  also have "\<dots> = LossTensor (tab3 B L1 (length (gammas ag)) (\<lambda>b l g.
                 0 + offline_coeff ag
                     * - (filter1 ! b ! l ! g
                          * clamp (- 1000) 1000 (drop_last logp0 ! b ! l ! g))))"
    unfolding add_loss_def loss_val.case
    by (simp add: map3_nth [OF sh0] cong: tab3_cong)
  finally show ?thesis using lp by blast
qed

lemma Agent_forward_parts:
  assumes "Agent_forward ag m pad_val pop rng bt = Inr (cl, al, pop')"
    and "\<not> fake_filter ag"
  shows "let ob = tstep_encoder m (obs bt) (goals bt) (rl2s bt);
             B = length ob;
             L = dim1 ob;
             G = length (gammas ag);
             s_rep = fst (traj_encoder m ob (time_idxs bt) None);
             a_dist = actor_net m (actor ag) s_rep;
             a_agent = (if discrete ag then dist_probs m a_dist
                        else if actions_differentiable m then dist_rsample m a_dist
                        else dist_sample m 0 a_dist);
             q_s_a_agent_g = critic_net m (maximized_critics ag) s_rep a_agent
         in \<exists>a_buffer dpg.
              make_a_buffer G (clamp_actions (discrete ag) (actions bt)) = Inr a_buffer
              \<and> Agent_dpg_loss ag m pop' B (L - 1) (Some q_s_a_agent_g) = Inr dpg
              \<and> Agent_fbc_loss ag m a_dist a_buffer
                   (Some (q_s_a_agent_g,
                          critic_net m (critics ag) (drop_last s_rep) (drop_last a_buffer)))
                   B (L - 1) dpg = Inr al"
  using assms unfolding Agent_forward_def Agent_critic_step_def Let_def
  by (auto simp: bind_err_eq_Inr split: prod.splits if_splits)

lemma MultiTaskAgent_forward_parts:
  assumes "MultiTaskAgent_forward ag m m2 pad_val pop rng bt = Inr (cl, al, pop')"
    and "\<not> fake_filter ag"
  shows "let ob = tstep_encoder m (obs bt) (goals bt) (rl2s bt);
             B = length ob;
             L = dim1 ob;
             G = length (gammas ag);
             s_rep = fst (traj_encoder m ob (time_idxs bt) None);
             a_dist0 = actor_net m (actor ag) s_rep;
             a_dist = (if discrete ag then DiscreteLikeContinuous m2 a_dist0 else a_dist0)
         in \<exists>a_buffer filter1 fbc.
              make_a_buffer G (clamp_actions (discrete ag) (actions bt)) = Inr a_buffer
              \<and> MultiTaskAgent_filter ag m m2 s_rep a_dist
                   (Some (critic_dist_net m2 (critics ag) s_rep a_buffer)) B L = Inr filter1
              \<and> MultiTaskAgent_fbc_loss ag m m2 a_dist a_buffer filter1 B (L - 1) = Inr fbc
              \<and> MultiTaskAgent_dpg_loss ag m m2 pop' s_rep a_dist B L fbc = Inr al"
  using assms unfolding MultiTaskAgent_forward_def MultiTaskAgent_critic_step_def Let_def
  by (auto simp: bind_err_eq_Inr split: prod.splits if_splits)

text \<open>
  Claim C5, amended. With \<open>offline_coeff > 0\<close> and \<open>fake_filter\<close> unset, the filtered
  behaviour-cloning term of a forward pass that returns is, at every batch element,
  timestep and gamma, \<open>offline_coeff * -(filter * logp)\<close>, where \<open>logp\<close> is the clamped
  log-probability of the buffer action and \<open>filter\<close> is \<open>1\<close> or \<open>0\<close>: a timestep whose
  advantage fails the predicate contributes \<open>offline_coeff * -(0 * logp)\<close>, that is
  nothing (the filter is detached, so neither does its gradient; the values are finite
  reals here). In \<open>MultiTaskAgent.forward\<close> the advantage is the online critics' mean
  value of the buffer action minus the mean, over \<open>fbc_filter_k\<close> actions sampled from the
  actor, of their mean value, and the predicate is the function \<open>fbc_filter_func\<close> the
  agent was built with, applied to the advantage tensor; \<open>binary_filter\<close>, its default, is
  \<open>advantage > threshold\<close> with the default threshold \<open>0\<close>. In \<open>Agent.forward\<close> the
  advantage is the online critics' mean value of the buffer action minus the maximized
  critics' mean value of a single action of the actor, and the predicate is fixed:
  \<open>advantage > 1e-3\<close>, whatever the agent was built with. The actor loss returned is this
  term plus the online (DPG) term.
\<close>

theorem fbc_filter_predicate:
  fixes mag :: mt_agent and ag :: agent
    and m :: "('d, 'p, 'h) modules" and m2 :: "('d, 'q) twohot_modules"
    and ma :: "('e, 'r, 'i) modules"
  shows
  "(MultiTaskAgent_forward mag m m2 pad_val pop rng bt = Inr (cl, al, pop')
      \<and> offline_coeff mag > 0 \<and> \<not> fake_filter mag \<longrightarrow>
     (let ob = tstep_encoder m (obs bt) (goals bt) (rl2s bt);
          B = length ob;
          L = dim1 ob;
          G = length (gammas mag);
          C = nat (num_critics mag);
          K = nat (fbc_filter_k mag);
          s_rep = fst (traj_encoder m ob (time_idxs bt) None);
          a_dist0 = actor_net m (actor mag) s_rep;
          a_dist = (if discrete mag then DiscreteLikeContinuous m2 a_dist0 else a_dist0)
      in \<exists>a_buffer adv logp0 fbc.
           make_a_buffer G (clamp_actions (discrete mag) (actions bt)) = Inr a_buffer
           \<and> 0 < K \<and> 0 < C
           \<and> adv = tab3 B L G (\<lambda>b l g.
                 mean (map (\<lambda>c. bin_dist_to_raw_vals m2
                                   (critic_dist_net m2 (critics mag) s_rep a_buffer)
                                 ! b ! l ! c ! g) [0..<C])
                 - mean (map (\<lambda>k.
                      mean (map (\<lambda>c.
                         bin_dist_to_raw_vals m2
                           (critic_dist_net m2 (critics mag)
                              (concat (map (replicate K) s_rep))
                              (concat (transpose (dist_sample_n m2 K a_dist))))
                         ! (b * K + k) ! l ! c ! g) [0..<C])) [0..<K]))
           \<and> MultiTaskAgent_logp_a mag m m2 a_dist a_buffer = Inr logp0
           \<and> fbc = LossTensor (tab3 B (L - 1) G (\<lambda>b l g.
                 0 + offline_coeff mag
                     * - (of_bool (drop_last (fbc_filter_func mag adv) ! b ! l ! g)
                          * clamp (- 1000) 1000 (drop_last logp0 ! b ! l ! g))))
           \<and> MultiTaskAgent_dpg_loss mag m m2 pop' s_rep a_dist B L fbc = Inr al
           \<and> (online_coeff mag > 0 \<or> al = fbc)))
   \<and> (b < length adv0 \<and> l < length (adv0 ! b) \<and> g < length (adv0 ! b ! l) \<longrightarrow>
        (binary_filter threshold adv0 ! b ! l ! g \<longleftrightarrow> adv0 ! b ! l ! g > threshold))
   \<and> binary_filter_default = binary_filter 0
   \<and> (Agent_forward ag ma pad_vala popa rnga bta = Inr (cla, ala, popa')
        \<and> offline_coeff ag > 0 \<and> \<not> fake_filter ag \<longrightarrow>
     (let ob = tstep_encoder ma (obs bta) (goals bta) (rl2s bta);
          B = length ob;
          L = dim1 ob;
          G = length (gammas ag);
          C = nat (num_critics ag);
          s_rep = fst (traj_encoder ma ob (time_idxs bta) None);
          a_dist = actor_net ma (actor ag) s_rep;
          a_agent = (if discrete ag then dist_probs ma a_dist
                     else if actions_differentiable ma then dist_rsample ma a_dist
                     else dist_sample ma 0 a_dist);
          q_s_a_agent_g = critic_net ma (maximized_critics ag) s_rep a_agent
      in \<exists>a_buffer dpg logp0.
           make_a_buffer G (clamp_actions (discrete ag) (actions bta)) = Inr a_buffer
           \<and> 0 < C
           \<and> Agent_dpg_loss ag ma popa' B (L - 1) (Some q_s_a_agent_g) = Inr dpg
           \<and> Agent_logp_a ag ma a_dist a_buffer = Inr logp0
           \<and> ala = tab3 B (L - 1) G (\<lambda>b l g.
                 dpg ! b ! l ! g
                 + offline_coeff ag
                   * - ((if mean (map (\<lambda>c. critic_net ma (critics ag) (drop_last s_rep)
                                            (drop_last a_buffer) ! b ! l ! c ! g) [0..<C])
                            - mean (map (\<lambda>c. q_s_a_agent_g ! b ! l ! c ! g) [0..<C])
                            > 1 / 1000
                         then 1 else 0)
                        * clamp (- 1000) 1000 (drop_last logp0 ! b ! l ! g)))))"
proof (intro conjI impI)
  assume h: "MultiTaskAgent_forward mag m m2 pad_val pop rng bt = Inr (cl, al, pop')
      \<and> offline_coeff mag > 0 \<and> \<not> fake_filter mag"
  then have f: "MultiTaskAgent_forward mag m m2 pad_val pop rng bt = Inr (cl, al, pop')"
    and off: "offline_coeff mag > 0" and nf: "\<not> fake_filter mag"
    by simp_all
  define ob where "ob = tstep_encoder m (obs bt) (goals bt) (rl2s bt)"
  define s_rep where "s_rep = fst (traj_encoder m ob (time_idxs bt) None)"
  define a_dist where "a_dist = (if discrete mag
       then DiscreteLikeContinuous m2 (actor_net m (actor mag) s_rep)
       else actor_net m (actor mag) s_rep)"
  from MultiTaskAgent_forward_parts [OF f nf]
  obtain a_buffer filter1 fbc where
    ab: "make_a_buffer (length (gammas mag)) (clamp_actions (discrete mag) (actions bt))
         = Inr a_buffer"
    and fl: "MultiTaskAgent_filter mag m m2 s_rep a_dist
               (Some (critic_dist_net m2 (critics mag) s_rep a_buffer)) (length ob) (dim1 ob)
             = Inr filter1"
    and fb: "MultiTaskAgent_fbc_loss mag m m2 a_dist a_buffer filter1 (length ob) (dim1 ob - 1)
             = Inr fbc"
    and dp: "MultiTaskAgent_dpg_loss mag m m2 pop' s_rep a_dist (length ob) (dim1 ob) fbc
             = Inr al"
    unfolding Let_def ob_def s_rep_def a_dist_def by blast
  from fl nf off obtain adv where
    av: "MultiTaskAgent_advantage mag m m2 s_rep a_dist
           (Some (critic_dist_net m2 (critics mag) s_rep a_buffer)) (length ob) (dim1 ob)
         = Inr adv"
    and f1: "filter1 = map (map (map of_bool)) (drop_last (fbc_filter_func mag adv))"
    by (auto simp: MultiTaskAgent_filter_def bind_err_eq_Inr)
  from MultiTaskAgent_advantage_value [OF av]
  have Kp: "0 < fbc_filter_k mag" and Cp: "0 < num_critics mag"
    and adv: "adv = tab3 (length ob) (dim1 ob) (length (gammas mag)) (\<lambda>b l g.
                mean (map (\<lambda>c. bin_dist_to_raw_vals m2
                                  (critic_dist_net m2 (critics mag) s_rep a_buffer)
                                ! b ! l ! c ! g)
                        [0..<nat (num_critics mag)])
                - mean (map (\<lambda>k.
                     mean (map (\<lambda>c.
                        bin_dist_to_raw_vals m2
                          (critic_dist_net m2 (critics mag)
                             (concat (map (replicate (nat (fbc_filter_k mag))) s_rep))
                             (concat (transpose (dist_sample_n m2 (nat (fbc_filter_k mag)) a_dist))))
                        ! (b * nat (fbc_filter_k mag) + k) ! l ! c ! g)
                        [0..<nat (num_critics mag)]))
                     [0..<nat (fbc_filter_k mag)]))"
    by auto
  from MultiTaskAgent_fbc_loss_value [OF fb off]
  obtain logp0 where lp: "MultiTaskAgent_logp_a mag m m2 a_dist a_buffer = Inr logp0"
    and fbc: "fbc = LossTensor (tab3 (length ob) (dim1 ob - 1) (length (gammas mag)) (\<lambda>b l g.
                 0 + offline_coeff mag
                     * - (filter1 ! b ! l ! g
                          * clamp (- 1000) 1000 (drop_last logp0 ! b ! l ! g))))"
    by blast
  have shf: "is_shape3 (length ob) (dim1 ob - 1) (length (gammas mag))
               (drop_last (fbc_filter_func mag adv))"
  proof -
    have "is_shape3 (length ob) (dim1 ob - 1) (length (gammas mag)) filter1"
      using fb off unfolding MultiTaskAgent_fbc_loss_def Let_def
      by (auto simp: bind_err_eq_Inr split: if_splits)
    then show ?thesis
      unfolding f1 by (simp add: is_shape3_def is_shape2_def list_all_iff)
  qed
  have fbc': "fbc = LossTensor (tab3 (length ob) (dim1 ob - 1) (length (gammas mag)) (\<lambda>b l g.
                 0 + offline_coeff mag
                     * - (of_bool (drop_last (fbc_filter_func mag adv) ! b ! l ! g)
                          * clamp (- 1000) 1000 (drop_last logp0 ! b ! l ! g))))"
    unfolding fbc f1 loss_val.inject
    by (rule tab3_cong) (simp add: map3_nth [OF shf])
  have on: "online_coeff mag > 0 \<or> al = fbc"
    using dp by (cases "online_coeff mag > 0") (simp_all add: MultiTaskAgent_dpg_loss_def Let_def)
  have Kn: "0 < nat (fbc_filter_k mag)" and Cn: "0 < nat (num_critics mag)"
    using Kp Cp by simp_all
  show "(let ob = tstep_encoder m (obs bt) (goals bt) (rl2s bt);
            B = length ob;
            L = dim1 ob;
            G = length (gammas mag);
            C = nat (num_critics mag);
            K = nat (fbc_filter_k mag);
            s_rep = fst (traj_encoder m ob (time_idxs bt) None);
            a_dist0 = actor_net m (actor mag) s_rep;
            a_dist = (if discrete mag then DiscreteLikeContinuous m2 a_dist0 else a_dist0)
        in \<exists>a_buffer adv logp0 fbc.
             make_a_buffer G (clamp_actions (discrete mag) (actions bt)) = Inr a_buffer
             \<and> 0 < K \<and> 0 < C
             \<and> adv = tab3 B L G (\<lambda>b l g.
                   mean (map (\<lambda>c. bin_dist_to_raw_vals m2
                                     (critic_dist_net m2 (critics mag) s_rep a_buffer)
                                   ! b ! l ! c ! g) [0..<C])
                   - mean (map (\<lambda>k.
                        mean (map (\<lambda>c.
                           bin_dist_to_raw_vals m2
                             (critic_dist_net m2 (critics mag)
                                (concat (map (replicate K) s_rep))
                                (concat (transpose (dist_sample_n m2 K a_dist))))
                           ! (b * K + k) ! l ! c ! g) [0..<C])) [0..<K]))
             \<and> MultiTaskAgent_logp_a mag m m2 a_dist a_buffer = Inr logp0
             \<and> fbc = LossTensor (tab3 B (L - 1) G (\<lambda>b l g.
                   0 + offline_coeff mag
                       * - (of_bool (drop_last (fbc_filter_func mag adv) ! b ! l ! g)
                            * clamp (- 1000) 1000 (drop_last logp0 ! b ! l ! g))))
             \<and> MultiTaskAgent_dpg_loss mag m m2 pop' s_rep a_dist B L fbc = Inr al
             \<and> (online_coeff mag > 0 \<or> al = fbc))"
    unfolding Let_def
    using ab Kn Cn adv lp fbc' dp on
    unfolding ob_def s_rep_def a_dist_def
    by (intro exI [of _ a_buffer] exI [of _ adv] exI [of _ logp0] exI [of _ fbc])
       (simp del: One_nat_def)
next
  assume "b < length adv0 \<and> l < length (adv0 ! b) \<and> g < length (adv0 ! b ! l)"
  then show "binary_filter threshold adv0 ! b ! l ! g \<longleftrightarrow> adv0 ! b ! l ! g > threshold"
    by (simp add: binary_filter_def)
next
  show "binary_filter_default = binary_filter 0"
    by (simp add: binary_filter_default_def)
next
  assume h: "Agent_forward ag ma pad_vala popa rnga bta = Inr (cla, ala, popa')
        \<and> offline_coeff ag > 0 \<and> \<not> fake_filter ag"
  then have f: "Agent_forward ag ma pad_vala popa rnga bta = Inr (cla, ala, popa')"
    and off: "offline_coeff ag > 0" and nf: "\<not> fake_filter ag"
    by simp_all
  define ob where "ob = tstep_encoder ma (obs bta) (goals bta) (rl2s bta)"
  define s_rep where "s_rep = fst (traj_encoder ma ob (time_idxs bta) None)"
  define a_dist where "a_dist = actor_net ma (actor ag) s_rep"
  define qa where "qa = critic_net ma (maximized_critics ag) s_rep
       (if discrete ag then dist_probs ma a_dist
        else if actions_differentiable ma then dist_rsample ma a_dist
        else dist_sample ma 0 a_dist)"
  from Agent_forward_parts [OF f nf]
  obtain a_buffer dpg where
    ab: "make_a_buffer (length (gammas ag)) (clamp_actions (discrete ag) (actions bta))
         = Inr a_buffer"
    and dp: "Agent_dpg_loss ag ma popa' (length ob) (dim1 ob - 1) (Some qa) = Inr dpg"
    and fb: "Agent_fbc_loss ag ma a_dist a_buffer
               (Some (qa, critic_net ma (critics ag) (drop_last s_rep) (drop_last a_buffer)))
               (length ob) (dim1 ob - 1) dpg = Inr ala"
    unfolding Let_def ob_def s_rep_def a_dist_def qa_def by blast
  from Agent_fbc_loss_value [OF fb off nf]
  obtain logp0 where Cp: "0 < num_critics ag"
    and lp: "Agent_logp_a ag ma a_dist a_buffer = Inr logp0"
    and ala: "ala = tab3 (length ob) (dim1 ob - 1) (length (gammas ag)) (\<lambda>b l g.
                   dpg ! b ! l ! g
                   + offline_coeff ag
                     * - ((if mean (map (\<lambda>c. critic_net ma (critics ag) (drop_last s_rep)
                                              (drop_last a_buffer) ! b ! l ! c ! g)
                                     [0..<nat (num_critics ag)])
                              - mean (map (\<lambda>c. qa ! b ! l ! c ! g)
                                        [0..<nat (num_critics ag)]) > 1 / 1000
                           then 1 else 0)
                          * clamp (- 1000) 1000 (drop_last logp0 ! b ! l ! g)))"
    by blast
  have Cn: "0 < nat (num_critics ag)" using Cp by simp
  show "(let ob = tstep_encoder ma (obs bta) (goals bta) (rl2s bta);
            B = length ob;
            L = dim1 ob;
            G = length (gammas ag);
            C = nat (num_critics ag);
            s_rep = fst (traj_encoder ma ob (time_idxs bta) None);
            a_dist = actor_net ma (actor ag) s_rep;
            a_agent = (if discrete ag then dist_probs ma a_dist
                       else if actions_differentiable ma then dist_rsample ma a_dist
                       else dist_sample ma 0 a_dist);
            q_s_a_agent_g = critic_net ma (maximized_critics ag) s_rep a_agent
        in \<exists>a_buffer dpg logp0.
             make_a_buffer G (clamp_actions (discrete ag) (actions bta)) = Inr a_buffer
             \<and> 0 < C
             \<and> Agent_dpg_loss ag ma popa' B (L - 1) (Some q_s_a_agent_g) = Inr dpg
             \<and> Agent_logp_a ag ma a_dist a_buffer = Inr logp0
             \<and> ala = tab3 B (L - 1) G (\<lambda>b l g.
                   dpg ! b ! l ! g
                   + offline_coeff ag
                     * - ((if mean (map (\<lambda>c. critic_net ma (critics ag) (drop_last s_rep)
                                              (drop_last a_buffer) ! b ! l ! c ! g) [0..<C])
                              - mean (map (\<lambda>c. q_s_a_agent_g ! b ! l ! c ! g) [0..<C])
                              > 1 / 1000
                           then 1 else 0)
                          * clamp (- 1000) 1000 (drop_last logp0 ! b ! l ! g))))"
    unfolding Let_def
    using ab Cn dp lp ala
    unfolding ob_def s_rep_def a_dist_def qa_def
    by (intro exI [of _ a_buffer] exI [of _ dpg] exI [of _ logp0])
       (simp del: One_nat_def)
qed

theorem fbc_filter_predicate_witness:
  "MultiTaskAgent_forward example_mt_threshold example_modules example_twohot 4 () example_rng
      example_batch
     = Inr (Some [[[[47 / 250, 271 / 1250], [- (39 / 250), - (177 / 1250)]], [[7 / 10, 7 / 10], [1 / 10, 1 / 10]]]],
            LossTensor [[[- (1 / 10), - (1 / 5)], [- 1, - 1]]], ())
   \<and> offline_coeff example_mt_threshold > 0 \<and> \<not> fake_filter example_mt_threshold
   \<and> (let ob = tstep_encoder example_modules (obs example_batch) (goals example_batch) (rl2s example_batch);
          B = length ob;
          L = dim1 ob;
          G = length (gammas example_mt_threshold);
          C = nat (num_critics example_mt_threshold);
          K = nat (fbc_filter_k example_mt_threshold);
          s_rep = fst (traj_encoder example_modules ob (time_idxs example_batch) None);
          a_dist0 = actor_net example_modules (actor example_mt_threshold) s_rep;
          a_dist = (if discrete example_mt_threshold then DiscreteLikeContinuous example_twohot a_dist0 else a_dist0)
      in \<exists>a_buffer adv logp0 fbc.
           make_a_buffer G (clamp_actions (discrete example_mt_threshold) (actions example_batch)) = Inr a_buffer
           \<and> 0 < K \<and> 0 < C
           \<and> adv = tab3 B L G (\<lambda>b l g.
                 mean (map (\<lambda>c. bin_dist_to_raw_vals example_twohot
                                   (critic_dist_net example_twohot (critics example_mt_threshold) s_rep a_buffer)
                                 ! b ! l ! c ! g) [0..<C])
                 - mean (map (\<lambda>k.
                      mean (map (\<lambda>c.
                         bin_dist_to_raw_vals example_twohot
                           (critic_dist_net example_twohot (critics example_mt_threshold)
                              (concat (map (replicate K) s_rep))
                              (concat (transpose (dist_sample_n example_twohot K a_dist))))
                         ! (b * K + k) ! l ! c ! g) [0..<C])) [0..<K]))
           \<and> MultiTaskAgent_logp_a example_mt_threshold example_modules example_twohot a_dist a_buffer = Inr logp0
           \<and> fbc = LossTensor (tab3 B (L - 1) G (\<lambda>b l g.
                 0 + offline_coeff example_mt_threshold
                     * - (of_bool (drop_last (fbc_filter_func example_mt_threshold adv) ! b ! l ! g)
                          * clamp (- 1000) 1000 (drop_last logp0 ! b ! l ! g))))
           \<and> MultiTaskAgent_dpg_loss example_mt_threshold example_modules example_twohot () s_rep a_dist B L fbc = Inr (LossTensor [[[- (1 / 10), - (1 / 5)], [- 1, - 1]]])
           \<and> (online_coeff example_mt_threshold > 0 \<or> (LossTensor [[[- (1 / 10), - (1 / 5)], [- 1, - 1]]]) = fbc))
   \<and> binary_filter 0 [[[1 / 2000, - 1]]] ! 0 ! 0 ! 0
   \<and> Agent_forward example_offline example_modules 4 () example_rng example_batch
     = Inr (Some [[[[289, 32041 / 100], [225, 25281 / 100]], [[225, 225], [169, 169]]]],
            [[[0, 0], [0, 0]]], ())
   \<and> offline_coeff example_offline > 0 \<and> \<not> fake_filter example_offline
   \<and> (let ob = tstep_encoder example_modules (obs example_batch) (goals example_batch) (rl2s example_batch);
          B = length ob;
          L = dim1 ob;
          G = length (gammas example_offline);
          C = nat (num_critics example_offline);
          s_rep = fst (traj_encoder example_modules ob (time_idxs example_batch) None);
          a_dist = actor_net example_modules (actor example_offline) s_rep;
          a_agent = (if discrete example_offline then dist_probs example_modules a_dist
                     else if actions_differentiable example_modules then dist_rsample example_modules a_dist
                     else dist_sample example_modules 0 a_dist);
          q_s_a_agent_g = critic_net example_modules (maximized_critics example_offline) s_rep a_agent
      in \<exists>a_buffer dpg logp0.
           make_a_buffer G (clamp_actions (discrete example_offline) (actions example_batch)) = Inr a_buffer
           \<and> 0 < C
           \<and> Agent_dpg_loss example_offline example_modules () B (L - 1) (Some q_s_a_agent_g) = Inr dpg
           \<and> Agent_logp_a example_offline example_modules a_dist a_buffer = Inr logp0
           \<and> [[[0, 0], [0, 0]]] = tab3 B (L - 1) G (\<lambda>b l g.
                 dpg ! b ! l ! g
                 + offline_coeff example_offline
                   * - ((if mean (map (\<lambda>c. critic_net example_modules (critics example_offline) (drop_last s_rep)
                                            (drop_last a_buffer) ! b ! l ! c ! g) [0..<C])
                            - mean (map (\<lambda>c. q_s_a_agent_g ! b ! l ! c ! g) [0..<C])
                            > 1 / 1000
                         then 1 else 0)
                        * clamp (- 1000) 1000 (drop_last logp0 ! b ! l ! g))))"
proof -
  note t = fbc_filter_predicate [where mag = example_mt_threshold and m = example_modules
      and ?m2.0 = example_twohot and pad_val = 4 and pop = "()" and rng = example_rng
      and bt = example_batch
      and cl = "Some [[[[47 / 250, 271 / 1250], [- (39 / 250), - (177 / 1250)]], [[7 / 10, 7 / 10], [1 / 10, 1 / 10]]]]"
      and al = "LossTensor [[[- (1 / 10), - (1 / 5)], [- 1, - 1]]]" and pop' = "()"
      and b = 0 and l = 0 and g = 0 and ?adv0.0 = "[[[1 / 2000, - 1]]]" and threshold = 0
      and ag = example_offline and ma = example_modules and pad_vala = 4 and popa = "()"
      and rnga = example_rng and bta = example_batch
      and cla = "Some [[[[289, 32041 / 100], [225, 25281 / 100]], [[225, 225], [169, 169]]]]"
      and ala = "[[[0, 0], [0, 0]]]" and popa' = "()"]
  have h1: "MultiTaskAgent_forward example_mt_threshold example_modules example_twohot 4 ()
      example_rng example_batch
     = Inr (Some [[[[47 / 250, 271 / 1250], [- (39 / 250), - (177 / 1250)]], [[7 / 10, 7 / 10], [1 / 10, 1 / 10]]]],
            LossTensor [[[- (1 / 10), - (1 / 5)], [- 1, - 1]]], ())"
    by code_simp
  have h2: "offline_coeff example_mt_threshold > 0"
    by code_simp
  have h3: "\<not> fake_filter example_mt_threshold"
    by code_simp
  have h4: "Agent_forward example_offline example_modules 4 () example_rng example_batch
     = Inr (Some [[[[289, 32041 / 100], [225, 25281 / 100]], [[225, 225], [169, 169]]]],
            [[[0, 0], [0, 0]]], ())"
    by code_simp
  have h5: "offline_coeff example_offline > 0"
    by code_simp
  have h6: "\<not> fake_filter example_offline"
    by code_simp
  note c1 = t [THEN conjunct1, THEN mp, OF conjI [OF h1 conjI [OF h2 h3]]]
  note c3 = t [THEN conjunct2, THEN conjunct2, THEN conjunct2, THEN mp,
      OF conjI [OF h4 conjI [OF h5 h6]]]
  have c2: "binary_filter 0 [[[1 / 2000, - 1]]] ! 0 ! 0 ! (0 :: nat)"
    using t [THEN conjunct2, THEN conjunct1] by simp
  show ?thesis
    by (intro conjI) (rule h1 h2 h3 h4 h5 h6 c1 c2 c3)+
qed

text \<open>
  As stated, with a pluggable predicate (\<open>binary_filter\<close> with the default threshold
  \<open>0\<close>) in both variants, the claim fails for \<open>Agent\<close>, whose constructor takes no filter
  function. In the example every timestep has the advantage \<open>1/2000\<close> (far from both
  thresholds), which \<open>binary_filter\<close> with its default threshold accepts; the forward pass
  of \<open>Agent\<close> gives these timesteps the weight \<open>0\<close>, where the weight \<open>1\<close> (as under
  \<open>fake_filter\<close>) would give each of them the loss \<open>0.1386\<close>.
\<close>

theorem fbc_filter_predicate_counterexample:
  "make_a_buffer 2 (clamp_actions True (actions example_batch))
     = Inr [[[[0, 1, 0, 0], [0, 1, 0, 0]], [[1, 1, 1, 1], [1, 1, 1, 1]],
            [[1, 1, 1, 1], [1, 1, 1, 1]]]]
   \<and> Agent_advantage 1 2 2 2
        (critic_net example_filter_modules (critics example_filter_agent)
           (drop_last (rl2s example_batch))
           (drop_last [[[[0, 1, 0, 0], [0, 1, 0, 0]], [[1, 1, 1, 1], [1, 1, 1, 1]],
                        [[1, 1, 1, 1], [1, 1, 1, 1]]]]))
        (critic_net example_filter_modules (maximized_critics example_filter_agent)
           (rl2s example_batch)
           (dist_probs example_filter_modules
              (actor_net example_filter_modules (actor example_filter_agent)
                 (rl2s example_batch))))
     = Inr [[[1 / 2000, 1 / 2000], [1 / 2000, 1 / 2000]]]
   \<and> binary_filter_default [[[1 / 2000, 1 / 2000], [1 / 2000, 1 / 2000]]]
     = [[[True, True], [True, True]]]
   \<and> Agent_filter [[[1 / 2000, 1 / 2000], [1 / 2000, 1 / 2000]]] = [[[0, 0], [0, 0]]]
   \<and> \<not> fake_filter example_filter_agent \<and> offline_coeff example_filter_agent = 1 / 10
   \<and> map_sum id (\<lambda>r. fst (snd r))
        (Agent_forward example_filter_agent example_filter_modules 4 () example_rng
           example_batch)
     = Inr [[[0, 0], [0, 0]]]
   \<and> map_sum id (\<lambda>r. fst (snd r))
        (Agent_forward (example_filter_agent\<lparr>fake_filter := True\<rparr>) example_filter_modules 4 ()
           example_rng example_batch)
     = Inr [[[693 / 5000, 693 / 5000], [693 / 5000, 693 / 5000]]]"
  by code_simp

end
